(* ===== verification/Prelude.thy ===== *)
theory Prelude
  imports Main "HOL-Library.Sublist" "HOL-Library.Multiset"
begin

text \<open>
  Shared vocabulary of the CivicConnect model (\<open>src/script.js\<close>).
  The JavaScript built-ins the program leans on are written out here once:
  \<open>String.prototype.trim\<close>, \<open>toLowerCase\<close> on ASCII, the regular-expression word
  class, \<open>Array.prototype.indexOf\<close>, \<open>Array.prototype.find\<close> followed by an in-place
  mutation of the object found (\<open>update_first\<close>), and \<open>String.prototype.includes\<close>.
  Strings are \<open>char list\<close>s and the model covers ASCII text: one HOL character is one
  UTF-16 code unit of the source. Times are milliseconds since the epoch
  (\<open>Date.now()\<close>), as \<open>int\<close>.
  The collection \<open>js_simps\<close> gathers the evaluation equations of these built-ins;
  component proofs use it with \<open>simp add: js_simps\<close>.
\<close>

named_theorems js_simps "evaluation equations of the modelled JavaScript built-ins"

type_synonym timestamp = int

subsection \<open>Strings\<close>

text \<open>
  JavaScript white space and line terminators among the 256 characters of \<open>char\<close>:
  tab, line feed, vertical tab, form feed, carriage return, space and the
  no-break space U+00A0.
\<close>

definition js_whitespace :: "char \<Rightarrow> bool" where
  "js_whitespace c \<longleftrightarrow>
     c \<in> set [CHR '' '', CHR 0x09, CHR 0x0A, CHR 0x0B, CHR 0x0C, CHR 0x0D, CHR 0xA0]"

text \<open>\<open>s.trim()\<close>: white space removed at both ends.\<close>

definition js_trim :: "string \<Rightarrow> string" where
  "js_trim s = rev (dropWhile js_whitespace (rev (dropWhile js_whitespace s)))"

definition ascii_lower :: "char \<Rightarrow> char" where
  "ascii_lower c =
     (let n = (of_char c :: nat) in if 65 \<le> n \<and> n \<le> 90 then char_of (n + 32) else c)"

definition ascii_upper :: "char \<Rightarrow> char" where
  "ascii_upper c =
     (let n = (of_char c :: nat) in if 97 \<le> n \<and> n \<le> 122 then char_of (n - 32) else c)"

text \<open>\<open>s.toLowerCase()\<close> on ASCII text.\<close>

definition js_lower :: "string \<Rightarrow> string" where
  "js_lower s = map ascii_lower s"

text \<open>The class \<open>\w\<close> of a regular expression: \<open>[A-Za-z0-9_]\<close> (character codes).\<close>

definition is_word_char :: "char \<Rightarrow> bool" where
  "is_word_char c \<longleftrightarrow>
     (let n = (of_char c :: nat) in
        (97 \<le> n \<and> n \<le> 122) \<or> (65 \<le> n \<and> n \<le> 90) \<or> (48 \<le> n \<and> n \<le> 57) \<or> n = 95)"

text \<open>\<open>s.includes(t)\<close>: \<open>t\<close> occurs in \<open>s\<close> as a contiguous piece.\<close>

definition js_includes :: "string \<Rightarrow> string \<Rightarrow> bool" where
  "js_includes s t \<longleftrightarrow> sublist t s"

subsection \<open>Arrays\<close>

text \<open>\<open>xs.indexOf(x)\<close>: the first index of \<open>x\<close>, or \<open>-1\<close>.\<close>

fun index_of :: "'a list \<Rightarrow> 'a \<Rightarrow> int" where
  "index_of [] x = -1"
| "index_of (y # ys) x = (if y = x then 0 else (if index_of ys x = -1 then -1 else index_of ys x + 1))"

text \<open>
  \<open>const o = xs.find(p); if (o) { mutate o }\<close>: the first element satisfying the
  predicate is replaced by its mutated copy; nothing changes when none does.
\<close>

fun update_first :: "('a \<Rightarrow> bool) \<Rightarrow> ('a \<Rightarrow> 'a) \<Rightarrow> 'a list \<Rightarrow> 'a list" where
  "update_first P f [] = []"
| "update_first P f (x # xs) = (if P x then f x # xs else x # update_first P f xs)"

text \<open>\<open>xs.join(sep)\<close>.\<close>

fun js_join :: "string \<Rightarrow> string list \<Rightarrow> string" where
  "js_join sep [] = []"
| "js_join sep [x] = x"
| "js_join sep (x # y # ys) = x @ sep @ js_join sep (y # ys)"

lemmas [js_simps] = js_trim_def js_lower_def ascii_lower_def ascii_upper_def
  js_whitespace_def is_word_char_def js_includes_def

subsection \<open>Lemmas on the built-ins\<close>

lemma js_trim_length_le: "length (js_trim s) \<le> length s"
proof -
  have "length (dropWhile js_whitespace (rev (dropWhile js_whitespace s)))
        \<le> length (rev (dropWhile js_whitespace s))"
    by (rule length_dropWhile_le)
  also have "\<dots> \<le> length s" by (simp add: length_dropWhile_le)
  finally show ?thesis by (simp add: js_trim_def)
qed

lemma js_trim_id:
  "s \<noteq> [] \<Longrightarrow> \<not> js_whitespace (hd s) \<Longrightarrow> \<not> js_whitespace (last s) \<Longrightarrow> js_trim s = s"
proof -
  assume ne: "s \<noteq> []" and h: "\<not> js_whitespace (hd s)" and l: "\<not> js_whitespace (last s)"
  from ne h have "dropWhile js_whitespace s = s" by (cases s) simp_all
  moreover from ne l have "dropWhile js_whitespace (rev s) = rev s" by (cases "rev s") (simp_all add: hd_rev)
  ultimately show ?thesis by (simp add: js_trim_def)
qed

lemma index_of_bounds: "-1 \<le> index_of xs x \<and> index_of xs x < int (length xs)"
  by (induction xs) auto

lemma index_of_nth:
  "x \<in> set xs \<Longrightarrow> index_of xs x \<ge> 0 \<and> xs ! nat (index_of xs x) = x"
proof (induction xs)
  case Nil
  then show ?case by simp
next
  case (Cons y ys)
  show ?case
  proof (cases "y = x")
    case True
    then show ?thesis by simp
  next
    case False
    with Cons.prems have "x \<in> set ys" by simp
    with Cons.IH have ge: "index_of ys x \<ge> 0" and nth: "ys ! nat (index_of ys x) = x"
      by auto
    from ge have "nat (index_of ys x + 1) = Suc (nat (index_of ys x))" by simp
    with False ge nth show ?thesis by simp
  qed
qed

lemma index_of_notin: "x \<notin> set xs \<Longrightarrow> index_of xs x = -1"
  by (induction xs) auto

lemma length_update_first [simp]: "length (update_first P f xs) = length xs"
  by (induction xs) auto

lemma update_first_no_match: "find P xs = None \<Longrightarrow> update_first P f xs = xs"
  by (induction xs) (auto split: if_splits)

lemma update_first_map:
  "(\<And>x. g (f x) = g x) \<Longrightarrow> map g (update_first P f xs) = map g xs"
  by (induction xs) auto

lemma update_first_set:
  "y \<in> set (update_first P f xs) \<Longrightarrow> y \<in> set xs \<or> (\<exists>x\<in>set xs. P x \<and> y = f x)"
  by (induction xs) (auto split: if_splits)

lemma update_first_all:
  "(\<And>x. Q x \<Longrightarrow> P x \<Longrightarrow> Q (f x)) \<Longrightarrow> \<forall>x\<in>set xs. Q x \<Longrightarrow>
   \<forall>x\<in>set (update_first P f xs). Q x"
  by (induction xs) auto

lemma update_first_find:
  "find P xs = Some x \<Longrightarrow> (\<And>y. P (f y) = P y) \<Longrightarrow> find P (update_first P f xs) = Some (f x)"
  by (induction xs) (auto split: if_splits)

lemma update_first_nth:
  "i < length xs \<Longrightarrow> update_first P f xs ! i = xs ! i \<or>
     (P (xs ! i) \<and> update_first P f xs ! i = f (xs ! i))"
proof (induction xs arbitrary: i)
  case Nil
  then show ?case by simp
next
  case (Cons x xs)
  then show ?case by (cases i) auto
qed

lemma find_Some_mem: "find P xs = Some x \<Longrightarrow> P x \<and> x \<in> set xs"
  by (induction xs) (auto split: if_splits)

lemma mset_update_first:
  "find P xs = Some x \<Longrightarrow> mset (update_first P f xs) = mset xs - {#x#} + {#f x#}"
  by (induction xs) (auto split: if_splits dest: find_Some_mem simp: diff_union_swap)

lemma update_first_keep: "x \<in> set xs \<Longrightarrow> \<not> P x \<Longrightarrow> x \<in> set (update_first P f xs)"
  by (induction xs) auto

lemma update_first_found_all:
  "find P xs = Some x \<Longrightarrow> Q (f x) \<Longrightarrow> \<forall>y\<in>set xs. Q y \<Longrightarrow> \<forall>y\<in>set (update_first P f xs). Q y"
  by (induction xs) (auto split: if_splits)

lemma insort_key_map: "insort_key f (g x) (map g xs) = map g (insort_key (\<lambda>y. f (g y)) x xs)"
  by (induction xs) auto

lemma sort_key_map: "sort_key f (map g xs) = map g (sort_key (\<lambda>y. f (g y)) xs)"
  by (induction xs) (simp_all add: insort_key_map)

end
