(* ===== verification/Report.thy ===== *)
theory Report
  imports Prelude
begin

text \<open>
  The data the program keeps (\<open>src/script.js\<close>): the report object built by
  \<open>collectReportData\<close> (lines 143--163) and extended by \<open>routeReport\<close> and
  \<open>saveDraft\<close>, its timeline entries, the evidence-file descriptors of
  \<open>getEvidenceFiles\<close>, and the user object of \<open>registerUser\<close>.
  A field that the JavaScript object may lack (\<open>undefined\<close>) is an \<open>option\<close>.
  The form is the DOM input the handlers read; \<open>generateId()\<close> and
  \<open>new Date()\<close> are inputs of the model (an id and a clock reading).
\<close>

record evidence_file =
  ev_name :: string
  ev_size :: int
  ev_type :: string
  ev_lastModified :: timestamp

record timeline_entry =
  te_status :: string
  te_date :: timestamp
  te_description :: string

text \<open>
  \<open>report.assignedTo\<close> holds what \<open>routingRules[category]\<close> returned: an authority
  name, or, for a category that names a member of \<open>Object.prototype\<close>, that member
  (a function, or the prototype object for \<open>__proto__\<close>).
\<close>

datatype assignee = Authority string | ProtoMember string

record report =
  report_id :: string
  title :: string
  category :: string
  priority :: string
  location :: string
  description :: string
  evidence :: "evidence_file list option"
  isPublic :: bool
  isAnonymous :: bool
  submittedBy :: "string option"
  submittedAt :: timestamp
  status :: string
  timeline :: "timeline_entry list"
  assignedTo :: "assignee option"
  routedAt :: "timestamp option"
  isDraft :: bool
  savedAt :: "timestamp option"

record user =
  user_id :: string
  name :: string
  email :: string
  phone :: string
  user_location :: string
  registeredAt :: timestamp
  isVerified :: bool

text \<open>The report form as the DOM presents it to \<open>collectReportData\<close>.\<close>

record report_form =
  issueTitle :: string
  issueCategory :: string
  form_priority :: string
  form_location :: string
  form_description :: string
  form_files :: "evidence_file list"
  publicReport :: bool
  anonymousReport :: bool

text \<open>\<open>getEvidenceFiles\<close>: one descriptor per selected file, fields copied.\<close>

definition getEvidenceFiles :: "evidence_file list \<Rightarrow> evidence_file list" where
  "getEvidenceFiles fs =
     map (\<lambda>f. \<lparr>ev_name = ev_name f, ev_size = ev_size f, ev_type = ev_type f,
               ev_lastModified = ev_lastModified f\<rparr>) fs"

text \<open>
  \<open>collectReportData\<close>: the new report, in state \<open>submitted\<close> with one timeline
  entry. \<open>submittedBy\<close> is \<open>'offline_user'\<close> when offline, else the current user's
  id, \<open>undefined\<close> when nobody is registered. The form's anonymity box does not
  enter \<open>submittedBy\<close>. Both \<open>new Date()\<close> calls read the same clock value \<open>now\<close>.
\<close>

definition collectReportData ::
  "string \<Rightarrow> timestamp \<Rightarrow> bool \<Rightarrow> user option \<Rightarrow> report_form \<Rightarrow> report" where
  "collectReportData rid now offline cu f =
     \<lparr>report_id = rid, title = issueTitle f, category = issueCategory f,
      priority = form_priority f, location = form_location f,
      description = form_description f, evidence = Some (getEvidenceFiles (form_files f)),
      isPublic = publicReport f, isAnonymous = anonymousReport f,
      submittedBy = (if offline then Some ''offline_user'' else map_option user_id cu),
      submittedAt = now, status = ''submitted'',
      timeline = [\<lparr>te_status = ''submitted'', te_date = now,
                   te_description = ''Report submitted by citizen''\<rparr>],
      assignedTo = None, routedAt = None, isDraft = False, savedAt = None\<rparr>"

lemma getEvidenceFiles_id [simp]: "getEvidenceFiles fs = fs"
  unfolding getEvidenceFiles_def by (rule map_idI) simp

lemma collectReportData_fields [simp]:
  "status (collectReportData rid now off cu f) = ''submitted''"
  "timeline (collectReportData rid now off cu f) =
     [\<lparr>te_status = ''submitted'', te_date = now, te_description = ''Report submitted by citizen''\<rparr>]"
  "report_id (collectReportData rid now off cu f) = rid"
  "title (collectReportData rid now off cu f) = issueTitle f"
  "category (collectReportData rid now off cu f) = issueCategory f"
  "description (collectReportData rid now off cu f) = form_description f"
  "location (collectReportData rid now off cu f) = form_location f"
  "submittedAt (collectReportData rid now off cu f) = now"
  "assignedTo (collectReportData rid now off cu f) = None"
  "isDraft (collectReportData rid now off cu f) = False"
  by (simp_all add: collectReportData_def)

text \<open>
  The comparator \<open>(a, b) => new Date(b.submittedAt) - new Date(a.submittedAt)\<close> of
  \<open>getFilteredReports\<close> and \<open>updateRecentActivity\<close> under \<open>Array.prototype.sort\<close>,
  which is stable: newest first, reports submitted at the same time in their order.
\<close>

definition newest_first :: "report list \<Rightarrow> report list" where
  "newest_first rs = sort_key (\<lambda>r. - submittedAt r) rs"

lemma newest_first_mset [simp]: "mset (newest_first rs) = mset rs"
  by (simp add: newest_first_def)

lemma newest_first_set [simp]: "set (newest_first rs) = set rs"
  by (simp add: newest_first_def)

lemma newest_first_length [simp]: "length (newest_first rs) = length rs"
  by (simp add: newest_first_def)

lemma newest_first_idem [simp]: "newest_first (newest_first rs) = newest_first rs"
  by (simp add: newest_first_def sorted_sort_key sort_key_id_if_sorted)

text \<open>A filled-in form, used by the examples of the development.\<close>

definition sample_form :: "string \<Rightarrow> string \<Rightarrow> string \<Rightarrow> report_form" where
  "sample_form t c d =
     \<lparr>issueTitle = t, issueCategory = c, form_priority = ''medium'', form_location = [],
      form_description = d, form_files = [], publicReport = True, anonymousReport = False\<rparr>"

text \<open>
  Claim C23. Ticking "report anonymously" does not make the report anonymous: with
  a registered user and the browser online, \<open>submittedBy\<close> is the user's id.
\<close>

theorem anonymous_report_keeps_user:
  "anonymousReport f \<Longrightarrow> isAnonymous (collectReportData rid t False (Some u) f) \<and>
     submittedBy (collectReportData rid t False (Some u) f) = Some (user_id u)"
  by (simp add: collectReportData_def)

theorem anonymous_report_keeps_user_witness:
  "anonymousReport ((sample_form ''Pothole'' ''other'' [])\<lparr>anonymousReport := True\<rparr>) \<and>
   isAnonymous (collectReportData ''r'' 0 False
     (Some \<lparr>user_id = ''u1'', name = ''Ann'', email = ''a@b'', phone = [], user_location = [],
            registeredAt = 0, isVerified = True\<rparr>)
     ((sample_form ''Pothole'' ''other'' [])\<lparr>anonymousReport := True\<rparr>)) \<and>
   submittedBy (collectReportData ''r'' 0 False
     (Some \<lparr>user_id = ''u1'', name = ''Ann'', email = ''a@b'', phone = [], user_location = [],
            registeredAt = 0, isVerified = True\<rparr>)
     ((sample_form ''Pothole'' ''other'' [])\<lparr>anonymousReport := True\<rparr>)) = Some ''u1''"
  using anonymous_report_keeps_user
    [of "(sample_form ''Pothole'' ''other'' [])\<lparr>anonymousReport := True\<rparr>" "''r''" 0
        "\<lparr>user_id = ''u1'', name = ''Ann'', email = ''a@b'', phone = [], user_location = [],
           registeredAt = 0, isVerified = True\<rparr>"]
  by simp

end
