(* ===== verification/Sanitize.thy ===== *)
theory Sanitize
  imports Prelude
begin

text \<open>
  \<open>sanitizeInput\<close> (\<open>src/script.js\<close> lines 189--192):
  \<^verbatim>\<open>input.trim().replace(/<script\b[^<]*(?:(?!<\/script>)<[^<]*)*<\/script>/gi, '')\<close>
  The expression, case-insensitive, matches at a position where \<open><script\<close>
  begins and is followed by a word boundary, and extends to the first
  \<open></script>\<close> after it: every \<open><\<close> inside the match must not begin
  \<open></script>\<close>, so the match cannot run past the first closing tag, and it must end
  with one. Without a closing tag there is no match at that position. The global
  replacement scans left to right, resuming after each match and one character
  further after a failed position. \<open>strip_scripts\<close> is that scan.
\<close>

text \<open>Case-insensitive prefix test against a lower-case pattern.\<close>

definition ci_prefix :: "string \<Rightarrow> string \<Rightarrow> bool" where
  "ci_prefix p s \<longleftrightarrow> js_lower (take (length p) s) = p"

text \<open>\<open><script\b\<close> matches at the start of \<open>s\<close>.\<close>

definition opens_script :: "string \<Rightarrow> bool" where
  "opens_script s \<longleftrightarrow>
     ci_prefix ''<script'' s \<and> (case drop 7 s of [] \<Rightarrow> True | c # _ \<Rightarrow> \<not> is_word_char c)"

text \<open>What follows the first \<open></script>\<close> of \<open>s\<close>, if there is one.\<close>

fun close_rest :: "string \<Rightarrow> string option" where
  "close_rest [] = None"
| "close_rest (c # cs) =
     (if ci_prefix ''</script>'' (c # cs) then Some (drop 9 (c # cs)) else close_rest cs)"

lemma ci_prefix_length: "ci_prefix p s \<Longrightarrow> length p \<le> length s"
proof -
  assume "ci_prefix p s"
  then have "length (js_lower (take (length p) s)) = length p" by (simp add: ci_prefix_def)
  then show ?thesis by (simp add: js_lower_def)
qed

lemma close_rest_shorter: "close_rest s = Some r \<Longrightarrow> length r + 9 \<le> length s"
proof (induction s rule: close_rest.induct)
  case 1
  then show ?case by simp
next
  case (2 c cs)
  show ?case
  proof (cases "ci_prefix ''</script>'' (c # cs)")
    case True
    then have "9 \<le> length (c # cs)" using ci_prefix_length by fastforce
    moreover from True "2.prems" have "r = drop 9 (c # cs)" by simp
    ultimately show ?thesis by simp
  next
    case False
    with "2.prems" have "close_rest cs = Some r" by simp
    with "2.IH" False show ?thesis by simp
  qed
qed

lemma close_rest_suffix: "close_rest s = Some r \<Longrightarrow> suffix r s"
  by (induction s rule: close_rest.induct)
     (auto split: if_splits intro: suffix_drop suffix_ConsI)

function strip_scripts :: "string \<Rightarrow> string" where
  "strip_scripts [] = []"
| "strip_scripts (c # cs) =
     (if opens_script (c # cs) then
        (case close_rest (drop 7 (c # cs)) of
           Some rest \<Rightarrow> strip_scripts rest
         | None \<Rightarrow> c # strip_scripts cs)
      else c # strip_scripts cs)"
  by pat_completeness auto
termination
proof (relation "measure length")
  fix c cs rest
  assume "close_rest (drop 7 (c # cs)) = Some rest"
  then have "length rest + 9 \<le> length (drop 7 (c # cs))" by (rule close_rest_shorter)
  then show "(rest, c # cs) \<in> measure length" by simp
qed auto

definition sanitizeInput :: "string \<Rightarrow> string" where
  "sanitizeInput input = (if input = [] then [] else strip_scripts (js_trim input))"

subsection \<open>Properties of the scan\<close>

lemma strip_scripts_subseq: "subseq (strip_scripts s) s"
proof (induction s rule: strip_scripts.induct)
  case 1
  then show ?case by simp
next
  case (2 c cs)
  show ?case
  proof (cases "opens_script (c # cs)")
    case o: True
    show ?thesis
    proof (cases "close_rest (drop 7 (c # cs))")
      case None
      with o "2.IH" show ?thesis by simp
    next
      case (Some rest)
      with o "2.IH" have "subseq (strip_scripts rest) rest" by simp
      moreover from Some have "suffix rest (drop 7 (c # cs))" by (rule close_rest_suffix)
      then have "subseq rest (c # cs)"
        by (meson suffix_drop suffix_order.order_trans suffix_imp_subseq)
      ultimately have "subseq (strip_scripts rest) (c # cs)"
        by (rule subseq_order.order_trans)
      with o Some show ?thesis by simp
    qed
  next
    case False
    with "2.IH" show ?thesis by simp
  qed
qed

lemma strip_scripts_length: "length (strip_scripts s) \<le> length s"
  using strip_scripts_subseq list_emb_length by blast

subsection \<open>Properties of the sanitiser\<close>

lemma ascii_lower_lt: "ascii_lower c = CHR ''<'' \<Longrightarrow> c = CHR ''<''"
proof (cases "65 \<le> (of_char c :: nat) \<and> (of_char c :: nat) \<le> 90")
  case True
  assume h: "ascii_lower c = CHR ''<''"
  from True have "(of_char (ascii_lower c) :: nat) = of_char c + 32"
    by (simp add: ascii_lower_def Let_def of_char_of)
  with h True show ?thesis by simp
next
  case False
  assume "ascii_lower c = CHR ''<''"
  with False show ?thesis by (auto simp: ascii_lower_def Let_def split: if_splits)
qed

lemma ci_prefix_Cons_lt:
  "c \<noteq> CHR ''<'' \<Longrightarrow> \<not> ci_prefix ''</script>'' (c # s)"
  by (auto simp: ci_prefix_def js_lower_def dest: ascii_lower_lt)

lemma no_lt_not_opens: "CHR ''<'' \<noteq> c \<Longrightarrow> \<not> opens_script (c # cs)"
  by (auto simp: opens_script_def ci_prefix_def js_lower_def dest: ascii_lower_lt)

text \<open>Text without \<open><\<close> passes the script scan unchanged.\<close>

lemma strip_scripts_no_lt: "CHR ''<'' \<notin> set s \<Longrightarrow> strip_scripts s = s"
  by (induction s) (simp_all add: no_lt_not_opens)

lemma no_close_straddle:
  assumes ne: "xs \<noteq> []" and short: "length xs < 9"
  shows "\<not> ci_prefix ''</script>'' (xs @ ''</script>'' @ t)"
proof
  assume h: "ci_prefix ''</script>'' (xs @ ''</script>'' @ t)"
  let ?k = "length xs"
  have eq: "js_lower (take (length ''</script>'') (xs @ ''</script>'' @ t)) = ''</script>''"
    using h unfolding ci_prefix_def .
  have "''</script>'' ! ?k = js_lower (take (length ''</script>'') (xs @ ''</script>'' @ t)) ! ?k"
    by (simp only: eq)
  also have "\<dots> = ascii_lower ((xs @ ''</script>'' @ t) ! ?k)"
    using short by (simp add: js_lower_def nth_append)
  also have "\<dots> = CHR ''<''" by (simp add: ascii_lower_def)
  finally have lt: "''</script>'' ! ?k = CHR ''<''" .
  have "\<And>k. 0 < k \<Longrightarrow> k < 9 \<Longrightarrow> ''</script>'' ! k \<noteq> CHR ''<''"
    by (auto simp add: numeral_eq_Suc less_Suc_eq)
  with ne short lt show False by simp
qed

lemma close_rest_append:
  "close_rest b = None \<Longrightarrow> close_rest (b @ ''</script>'' @ t) = Some t"
proof (induction b)
  case Nil
  then show ?case by (simp add: ci_prefix_def js_lower_def ascii_lower_def)
next
  case (Cons c cs)
  from Cons.prems have nc: "\<not> ci_prefix ''</script>'' (c # cs)" and rest: "close_rest cs = None"
    by (auto split: if_splits)
  have "\<not> ci_prefix ''</script>'' (c # cs @ ''</script>'' @ t)"
  proof (cases "9 \<le> length (c # cs)")
    case True
    then have "take 9 (c # cs @ ''</script>'' @ t) = take 9 (c # cs)" by simp
    with nc show ?thesis by (simp add: ci_prefix_def)
  next
    case False
    then show ?thesis using no_close_straddle [of "c # cs" t] by simp
  qed
  with Cons.IH rest show ?case by simp
qed

text \<open>A script element whose body has no closing tag is one match of the expression.\<close>

lemma script_block_removed:
  "close_rest body = None \<Longrightarrow>
   strip_scripts (''<script>'' @ body @ ''</script>'' @ t) = strip_scripts t"
proof -
  assume b: "close_rest body = None"
  have o: "opens_script (''<script>'' @ body @ ''</script>'' @ t)"
    by (simp add: opens_script_def ci_prefix_def js_lower_def ascii_lower_def is_word_char_def)
  have "close_rest (CHR ''>'' # body @ ''</script>'' @ t) = Some t"
    using close_rest_append [OF b] ci_prefix_Cons_lt [of "CHR ''>''"] by simp
  with o show ?thesis by simp
qed

lemma close_rest_no_lt: "CHR ''<'' \<notin> set s \<Longrightarrow> close_rest s = None"
  by (induction s) (auto simp: ci_prefix_Cons_lt)

lemma strip_scripts_append_no_lt:
  "CHR ''<'' \<notin> set xs \<Longrightarrow> strip_scripts (xs @ ys) = xs @ strip_scripts ys"
  by (induction xs) (simp_all add: no_lt_not_opens)

text \<open>
  Claim C15. A script element whose body contains no closing tag is removed
  completely, and the scan goes on after it.
\<close>

theorem strip_script_block:
  "close_rest body = None \<Longrightarrow>
   strip_scripts (''<script>'' @ body @ ''</script>'' @ t) = strip_scripts t"
  by (rule script_block_removed)

theorem strip_script_block_witness:
  "close_rest ''alert(1)'' = None \<and>
   strip_scripts (''<script>'' @ ''alert(1)'' @ ''</script>'' @ ''ok'') = strip_scripts ''ok''"
proof -
  have b: "close_rest ''alert(1)'' = None"
    by (simp add: ci_prefix_def js_lower_def ascii_lower_def)
  show ?thesis using b strip_script_block [OF b, of "''ok''"] by simp
qed

text \<open>
  Claim C16. The sanitiser does not neutralise script tags: for every script
  body without \<open><\<close>, removing the empty element inside
  \<open><scr<script></script>ipt>\<close> joins the text around it into a complete script
  element with that body, which the single pass leaves in the output; a second
  pass would remove it.
\<close>

theorem sanitize_residual_script:
  assumes "CHR ''<'' \<notin> set b"
  shows "sanitizeInput (''<scr<script></script>ipt>'' @ b @ ''</script>'') = ''<script>'' @ b @ ''</script>'' \<and>
         sanitizeInput (''<script>'' @ b @ ''</script>'') = []"
proof -
  have t1: "js_trim (''<scr<script></script>ipt>'' @ b @ ''</script>'') = ''<scr<script></script>ipt>'' @ b @ ''</script>''"
    by (rule js_trim_id) (simp_all add: js_whitespace_def)
  have t2: "js_trim (''<script>'' @ b @ ''</script>'') = ''<script>'' @ b @ ''</script>''"
    by (rule js_trim_id) (simp_all add: js_whitespace_def)
  have n: "\<not> opens_script (''<scr<script></script>ipt>'' @ b @ ''</script>'')"
    by (simp add: opens_script_def ci_prefix_def js_lower_def ascii_lower_def)
  have e: "strip_scripts (''<script>'' @ [] @ ''</script>'' @ ''ipt>'' @ b @ ''</script>'') =
           strip_scripts (''ipt>'' @ b @ ''</script>'')"
    by (rule script_block_removed) simp
  have c: "strip_scripts ''</script>'' = ''</script>''"
    by (simp add: opens_script_def ci_prefix_def js_lower_def ascii_lower_def)
  have "strip_scripts (''<scr<script></script>ipt>'' @ b @ ''</script>'') =
        CHR ''<'' # strip_scripts (''scr'' @ ''<script>'' @ [] @ ''</script>'' @ ''ipt>'' @ b @ ''</script>'')"
    using n by simp
  also have "\<dots> = ''<scr'' @ strip_scripts (''ipt>'' @ b @ ''</script>'')"
  proof -
    have sc: "strip_scripts (''scr'' @ ''<script>'' @ [] @ ''</script>'' @ ''ipt>'' @ b @ ''</script>'') =
              ''scr'' @ strip_scripts (''<script>'' @ [] @ ''</script>'' @ ''ipt>'' @ b @ ''</script>'')"
      by (rule strip_scripts_append_no_lt) simp
    show ?thesis unfolding sc e by simp
  qed
  also have "\<dots> = ''<script>'' @ b @ ''</script>''"
  proof -
    have a0: "CHR ''<'' \<notin> set (''ipt>'' @ b)" using assms by simp
    have "strip_scripts ((''ipt>'' @ b) @ ''</script>'') = (''ipt>'' @ b) @ strip_scripts ''</script>''"
      by (rule strip_scripts_append_no_lt [OF a0])
    then have "strip_scripts (''ipt>'' @ b @ ''</script>'') = ''ipt>'' @ b @ ''</script>''"
      unfolding c append_assoc .
    then show ?thesis by simp
  qed
  finally have r1: "strip_scripts (''<scr<script></script>ipt>'' @ b @ ''</script>'') = ''<script>'' @ b @ ''</script>''" .
  have r2: "strip_scripts (''<script>'' @ b @ ''</script>'' @ []) = []"
    using script_block_removed [OF close_rest_no_lt [OF assms]] by simp
  show ?thesis using t1 t2 r1 r2 by (simp add: sanitizeInput_def)
qed

theorem sanitize_residual_script_witness:
  "CHR ''<'' \<notin> set ''alert(1)'' \<and>
   sanitizeInput (''<scr<script></script>ipt>'' @ ''alert(1)'' @ ''</script>'') = ''<script>alert(1)</script>'' \<and>
   sanitizeInput (''<script>'' @ ''alert(1)'' @ ''</script>'') = []"
proof -
  have b: "CHR ''<'' \<notin> set ''alert(1)''" by simp
  show ?thesis using sanitize_residual_script [OF b] b by simp
qed

text \<open>Claim C17. The sanitised text is a subsequence of the input: nothing is added.\<close>

theorem sanitize_subseq: "subseq (sanitizeInput s) s"
proof -
  have "subseq (js_trim s) s"
    unfolding js_trim_def
    by (metis dropWhile_eq_drop rev_drop rev_rev_ident subseq_order.order_trans
        suffix_drop suffix_imp_subseq take_is_prefix prefix_imp_subseq)
  with strip_scripts_subseq [of "js_trim s"] show ?thesis
    by (auto simp: sanitizeInput_def intro: subseq_order.order_trans)
qed

end
