(* ===== verification/Validate.thy ===== *)
theory Validate
  imports Report Sanitize
begin

text \<open>
  \<open>validateReportData\<close> (\<open>src/script.js\<close> lines 166--187): three length and
  presence checks on the collected report, each pushing its message, then the
  sanitisation of title, description and location in place. The checks read the
  fields before they are sanitised. The result object
  \<open>{isValid, errors, data}\<close> is the record \<open>validation\<close>.
\<close>

record validation =
  isValid :: bool
  errors :: "string list"
  vdata :: report

definition title_error :: string where
  "title_error = ''Title must be at least 5 characters long''"

definition category_error :: string where
  "category_error = ''Please select a category''"

definition description_error :: string where
  "description_error = ''Description must be at least 20 characters long''"

text \<open>\<open>!s\<close> holds of a string exactly when it is empty.\<close>

definition validation_errors :: "report \<Rightarrow> string list" where
  "validation_errors d =
     (if title d = [] \<or> length (js_trim (title d)) < 5 then [title_error] else []) @
     (if category d = [] then [category_error] else []) @
     (if description d = [] \<or> length (js_trim (description d)) < 20
      then [description_error] else [])"

definition validateReportData :: "report \<Rightarrow> validation" where
  "validateReportData d =
     (let errs = validation_errors d;
          d' = d\<lparr>title := sanitizeInput (title d),
                 description := sanitizeInput (description d),
                 location := sanitizeInput (location d)\<rparr>
      in \<lparr>isValid = (errs = []), errors = errs, vdata = d'\<rparr>)"

lemma js_trim_Nil [simp]: "js_trim [] = []"
  by (simp add: js_trim_def)

lemma validation_errors_Nil_iff:
  "validation_errors d = [] \<longleftrightarrow>
     5 \<le> length (js_trim (title d)) \<and> category d \<noteq> [] \<and>
     20 \<le> length (js_trim (description d))"
  by (auto simp: validation_errors_def)

lemma validateReportData_frame [simp]:
  "report_id (vdata (validateReportData d)) = report_id d"
  "category (vdata (validateReportData d)) = category d"
  "status (vdata (validateReportData d)) = status d"
  "timeline (vdata (validateReportData d)) = timeline d"
  "submittedAt (vdata (validateReportData d)) = submittedAt d"
  "assignedTo (vdata (validateReportData d)) = assignedTo d"
  "title (vdata (validateReportData d)) = sanitizeInput (title d)"
  "description (vdata (validateReportData d)) = sanitizeInput (description d)"
  "location (vdata (validateReportData d)) = sanitizeInput (location d)"
  by (simp_all add: validateReportData_def Let_def)

lemma isValid_validateReportData [simp]:
  "isValid (validateReportData d) \<longleftrightarrow> validation_errors d = []"
  by (simp add: validateReportData_def Let_def)

subsection \<open>Properties of the validator\<close>

text \<open>
  Claim C12. A report passes validation exactly when its trimmed title has at
  least 5 characters, its category is non-empty and its trimmed description has at
  least 20 characters.
\<close>

theorem validate_iff:
  "isValid (validateReportData d) \<longleftrightarrow>
     5 \<le> length (js_trim (title d)) \<and> category d \<noteq> [] \<and>
     20 \<le> length (js_trim (description d))"
  by (simp add: validation_errors_Nil_iff)

definition sample_report :: "string \<Rightarrow> string \<Rightarrow> report" where
  "sample_report t d = collectReportData ''r'' 0 False None (sample_form t ''other'' d)"

text \<open>
  The boundaries: a title of 4 characters after trimming fails and one
  of 5 passes; a description of 19 characters fails and one of 20 passes; the
  surrounding white space does not count.
\<close>

lemma validate_boundaries:
  "\<not> isValid (validateReportData (sample_report ''  abcd  '' (replicate 20 (CHR ''x'')))) \<and>
   isValid (validateReportData (sample_report ''abcde'' (replicate 20 (CHR ''x'')))) \<and>
   \<not> isValid (validateReportData (sample_report ''abcde'' (replicate 19 (CHR ''x'') @ ''  ''))) \<and>
   isValid (validateReportData (sample_report ''abcde'' (replicate 20 (CHR ''x''))))"
  by (simp add: sample_report_def sample_form_def validation_errors_def js_trim_def
      js_whitespace_def)

text \<open>
  Claim C14. The checks run before sanitisation: whatever the other fields, a
  title made of one script element (a body without a closing tag) passes the
  length check and is stored empty.
\<close>

theorem validate_then_empty_title:
  assumes b: "close_rest b = None" and t: "issueTitle f = ''<script>'' @ b @ ''</script>''"
    and c: "issueCategory f \<noteq> []" and d: "20 \<le> length (js_trim (form_description f))"
  shows "isValid (validateReportData (collectReportData rid now off cu f)) \<and>
         title (vdata (validateReportData (collectReportData rid now off cu f))) = []"
proof -
  have tr: "js_trim (''<script>'' @ b @ ''</script>'') = ''<script>'' @ b @ ''</script>''"
    by (rule js_trim_id) (simp_all add: js_whitespace_def)
  have "strip_scripts (''<script>'' @ b @ ''</script>'' @ []) = strip_scripts []"
    by (rule script_block_removed [OF b])
  then have s: "sanitizeInput (''<script>'' @ b @ ''</script>'') = []"
    using tr by (simp add: sanitizeInput_def)
  have "5 \<le> length (js_trim (''<script>'' @ b @ ''</script>''))" unfolding tr by simp
  then show ?thesis using t c d s by (simp add: validation_errors_Nil_iff collectReportData_def)
qed

theorem validate_then_empty_title_witness:
  "close_rest ''alert(1)'' = None \<and>
   issueTitle (sample_form ''<script>alert(1)</script>'' ''other'' (replicate 20 (CHR ''x''))) =
     ''<script>'' @ ''alert(1)'' @ ''</script>'' \<and>
   issueCategory (sample_form ''<script>alert(1)</script>'' ''other'' (replicate 20 (CHR ''x''))) \<noteq> [] \<and>
   20 \<le> length (js_trim (form_description (sample_form ''<script>alert(1)</script>'' ''other'' (replicate 20 (CHR ''x''))))) \<and>
   isValid (validateReportData (collectReportData ''r'' 0 False None
     (sample_form ''<script>alert(1)</script>'' ''other'' (replicate 20 (CHR ''x''))))) \<and>
   title (vdata (validateReportData (collectReportData ''r'' 0 False None
     (sample_form ''<script>alert(1)</script>'' ''other'' (replicate 20 (CHR ''x'')))))) = []"
proof -
  have b: "close_rest ''alert(1)'' = None" by (simp add: ci_prefix_def js_lower_def ascii_lower_def)
  have t: "issueTitle (sample_form ''<script>alert(1)</script>'' ''other'' (replicate 20 (CHR ''x''))) =
     ''<script>'' @ ''alert(1)'' @ ''</script>''" by (simp add: sample_form_def)
  have c: "issueCategory (sample_form ''<script>alert(1)</script>'' ''other'' (replicate 20 (CHR ''x''))) \<noteq> []"
    by (simp add: sample_form_def)
  have d: "20 \<le> length (js_trim (form_description (sample_form ''<script>alert(1)</script>'' ''other'' (replicate 20 (CHR ''x'')))))"
    by (simp add: sample_form_def js_trim_def js_whitespace_def)
  show ?thesis using validate_then_empty_title [OF b t c d, of "''r''" 0 False None] b t c d by blast
qed

end
