(* ===== verification/Route.thy ===== *)
theory Route
  imports Report
begin

text \<open>
  \<open>routeReport\<close> (\<open>src/script.js\<close> lines 195--217). The routing table is a
  JavaScript object literal, so \<open>routingRules[report.category]\<close> finds the table's own
  eight properties and, failing those, the members every object inherits from
  \<open>Object.prototype\<close>. The result passes through \<open>|| 'General Administration'\<close>:
  a missing property (\<open>undefined\<close>) or an empty string falls back; an inherited
  function is truthy and is stored as it is.
\<close>

definition routingRules :: "(string \<times> string) list" where
  "routingRules =
     [(''infrastructure'', ''Municipal Public Works Department''),
      (''public-safety'', ''Police Department''),
      (''environment'', ''Environmental Protection Agency''),
      (''transportation'', ''Transportation Department''),
      (''public-services'', ''Municipal Services''),
      (''corruption'', ''Anti-Corruption Commission''),
      (''accessibility'', ''Disability Rights Office''),
      (''other'', ''General Administration'')]"

text \<open>The properties of \<open>Object.prototype\<close> visible through \<open>obj[key]\<close>.\<close>

definition object_prototype_members :: "string list" where
  "object_prototype_members =
     [''constructor'', ''__defineGetter__'', ''__defineSetter__'', ''hasOwnProperty'',
      ''__lookupGetter__'', ''__lookupSetter__'', ''isPrototypeOf'',
      ''propertyIsEnumerable'', ''toString'', ''valueOf'', ''__proto__'',
      ''toLocaleString'']"

text \<open>\<open>routingRules[k]\<close>: an own property, else an inherited member, else \<open>undefined\<close>.\<close>

definition lookup_rule :: "string \<Rightarrow> assignee option" where
  "lookup_rule k =
     (case map_of routingRules k of
        Some a \<Rightarrow> Some (Authority a)
      | None \<Rightarrow> if k \<in> set object_prototype_members then Some (ProtoMember k) else None)"

definition general_administration :: string where
  "general_administration = ''General Administration''"

text \<open>\<open>v || 'General Administration'\<close> on the looked-up value.\<close>

definition route_authority :: "string \<Rightarrow> assignee" where
  "route_authority c =
     (case lookup_rule c of
        Some (Authority a) \<Rightarrow> (if a = [] then Authority general_administration else Authority a)
      | Some (ProtoMember m) \<Rightarrow> ProtoMember m
      | None \<Rightarrow> Authority general_administration)"

text \<open>
  The string a template literal makes of the stored value:
  a built-in function prints as its native-code source under its own name (the
  \<open>constructor\<close> member is the function \<open>Object\<close>), the prototype object as
  \<open>[object Object]\<close>.
\<close>

definition assignee_str :: "assignee \<Rightarrow> string" where
  "assignee_str a =
     (case a of
        Authority s \<Rightarrow> s
      | ProtoMember m \<Rightarrow>
          (if m = ''__proto__'' then ''[object Object]''
           else ''function '' @ (if m = ''constructor'' then ''Object'' else m) @
                ''() { [native code] }''))"

definition routeReport :: "timestamp \<Rightarrow> report \<Rightarrow> report" where
  "routeReport now r =
     (let a = route_authority (category r)
      in r\<lparr>assignedTo := Some a, routedAt := Some now,
           timeline := timeline r @
             [\<lparr>te_status = ''routed'', te_date = now,
               te_description = ''Report routed to '' @ assignee_str a\<rparr>]\<rparr>)"

text \<open>
  The routing table of the specification (its glossary), written independently
  of the program's object literal: the seven named categories and their
  authorities; every other input, \<open>other\<close> included, goes to General Administration.
\<close>

definition spec_route :: "string \<Rightarrow> string" where
  "spec_route c =
     (if c = ''infrastructure'' then ''Municipal Public Works Department''
      else if c = ''public-safety'' then ''Police Department''
      else if c = ''environment'' then ''Environmental Protection Agency''
      else if c = ''transportation'' then ''Transportation Department''
      else if c = ''public-services'' then ''Municipal Services''
      else if c = ''corruption'' then ''Anti-Corruption Commission''
      else if c = ''accessibility'' then ''Disability Rights Office''
      else ''General Administration'')"

lemma routeReport_fields [simp]:
  "status (routeReport now r) = status r"
  "report_id (routeReport now r) = report_id r"
  "category (routeReport now r) = category r"
  "title (routeReport now r) = title r"
  "submittedAt (routeReport now r) = submittedAt r"
  "assignedTo (routeReport now r) = Some (route_authority (category r))"
  "timeline (routeReport now r) = timeline r @
     [\<lparr>te_status = ''routed'', te_date = now,
       te_description = ''Report routed to '' @ assignee_str (route_authority (category r))\<rparr>]"
  by (simp_all add: routeReport_def Let_def)

lemma routingRules_values_nonempty: "(k, a) \<in> set routingRules \<Longrightarrow> a \<noteq> []"
  by (auto simp: routingRules_def)

lemma route_authority_table:
  "map_of routingRules c = Some a \<Longrightarrow> route_authority c = Authority a"
proof -
  assume m: "map_of routingRules c = Some a"
  then have "(c, a) \<in> set routingRules" by (rule map_of_SomeD)
  then have "a \<noteq> []" by (rule routingRules_values_nonempty)
  with m show ?thesis by (simp add: route_authority_def lookup_rule_def)
qed

lemma route_authority_other:
  "map_of routingRules c = None \<Longrightarrow> c \<notin> set object_prototype_members \<Longrightarrow>
   route_authority c = Authority general_administration"
  by (simp add: route_authority_def lookup_rule_def)

lemma route_proto:
  "c \<in> set object_prototype_members \<Longrightarrow> route_authority c = ProtoMember c"
  by (auto simp: route_authority_def lookup_rule_def routingRules_def object_prototype_members_def)

text \<open>
  Claim C8. Routing implements the specification's table: every category that
  is not the name of an \<open>Object.prototype\<close> member is assigned the authority the
  specification lists for it, General Administration for any category outside
  the table; a member name is stored as that inherited member instead.
\<close>

theorem route_authority_refines_spec:
  "route_authority c =
     (if c \<in> set object_prototype_members then ProtoMember c else Authority (spec_route c))"
  by (simp add: route_authority_def lookup_rule_def routingRules_def object_prototype_members_def
      spec_route_def general_administration_def)

text \<open>
  Contrary to "any other input routes to General Administration", the
  categories \<open>constructor\<close> and \<open>toString\<close> are routed to the inherited functions,
  and the routing entry of the timeline names the function's source text.
\<close>

theorem route_proto_member:
  "route_authority ''constructor'' = ProtoMember ''constructor'' \<and>
   route_authority ''toString'' \<noteq> Authority general_administration \<and>
   assignee_str (route_authority ''toString'') = ''function toString() { [native code] }''"
  by (simp add: route_authority_def lookup_rule_def routingRules_def object_prototype_members_def
      assignee_str_def general_administration_def)

end
