(* ===== verification/Lifecycle.thy ===== *)
theory Lifecycle
  imports Report
begin

text \<open>
  The lifecycle engine on one report. The program keeps a report's status as a
  string; \<open>updateReportStatus\<close> (\<open>src/script.js\<close> lines 259--278) writes a new
  status and appends a timeline entry without looking at the old status, and the
  callback scheduled by \<open>simulateResolution\<close> (lines 281--301) picks the next status
  with \<open>['under-review', 'in-progress', 'resolved'].indexOf(report.status)\<close>.
  An abstract lifecycle (\<open>phase\<close>, with the successor function \<open>phase_succ\<close>) is
  the contract; \<open>sim_next\<close> refines it on the four lifecycle strings.
\<close>

subsection \<open>The report-level operations\<close>

text \<open>The body of \<open>updateReportStatus\<close> once the report is found.\<close>

definition set_status :: "string \<Rightarrow> string \<Rightarrow> timestamp \<Rightarrow> report \<Rightarrow> report" where
  "set_status st d now r =
     r\<lparr>status := st,
       timeline := timeline r @ [\<lparr>te_status = st, te_date = now, te_description = d\<rparr>]\<rparr>"

definition pending_statuses :: "string list" where
  "pending_statuses = [''submitted'', ''under-review'', ''in-progress'']"

text \<open>The filter of \<open>simulateResolution\<close> (and the pending count of the dashboard).\<close>

definition is_pending :: "report \<Rightarrow> bool" where
  "is_pending r \<longleftrightarrow> status r \<in> set pending_statuses"

definition sim_statuses :: "string list" where
  "sim_statuses = [''under-review'', ''in-progress'', ''resolved'']"

definition sim_description :: "string \<Rightarrow> string" where
  "sim_description st =
     (if st = ''under-review'' then ''Report is being reviewed by authorities''
      else if st = ''in-progress'' then ''Authorities have started working on this issue''
      else ''Issue has been successfully resolved'')"

text \<open>
  \<open>currentIndex = statuses.indexOf(report.status)\<close>; the callback advances when
  \<open>currentIndex < statuses.length - 1\<close>, to \<open>statuses[currentIndex + 1]\<close>.
\<close>

definition sim_next :: "string \<Rightarrow> string option" where
  "sim_next st =
     (let i = index_of sim_statuses st
      in if i < int (length sim_statuses) - 1 then Some (sim_statuses ! nat (i + 1)) else None)"

text \<open>The report-level effect of one fired \<open>simulateResolution\<close> callback.\<close>

definition sim_advance :: "timestamp \<Rightarrow> report \<Rightarrow> report" where
  "sim_advance now r =
     (case sim_next (status r) of
        None \<Rightarrow> r
      | Some st \<Rightarrow> set_status st (sim_description st) now r)"

subsection \<open>The abstract lifecycle\<close>

datatype phase = PSubmitted | PUnderReview | PInProgress | PResolved

fun phase_succ :: "phase \<Rightarrow> phase option" where
  "phase_succ PSubmitted = Some PUnderReview"
| "phase_succ PUnderReview = Some PInProgress"
| "phase_succ PInProgress = Some PResolved"
| "phase_succ PResolved = None"

fun phase_rank :: "phase \<Rightarrow> nat" where
  "phase_rank PSubmitted = 0"
| "phase_rank PUnderReview = 1"
| "phase_rank PInProgress = 2"
| "phase_rank PResolved = 3"

fun phase_name :: "phase \<Rightarrow> string" where
  "phase_name PSubmitted = ''submitted''"
| "phase_name PUnderReview = ''under-review''"
| "phase_name PInProgress = ''in-progress''"
| "phase_name PResolved = ''resolved''"

text \<open>The abstraction: a status string read as a lifecycle phase.\<close>

definition phase_of :: "string \<Rightarrow> phase option" where
  "phase_of s =
     (if s = ''submitted'' then Some PSubmitted
      else if s = ''under-review'' then Some PUnderReview
      else if s = ''in-progress'' then Some PInProgress
      else if s = ''resolved'' then Some PResolved
      else None)"

lemma phase_of_name [simp]: "phase_of (phase_name p) = Some p"
  by (cases p) (simp_all add: phase_of_def)

lemma phase_of_Some: "phase_of s = Some p \<Longrightarrow> s = phase_name p"
  by (auto simp: phase_of_def split: if_splits)

lemma phase_succ_rank: "phase_succ p = Some q \<Longrightarrow> phase_rank q = Suc (phase_rank p)"
  by (cases p) auto

lemma sim_next_phase_name: "sim_next (phase_name p) = map_option phase_name (phase_succ p)"
  by (cases p) (simp_all add: sim_next_def sim_statuses_def)

lemma sim_next_other:
  "phase_of s = None \<Longrightarrow> sim_next s = Some ''under-review''"
proof -
  assume "phase_of s = None"
  then have "s \<notin> set sim_statuses" by (auto simp: phase_of_def sim_statuses_def split: if_splits)
  then have "index_of sim_statuses s = -1" by (rule index_of_notin)
  then show ?thesis by (simp add: sim_next_def sim_statuses_def)
qed

lemma set_status_fields [simp]:
  "status (set_status st d now r) = st"
  "timeline (set_status st d now r) =
     timeline r @ [\<lparr>te_status = st, te_date = now, te_description = d\<rparr>]"
  "report_id (set_status st d now r) = report_id r"
  "category (set_status st d now r) = category r"
  "title (set_status st d now r) = title r"
  "submittedAt (set_status st d now r) = submittedAt r"
  "assignedTo (set_status st d now r) = assignedTo r"
  by (simp_all add: set_status_def)

subsection \<open>The timeline invariant\<close>

text \<open>
  The statuses a timeline records, without the \<open>routed\<close> entry that
  \<open>routeReport\<close> appends without changing the status.
\<close>

definition lifecycle_entries :: "report \<Rightarrow> string list" where
  "lifecycle_entries r = filter (\<lambda>st. st \<noteq> ''routed'') (map te_status (timeline r))"

text \<open>
  What the program keeps true of every report: the timeline starts with
  \<open>submitted\<close>; apart from \<open>routed\<close> it records lifecycle statuses of strictly
  increasing rank; and the status is the last of them.
\<close>

definition wf_report :: "report \<Rightarrow> bool" where
  "wf_report r \<longleftrightarrow>
     timeline r \<noteq> [] \<and> te_status (hd (timeline r)) = ''submitted'' \<and>
     (case those (map phase_of (lifecycle_entries r)) of
        None \<Rightarrow> False
      | Some ps \<Rightarrow> sorted_wrt (<) (map phase_rank ps) \<and> ps \<noteq> [] \<and> status r = phase_name (last ps))"

lemma those_snoc:
  "those (xs @ [y]) =
     (case those xs of None \<Rightarrow> None | Some ps \<Rightarrow> map_option (\<lambda>q. ps @ [q]) y)"
  by (induction xs) (auto split: option.splits simp: option.map_comp comp_def)

lemma sorted_wrt_less_last:
  "sorted_wrt (<) (map g xs) \<Longrightarrow> x \<in> set xs \<Longrightarrow> (g x :: nat) \<le> g (last xs)"
proof (induction xs)
  case Nil
  then show ?case by simp
next
  case (Cons y ys)
  then show ?case by (cases ys) (auto intro: less_imp_le)
qed

lemma phase_name_inj: "phase_name p = phase_name q \<Longrightarrow> p = q"
  by (metis option.inject phase_of_name)

lemma wf_report_phase:
  "wf_report r \<Longrightarrow> \<exists>p. phase_of (status r) = Some p"
  by (auto simp: wf_report_def split: option.splits)

lemma phase_of_routed [simp]: "phase_of ''routed'' = None"
  by (simp add: phase_of_def)

text \<open>Writing a status of higher rank keeps the invariant.\<close>

lemma wf_report_set_status:
  assumes wf: "wf_report r" and p: "phase_of (status r) = Some p" and q: "phase_of st = Some q"
    and lt: "phase_rank p < phase_rank q"
  shows "wf_report (set_status st d t r)"
proof -
  from q have nr: "st \<noteq> ''routed''" by auto
  from wf obtain ps where ps: "those (map phase_of (lifecycle_entries r)) = Some ps"
    and sorted: "sorted_wrt (<) (map phase_rank ps)" and ne: "ps \<noteq> []"
    and last: "status r = phase_name (last ps)"
    by (auto simp: wf_report_def split: option.splits)
  from last p have lp: "last ps = p" using phase_of_Some phase_name_inj by metis
  have le: "\<forall>x\<in>set ps. phase_rank x < phase_rank q"
    using sorted_wrt_less_last [OF sorted] lp lt by fastforce
  have "lifecycle_entries (set_status st d t r) = lifecycle_entries r @ [st]"
    using nr by (simp add: lifecycle_entries_def)
  with ps q have "those (map phase_of (lifecycle_entries (set_status st d t r))) = Some (ps @ [q])"
    by (simp add: those_snoc)
  with wf sorted le q show ?thesis
    by (simp add: wf_report_def sorted_wrt_append phase_of_Some hd_append)
qed

text \<open>The callback of \<open>simulateResolution\<close> keeps the invariant.\<close>

lemma wf_report_sim_advance: "wf_report r \<Longrightarrow> wf_report (sim_advance t r)"
proof -
  assume wf: "wf_report r"
  then obtain p where p: "phase_of (status r) = Some p" using wf_report_phase by blast
  then have st: "status r = phase_name p" by (rule phase_of_Some)
  show ?thesis
  proof (cases "phase_succ p")
    case None
    with st show ?thesis using wf by (simp add: sim_advance_def sim_next_phase_name)
  next
    case (Some q)
    then have "phase_rank p < phase_rank q" by (simp add: phase_succ_rank)
    with wf p Some st show ?thesis
      by (simp add: sim_advance_def sim_next_phase_name wf_report_set_status)
  qed
qed

subsection \<open>Properties of the engine\<close>

text \<open>
  Claim C10. The callback's choice of the next status refines the abstract
  successor on the four lifecycle statuses (\<open>submitted\<close> to \<open>under-review\<close> to
  \<open>in-progress\<close> to \<open>resolved\<close>, nothing after \<open>resolved\<close>), and any other status
  (\<open>indexOf\<close> returns \<open>-1\<close>) advances to \<open>under-review\<close>, as if it were \<open>submitted\<close>.
\<close>

theorem sim_next_refines:
  "sim_next st =
     (case phase_of st of Some p \<Rightarrow> map_option phase_name (phase_succ p) | None \<Rightarrow> Some ''under-review'')"
  by (cases "phase_of st") (auto dest: phase_of_Some simp: sim_next_phase_name sim_next_other)

text \<open>\<open>resolved\<close> is absorbing: the callback leaves a resolved report unchanged.\<close>

lemma sim_advance_resolved:
  "status r = ''resolved'' \<Longrightarrow> sim_advance t r = r"
  by (simp add: sim_advance_def sim_next_def sim_statuses_def)

end
