(* ===== verification/State.thy ===== *)
theory State
  imports Report
begin

text \<open>
  The state of one \<open>CivicConnectApp\<close> instance (\<open>src/script.js\<close> lines 4--14)
  together with the parts of its environment the handlers read and write:
  the accessibility and notification controls of the page (read by
  \<open>getSettings\<close>, set by \<open>applySettings\<close>), the \<open>localStorage\<close> entry
  \<open>civicConnectData\<close>, the pending \<open>setTimeout\<close> callbacks, the clock, the
  notifications shown and the registration modal.
  \<open>analytics\<close> and \<open>stakeholders\<close> are written once and never read; they are
  left out. Of the page's elements the model keeps what the stakeholder views
  change (\<open>page_dom\<close>): the number of \<open>mouseover\<close> listeners each stakeholder
  dot carries and the tooltip elements appended to \<open>document.body\<close>.
\<close>

record settings =
  highContrast :: bool
  largeText :: bool
  screenReader :: bool
  language :: string
  emailNotifications :: bool
  smsNotifications :: bool

text \<open>
  A JSON value as \<open>JSON.parse\<close> returns it. A time written by \<open>toISOString()\<close>
  is the leaf \<open>JIso t\<close>: the model keeps the millisecond value the ISO string
  denotes instead of its characters.
\<close>

datatype json =
    JNull
  | JBool bool
  | JNum int
  | JStr string
  | JIso timestamp
  | JArr "json list"
  | JObj "(string \<times> json) list"

text \<open>
  The stored entry: text that \<open>JSON.parse\<close> accepts, given as its value, or text
  that it rejects (a corrupt snapshot).
\<close>

datatype stored = Parsed json | Unparsable

text \<open>
  The callbacks the program hands to \<open>setTimeout\<close>: the status update scheduled
  by \<open>submitReport\<close> (report id, new status, description), the per-report callback
  of \<open>simulateResolution\<close>, the call of \<open>simulateResolution\<close> itself scheduled by
  \<open>generateMockData\<close>, the registration modal of \<open>initializeRegistration\<close>, and the
  removal of a stakeholder tooltip (by the element's identity).
  The per-report callback closes over the report object. Reports are never
  removed from \<open>this.reports\<close> while timers are pending (only a reload replaces the
  array, and a reload drops the timers), but \<open>updateRecentActivity\<close> sorts the
  array in place, so the object is identified by its id, not by its index; ids are
  distinct in every reachable state.
\<close>

datatype task =
    StatusUpdate string string string
  | SimCallback string
  | RunSimulation
  | ShowRegistration
  | RemoveTooltip nat

record timer =
  due :: timestamp
  task :: task

record notice =
  ntype :: string
  ntitle :: string
  nmessage :: string

text \<open>
  The stakeholder dots are static markup; every dot gets the same listeners
  (\<open>forEach\<close> over all of them), so one count describes them all. A tooltip is
  an element with an identity (\<open>nat\<close>, fresh from \<open>next_tooltip\<close>) and its
  \<open>textContent\<close>.
\<close>

record page_dom =
  dot_listeners :: nat
  tooltips :: "(nat \<times> string) list"
  next_tooltip :: nat

definition blank_dom :: page_dom where
  "blank_dom = \<lparr>dot_listeners = 0, tooltips = [], next_tooltip = 0\<rparr>"

record app =
  currentUser :: "user option"
  isOffline :: bool
  reports :: "report list"
  drafts :: "report list"
  page_settings :: settings
  storage :: "stored option"
  timers :: "timer list"
  clock :: timestamp
  notices :: "notice list"
  modal_shown :: bool
  dom :: page_dom

text \<open>
  \<open>setTimeout(f, d)\<close>: the callback is due at \<open>clock + d\<close>; callbacks run in
  order of their due time, and those due at the same time in the order they
  were scheduled, so the new timer goes after every timer due no later.
\<close>

fun insert_timer :: "timer \<Rightarrow> timer list \<Rightarrow> timer list" where
  "insert_timer t [] = [t]"
| "insert_timer t (u # us) = (if due u \<le> due t then u # insert_timer t us else t # u # us)"

definition setTimeout :: "task \<Rightarrow> int \<Rightarrow> app \<Rightarrow> app" where
  "setTimeout f d s = s\<lparr>timers := insert_timer \<lparr>due = clock s + d, task = f\<rparr> (timers s)\<rparr>"

definition showNotification :: "string \<Rightarrow> string \<Rightarrow> string \<Rightarrow> app \<Rightarrow> app" where
  "showNotification ty ti msg s =
     s\<lparr>notices := notices s @ [\<lparr>ntype = ty, ntitle = ti, nmessage = msg\<rparr>]\<rparr>"

lemma set_insert_timer [simp]: "set (insert_timer t ts) = insert t (set ts)"
  by (induction ts) auto

lemma length_insert_timer [simp]: "length (insert_timer t ts) = Suc (length ts)"
  by (induction ts) auto

lemma sorted_insert_timer:
  "sorted (map due ts) \<Longrightarrow> sorted (map due (insert_timer t ts))"
  by (induction ts) auto

lemma setTimeout_fields [simp]:
  "reports (setTimeout f d s) = reports s"
  "drafts (setTimeout f d s) = drafts s"
  "clock (setTimeout f d s) = clock s"
  "storage (setTimeout f d s) = storage s"
  "currentUser (setTimeout f d s) = currentUser s"
  "set (timers (setTimeout f d s)) = insert \<lparr>due = clock s + d, task = f\<rparr> (set (timers s))"
  "dom (setTimeout f d s) = dom s"
  by (simp_all add: setTimeout_def)

lemma showNotification_fields [simp]:
  "reports (showNotification ty ti msg s) = reports s"
  "drafts (showNotification ty ti msg s) = drafts s"
  "timers (showNotification ty ti msg s) = timers s"
  "clock (showNotification ty ti msg s) = clock s"
  "storage (showNotification ty ti msg s) = storage s"
  "currentUser (showNotification ty ti msg s) = currentUser s"
  "isOffline (showNotification ty ti msg s) = isOffline s"
  "dom (showNotification ty ti msg s) = dom s"
  by (simp_all add: showNotification_def)

end
