(* ===== verification/Store.thy ===== *)
theory Store
  imports State "HOL-Library.Monad_Syntax"
begin

text \<open>
  Persistence (\<open>src/script.js\<close> lines 688--715 and 746--790).
  \<open>saveToLocalStorage\<close> writes \<open>JSON.stringify({reports, drafts, currentUser,
  settings})\<close>; \<open>JSON.stringify\<close> leaves out a property whose value is
  \<open>undefined\<close> or a function, and writes an object with no enumerable own
  properties (such as \<open>Object.prototype\<close>) as \<open>{}\<close>. The \<open>json_of_\<close> functions
  give the value written; the \<open>_of_json\<close> functions read a value of that shape back
  as the model's record, so that a round trip can be stated. The order of an
  object's keys is not modelled: lookups go by key.
\<close>

subsection \<open>Writing\<close>

definition opt_field :: "string \<Rightarrow> ('a \<Rightarrow> json) \<Rightarrow> 'a option \<Rightarrow> (string \<times> json) list" where
  "opt_field k f v = (case v of None \<Rightarrow> [] | Some x \<Rightarrow> [(k, f x)])"

definition json_of_entry :: "timeline_entry \<Rightarrow> json" where
  "json_of_entry e =
     JObj [(''status'', JStr (te_status e)), (''date'', JIso (te_date e)),
           (''description'', JStr (te_description e))]"

definition json_of_evidence :: "evidence_file \<Rightarrow> json" where
  "json_of_evidence f =
     JObj [(''name'', JStr (ev_name f)), (''size'', JNum (ev_size f)),
           (''type'', JStr (ev_type f)), (''lastModified'', JNum (ev_lastModified f))]"

text \<open>What \<open>JSON.stringify\<close> keeps of \<open>report.assignedTo\<close>.\<close>

fun json_of_assignee :: "assignee \<Rightarrow> json option" where
  "json_of_assignee (Authority s) = Some (JStr s)"
| "json_of_assignee (ProtoMember m) = (if m = ''__proto__'' then Some (JObj []) else None)"

definition report_fields :: "report \<Rightarrow> (string \<times> json) list" where
  "report_fields r =
     ([(''id'', JStr (report_id r)), (''title'', JStr (title r)),
            (''category'', JStr (category r)), (''priority'', JStr (priority r)),
            (''location'', JStr (location r)), (''description'', JStr (description r))] @
           opt_field ''evidence'' (\<lambda>fs. JArr (map json_of_evidence fs)) (evidence r) @
           [(''isPublic'', JBool (isPublic r)), (''isAnonymous'', JBool (isAnonymous r))] @
           opt_field ''submittedBy'' JStr (submittedBy r) @
           [(''submittedAt'', JIso (submittedAt r)), (''status'', JStr (status r)),
            (''timeline'', JArr (map json_of_entry (timeline r)))] @
           opt_field ''assignedTo'' id (Option.bind (assignedTo r) json_of_assignee) @
           opt_field ''routedAt'' JIso (routedAt r) @
           opt_field ''isDraft'' JBool (if isDraft r then Some True else None) @
           opt_field ''savedAt'' JIso (savedAt r))"

definition json_of_report :: "report \<Rightarrow> json" where
  "json_of_report r = JObj (report_fields r)"

definition json_of_user :: "user \<Rightarrow> json" where
  "json_of_user u =
     JObj [(''id'', JStr (user_id u)), (''name'', JStr (name u)), (''email'', JStr (email u)),
           (''phone'', JStr (phone u)), (''location'', JStr (user_location u)),
           (''registeredAt'', JIso (registeredAt u)), (''isVerified'', JBool (isVerified u))]"

definition json_of_settings :: "settings \<Rightarrow> json" where
  "json_of_settings st =
     JObj [(''highContrast'', JBool (highContrast st)), (''largeText'', JBool (largeText st)),
           (''screenReader'', JBool (screenReader st)), (''language'', JStr (language st)),
           (''emailNotifications'', JBool (emailNotifications st)),
           (''smsNotifications'', JBool (smsNotifications st))]"

text \<open>\<open>getSettings\<close>: the page's controls, an empty language read as \<open>'en'\<close>.\<close>

definition getSettings :: "settings \<Rightarrow> settings" where
  "getSettings p = p\<lparr>language := (if language p = [] then ''en'' else language p)\<rparr>"

definition snapshot :: "app \<Rightarrow> json" where
  "snapshot s =
     JObj [(''reports'', JArr (map json_of_report (reports s))),
           (''drafts'', JArr (map json_of_report (drafts s))),
           (''currentUser'', (case currentUser s of None \<Rightarrow> JNull | Some u \<Rightarrow> json_of_user u)),
           (''settings'', json_of_settings (getSettings (page_settings s)))]"

definition saveToLocalStorage :: "app \<Rightarrow> app" where
  "saveToLocalStorage s = s\<lparr>storage := Some (Parsed (snapshot s))\<rparr>"

lemma saveToLocalStorage_fields [simp]:
  "reports (saveToLocalStorage s) = reports s"
  "drafts (saveToLocalStorage s) = drafts s"
  "timers (saveToLocalStorage s) = timers s"
  "clock (saveToLocalStorage s) = clock s"
  "currentUser (saveToLocalStorage s) = currentUser s"
  "isOffline (saveToLocalStorage s) = isOffline s"
  "page_settings (saveToLocalStorage s) = page_settings s"
  "notices (saveToLocalStorage s) = notices s"
  "storage (saveToLocalStorage s) = Some (Parsed (snapshot s))"
  "dom (saveToLocalStorage s) = dom s"
  by (simp_all add: saveToLocalStorage_def)

lemma map_of_opt_field [simp]:
  "map_of (opt_field k f v) k' = (if k' = k then map_option f v else None)"
  by (cases v) (simp_all add: opt_field_def)

subsection \<open>Reading back\<close>

text \<open>JavaScript truthiness of a parsed value (an ISO date string is non-empty).\<close>

definition json_truthy :: "json \<Rightarrow> bool" where
  "json_truthy j =
     (case j of JNull \<Rightarrow> False | JBool b \<Rightarrow> b | JNum n \<Rightarrow> n \<noteq> 0 | JStr s \<Rightarrow> s \<noteq> []
      | JIso _ \<Rightarrow> True | JArr _ \<Rightarrow> True | JObj _ \<Rightarrow> True)"

text \<open>The value under a key, read as the model's field type.\<close>

definition as_str :: "json \<Rightarrow> string option" where
  "as_str j = (case j of JStr s \<Rightarrow> Some s | _ \<Rightarrow> None)"

definition as_bool :: "json \<Rightarrow> bool option" where
  "as_bool j = (case j of JBool b \<Rightarrow> Some b | _ \<Rightarrow> None)"

definition as_num :: "json \<Rightarrow> int option" where
  "as_num j = (case j of JNum n \<Rightarrow> Some n | _ \<Rightarrow> None)"

definition as_iso :: "json \<Rightarrow> timestamp option" where
  "as_iso j = (case j of JIso t \<Rightarrow> Some t | _ \<Rightarrow> None)"

definition as_list :: "(json \<Rightarrow> 'a option) \<Rightarrow> json \<Rightarrow> 'a list option" where
  "as_list f j = (case j of JArr xs \<Rightarrow> those (map f xs) | _ \<Rightarrow> None)"

definition get :: "(string \<times> json) list \<Rightarrow> string \<Rightarrow> (json \<Rightarrow> 'a option) \<Rightarrow> 'a option" where
  "get kvs k f = Option.bind (map_of kvs k) f"

text \<open>A key that may be absent (\<open>undefined\<close>).\<close>

definition get_opt :: "(string \<times> json) list \<Rightarrow> string \<Rightarrow> (json \<Rightarrow> 'a option) \<Rightarrow> 'a option option" where
  "get_opt kvs k f = (case map_of kvs k of None \<Rightarrow> Some None | Some j \<Rightarrow> map_option Some (f j))"

fun entry_of_json :: "json \<Rightarrow> timeline_entry option" where
  "entry_of_json (JObj kvs) =
     do { st \<leftarrow> get kvs ''status'' as_str; d \<leftarrow> get kvs ''date'' as_iso;
          ds \<leftarrow> get kvs ''description'' as_str;
          Some \<lparr>te_status = st, te_date = d, te_description = ds\<rparr> }"
| "entry_of_json _ = None"

fun evidence_of_json :: "json \<Rightarrow> evidence_file option" where
  "evidence_of_json (JObj kvs) =
     do { n \<leftarrow> get kvs ''name'' as_str; sz \<leftarrow> get kvs ''size'' as_num;
          ty \<leftarrow> get kvs ''type'' as_str; lm \<leftarrow> get kvs ''lastModified'' as_num;
          Some \<lparr>ev_name = n, ev_size = sz, ev_type = ty, ev_lastModified = lm\<rparr> }"
| "evidence_of_json _ = None"

text \<open>An empty object read back for \<open>assignedTo\<close> prints as \<open>[object Object]\<close>, as the prototype object did.\<close>

fun assignee_of_json :: "json \<Rightarrow> assignee option" where
  "assignee_of_json (JStr s) = Some (Authority s)"
| "assignee_of_json (JObj []) = Some (ProtoMember ''__proto__'')"
| "assignee_of_json _ = None"

definition as_draft_flag :: "json option \<Rightarrow> bool option" where
  "as_draft_flag j = (case j of None \<Rightarrow> Some False | Some (JBool b) \<Rightarrow> Some b | _ \<Rightarrow> None)"

fun report_of_json :: "json \<Rightarrow> report option" where
  "report_of_json (JObj kvs) =
     do { i \<leftarrow> get kvs ''id'' as_str; t \<leftarrow> get kvs ''title'' as_str;
          c \<leftarrow> get kvs ''category'' as_str; p \<leftarrow> get kvs ''priority'' as_str;
          l \<leftarrow> get kvs ''location'' as_str; ds \<leftarrow> get kvs ''description'' as_str;
          ev \<leftarrow> get_opt kvs ''evidence'' (as_list evidence_of_json);
          pub \<leftarrow> get kvs ''isPublic'' as_bool; an \<leftarrow> get kvs ''isAnonymous'' as_bool;
          sb \<leftarrow> get_opt kvs ''submittedBy'' as_str; sa \<leftarrow> get kvs ''submittedAt'' as_iso;
          st \<leftarrow> get kvs ''status'' as_str; tl \<leftarrow> get kvs ''timeline'' (as_list entry_of_json);
          a \<leftarrow> get_opt kvs ''assignedTo'' assignee_of_json;
          ra \<leftarrow> get_opt kvs ''routedAt'' as_iso;
          dr \<leftarrow> as_draft_flag (map_of kvs ''isDraft'');
          sv \<leftarrow> get_opt kvs ''savedAt'' as_iso;
          Some \<lparr>report_id = i, title = t, category = c, priority = p, location = l,
                description = ds, evidence = ev, isPublic = pub, isAnonymous = an,
                submittedBy = sb, submittedAt = sa, status = st, timeline = tl,
                assignedTo = a, routedAt = ra, isDraft = dr, savedAt = sv\<rparr> }"
| "report_of_json _ = None"

fun user_of_json :: "json \<Rightarrow> user option" where
  "user_of_json (JObj kvs) =
     do { i \<leftarrow> get kvs ''id'' as_str; n \<leftarrow> get kvs ''name'' as_str;
          e \<leftarrow> get kvs ''email'' as_str; ph \<leftarrow> get kvs ''phone'' as_str;
          l \<leftarrow> get kvs ''location'' as_str; ra \<leftarrow> get kvs ''registeredAt'' as_iso;
          v \<leftarrow> get kvs ''isVerified'' as_bool;
          Some \<lparr>user_id = i, name = n, email = e, phone = ph, user_location = l,
                registeredAt = ra, isVerified = v\<rparr> }"
| "user_of_json _ = None"

text \<open>What survives of \<open>assignedTo\<close> a write and a read.\<close>

definition kept_assignee :: "assignee \<Rightarrow> assignee option" where
  "kept_assignee a = Option.bind (json_of_assignee a) assignee_of_json"

definition stored_view :: "report \<Rightarrow> report" where
  "stored_view r = r\<lparr>assignedTo := Option.bind (assignedTo r) kept_assignee\<rparr>"


subsection \<open>Round trip\<close>

lemma map_of_append_lookup:
  "map_of (xs @ ys) k = (case map_of xs k of None \<Rightarrow> map_of ys k | Some v \<Rightarrow> Some v)"
  by (induction xs) auto

lemma those_map_Some:
  "(\<And>x. x \<in> set xs \<Longrightarrow> g (f x) = Some x) \<Longrightarrow> those (map (g \<circ> f) xs) = Some xs"
  by (induction xs) auto

lemma get_roundtrip: "map_of kvs k = Some (f x) \<Longrightarrow> g (f x) = Some x \<Longrightarrow> get kvs k g = Some x"
  by (simp add: get_def)

lemma get_opt_roundtrip:
  "map_of kvs k = map_option f v \<Longrightarrow> (\<And>x. g (f x) = Some x) \<Longrightarrow> get_opt kvs k g = Some v"
  by (cases v) (simp_all add: get_opt_def)

lemma entry_roundtrip [simp]: "entry_of_json (json_of_entry e) = Some e"
  by (simp add: json_of_entry_def get_def as_str_def as_iso_def)

lemma evidence_roundtrip [simp]: "evidence_of_json (json_of_evidence f) = Some f"
  by (simp add: json_of_evidence_def get_def as_str_def as_num_def)

lemma as_list_roundtrip:
  "(\<And>x. g (f x) = Some x) \<Longrightarrow> as_list g (JArr (map f xs)) = Some xs"
  by (simp add: as_list_def those_map_Some)

lemma user_roundtrip [simp]: "user_of_json (json_of_user u) = Some u"
  by (simp add: json_of_user_def get_def as_str_def as_iso_def as_bool_def)

lemma map_of_opt_field_append [simp]:
  "map_of (opt_field k f v @ ys) k' =
     (if k' = k \<and> v \<noteq> None then map_option f v else map_of ys k')"
  by (cases v) (auto simp: opt_field_def)

lemma report_fields_lookup:
  "map_of (report_fields r) ''id'' = Some (JStr (report_id r))"
  "map_of (report_fields r) ''title'' = Some (JStr (title r))"
  "map_of (report_fields r) ''category'' = Some (JStr (category r))"
  "map_of (report_fields r) ''priority'' = Some (JStr (priority r))"
  "map_of (report_fields r) ''location'' = Some (JStr (location r))"
  "map_of (report_fields r) ''description'' = Some (JStr (description r))"
  "map_of (report_fields r) ''evidence'' = map_option (\<lambda>fs. JArr (map json_of_evidence fs)) (evidence r)"
  "map_of (report_fields r) ''isPublic'' = Some (JBool (isPublic r))"
  "map_of (report_fields r) ''isAnonymous'' = Some (JBool (isAnonymous r))"
  "map_of (report_fields r) ''submittedBy'' = map_option JStr (submittedBy r)"
  "map_of (report_fields r) ''submittedAt'' = Some (JIso (submittedAt r))"
  "map_of (report_fields r) ''status'' = Some (JStr (status r))"
  "map_of (report_fields r) ''timeline'' = Some (JArr (map json_of_entry (timeline r)))"
  "map_of (report_fields r) ''assignedTo'' = Option.bind (assignedTo r) json_of_assignee"
  "map_of (report_fields r) ''routedAt'' = map_option JIso (routedAt r)"
  "map_of (report_fields r) ''isDraft'' = (if isDraft r then Some (JBool True) else None)"
  "map_of (report_fields r) ''savedAt'' = map_option JIso (savedAt r)"
  by (auto simp add: report_fields_def option.map_id simp del: map_of_append)

lemma get_opt_assignedTo:
  "get_opt (report_fields r) ''assignedTo'' assignee_of_json =
     Some (Option.bind (assignedTo r) kept_assignee)"
proof (cases "assignedTo r")
  case None
  then show ?thesis by (simp add: get_opt_def report_fields_lookup)
next
  case (Some a)
  then show ?thesis
    by (cases a) (simp_all add: get_opt_def report_fields_lookup kept_assignee_def)
qed

lemma report_roundtrip: "report_of_json (json_of_report r) = Some (stored_view r)"
proof -
  have ev: "get_opt (report_fields r) ''evidence'' (as_list evidence_of_json) = Some (evidence r)"
    by (rule get_opt_roundtrip [OF report_fields_lookup(7)]) (simp add: as_list_roundtrip)
  have sb: "get_opt (report_fields r) ''submittedBy'' as_str = Some (submittedBy r)"
    by (rule get_opt_roundtrip [OF report_fields_lookup(10)]) (simp add: as_str_def)
  have ra: "get_opt (report_fields r) ''routedAt'' as_iso = Some (routedAt r)"
    by (rule get_opt_roundtrip [OF report_fields_lookup(15)]) (simp add: as_iso_def)
  have sv: "get_opt (report_fields r) ''savedAt'' as_iso = Some (savedAt r)"
    by (rule get_opt_roundtrip [OF report_fields_lookup(17)]) (simp add: as_iso_def)
  show ?thesis
    by (simp add: json_of_report_def get_def report_fields_lookup as_str_def as_bool_def
        as_iso_def as_list_roundtrip ev sb ra sv as_draft_flag_def get_opt_assignedTo
        stored_view_def)
qed

subsection \<open>Loading\<close>

text \<open>
  \<open>applySettings\<close>: each control whose saved value is truthy is switched on;
  a control saved as off is left as the page has it. The language is taken when it
  is a non-empty string (a truthy value of another type is not modelled).
  A settings value that is not an object has none of these properties.
\<close>

definition flag_on :: "(string \<times> json) list \<Rightarrow> string \<Rightarrow> bool" where
  "flag_on kvs k = (case map_of kvs k of Some v \<Rightarrow> json_truthy v | None \<Rightarrow> False)"

definition applySettings :: "json \<Rightarrow> settings \<Rightarrow> settings" where
  "applySettings j p =
     (case j of
        JObj kvs \<Rightarrow>
          (let p1 = (if flag_on kvs ''highContrast'' then p\<lparr>highContrast := True\<rparr> else p);
               p2 = (if flag_on kvs ''largeText'' then p1\<lparr>largeText := True\<rparr> else p1);
               p3 = (if flag_on kvs ''screenReader'' then p2\<lparr>screenReader := True\<rparr> else p2);
               p4 = (case map_of kvs ''language'' of
                       Some (JStr l) \<Rightarrow> if l \<noteq> [] then p3\<lparr>language := l\<rparr> else p3
                     | _ \<Rightarrow> p3);
               p5 = (if flag_on kvs ''emailNotifications'' then p4\<lparr>emailNotifications := True\<rparr> else p4)
           in if flag_on kvs ''smsNotifications'' then p5\<lparr>smsNotifications := True\<rparr> else p5)
      | _ \<Rightarrow> p)"

datatype load_error = ForeignShape

text \<open>\<open>parsed.reports || []\<close>, read as a list of the program's own reports.\<close>

definition read_list :: "(json \<Rightarrow> 'a option) \<Rightarrow> json option \<Rightarrow> 'a list option" where
  "read_list f v =
     (case v of None \<Rightarrow> Some [] | Some j \<Rightarrow> if json_truthy j then as_list f j else Some [])"

text \<open>\<open>parsed.currentUser || null\<close>.\<close>

definition read_user :: "json option \<Rightarrow> user option option" where
  "read_user v =
     (case v of None \<Rightarrow> Some None
      | Some j \<Rightarrow> if json_truthy j then map_option Some (user_of_json j) else Some None)"

text \<open>
  \<open>loadFromLocalStorage\<close>. No entry: nothing happens. Text that \<open>JSON.parse\<close>
  rejects, or \<open>null\<close> (whose \<open>.reports\<close> throws), is caught and logged: nothing
  changes. Any other non-object value has no such properties, so the collections
  are reset. A value of a shape the program never writes is outside the model
  (\<open>ForeignShape\<close>): the program would carry it on as it is.
\<close>

definition loadFromLocalStorage :: "app \<Rightarrow> load_error + app" where
  "loadFromLocalStorage s =
     (case storage s of
        None \<Rightarrow> Inr s
      | Some Unparsable \<Rightarrow> Inr s
      | Some (Parsed JNull) \<Rightarrow> Inr s
      | Some (Parsed (JObj kvs)) \<Rightarrow>
          (case (read_list report_of_json (map_of kvs ''reports''),
                 read_list report_of_json (map_of kvs ''drafts''),
                 read_user (map_of kvs ''currentUser'')) of
             (Some rs, Some ds, Some cu) \<Rightarrow>
               Inr (s\<lparr>reports := rs, drafts := ds, currentUser := cu,
                      page_settings :=
                        (case map_of kvs ''settings'' of
                           Some j \<Rightarrow> if json_truthy j then applySettings j (page_settings s)
                                     else page_settings s
                         | None \<Rightarrow> page_settings s)\<rparr>)
           | _ \<Rightarrow> Inl ForeignShape)
      | Some (Parsed _) \<Rightarrow> Inr (s\<lparr>reports := [], drafts := [], currentUser := None\<rparr>))"

lemma applySettings_saved:
  "applySettings (json_of_settings st) p =
     p\<lparr>highContrast := highContrast p \<or> highContrast st, largeText := largeText p \<or> largeText st,
       screenReader := screenReader p \<or> screenReader st,
       language := (if language st = [] then language p else language st),
       emailNotifications := emailNotifications p \<or> emailNotifications st,
       smsNotifications := smsNotifications p \<or> smsNotifications st\<rparr>"
  by (simp add: applySettings_def json_of_settings_def flag_on_def json_truthy_def Let_def)

lemma read_list_reports:
  "read_list report_of_json (Some (JArr (map json_of_report rs))) = Some (map stored_view rs)"
proof -
  have "those (map (report_of_json \<circ> json_of_report) rs) = Some (map stored_view rs)"
    by (induction rs) (simp_all add: report_roundtrip)
  then show ?thesis by (simp add: read_list_def json_truthy_def as_list_def)
qed

lemma read_user_saved:
  "read_user (Some (case cu of None \<Rightarrow> JNull | Some u \<Rightarrow> json_of_user u)) = Some cu"
proof (cases cu)
  case None
  then show ?thesis by (simp add: read_user_def json_truthy_def)
next
  case (Some u)
  have "json_truthy (json_of_user u)" by (simp add: json_truthy_def json_of_user_def)
  with Some show ?thesis by (simp add: read_user_def)
qed

subsection \<open>Properties of persistence\<close>

lemma stored_view_plain:
  "(\<forall>m. assignedTo r \<noteq> Some (ProtoMember m)) \<Longrightarrow> stored_view r = r"
  by (cases "assignedTo r") (auto simp: stored_view_def kept_assignee_def elim: assignee_of_json.elims
      intro: assignee.exhaust [of "the (assignedTo r)"] split: assignee.splits)

text \<open>
  A report whose \<open>assignedTo\<close> is unset or a string survives a
  \<open>JSON.stringify\<close> and a read back unchanged.
\<close>

lemma report_json_roundtrip:
  "(\<forall>m. assignedTo r \<noteq> Some (ProtoMember m)) \<Longrightarrow> report_of_json (json_of_report r) = Some r"
  using report_roundtrip stored_view_plain by metis

text \<open>
  A report routed to an inherited function of \<open>Object.prototype\<close>
  loses its assignment when saved: \<open>JSON.stringify\<close> leaves the function out, and
  the report is read back unassigned.
\<close>

lemma proto_assignee_dropped:
  "assignedTo r = Some (ProtoMember m) \<Longrightarrow> m \<noteq> ''__proto__'' \<Longrightarrow>
   map_option assignedTo (report_of_json (json_of_report r)) = Some None"
  by (simp add: report_roundtrip stored_view_def kept_assignee_def)

text \<open>
  Claim C20. Loading leaves the state as it is when there is no entry, when the
  entry is text that \<open>JSON.parse\<close> rejects, and when it is \<open>null\<close>: the
  exception is caught and only logged.
\<close>

theorem load_keeps_state:
  "storage s \<in> {None, Some Unparsable, Some (Parsed JNull)} \<Longrightarrow> loadFromLocalStorage s = Inr s"
  by (auto simp: loadFromLocalStorage_def)

theorem load_keeps_state_witness:
  "let s = \<lparr>currentUser = None, isOffline = False, reports = [], drafts = [],
            page_settings = \<lparr>highContrast = False, largeText = False, screenReader = False,
              language = ''en'', emailNotifications = False, smsNotifications = False\<rparr>,
            storage = Some Unparsable, timers = [], clock = 0, notices = [], modal_shown = False, dom = blank_dom\<rparr>
   in storage s \<in> {None, Some Unparsable, Some (Parsed JNull)} \<and> loadFromLocalStorage s = Inr s"
  using load_keeps_state
    [of "\<lparr>currentUser = None, isOffline = False, reports = [], drafts = [],
            page_settings = \<lparr>highContrast = False, largeText = False, screenReader = False,
              language = ''en'', emailNotifications = False, smsNotifications = False\<rparr>,
            storage = Some Unparsable, timers = [], clock = 0, notices = [], modal_shown = False, dom = blank_dom\<rparr>"]
  by simp

definition flags_off :: "settings \<Rightarrow> bool" where
  "flags_off p \<longleftrightarrow> \<not> highContrast p \<and> \<not> largeText p \<and> \<not> screenReader p \<and>
     \<not> emailNotifications p \<and> \<not> smsNotifications p"

text \<open>
  Claim C24. On a page whose controls are all off, applying the saved settings
  restores what \<open>getSettings\<close> read when they were saved.
\<close>

theorem settings_roundtrip:
  "flags_off q \<Longrightarrow> applySettings (json_of_settings (getSettings p)) q = getSettings p"
  by (simp add: applySettings_saved getSettings_def flags_off_def)

theorem settings_roundtrip_witness:
  "let q = \<lparr>highContrast = False, largeText = False, screenReader = False,
             language = ''en'', emailNotifications = False, smsNotifications = False\<rparr>;
       p = \<lparr>highContrast = True, largeText = False, screenReader = True,
             language = ''fr'', emailNotifications = True, smsNotifications = False\<rparr>
   in flags_off q \<and> applySettings (json_of_settings (getSettings p)) q = getSettings p"
  using settings_roundtrip
    [of "\<lparr>highContrast = False, largeText = False, screenReader = False,
             language = ''en'', emailNotifications = False, smsNotifications = False\<rparr>"
        "\<lparr>highContrast = True, largeText = False, screenReader = True,
             language = ''fr'', emailNotifications = True, smsNotifications = False\<rparr>"]
  by (simp add: flags_off_def)

text \<open>
  Claim C25. \<open>applySettings\<close> never switches a control off: whatever the stored
  value, a control that is on stays on, so a setting saved as off does not undo
  one the page has on.
\<close>

theorem settings_never_cleared:
  "(highContrast p \<longrightarrow> highContrast (applySettings j p)) \<and>
   (largeText p \<longrightarrow> largeText (applySettings j p)) \<and>
   (screenReader p \<longrightarrow> screenReader (applySettings j p)) \<and>
   (emailNotifications p \<longrightarrow> emailNotifications (applySettings j p)) \<and>
   (smsNotifications p \<longrightarrow> smsNotifications (applySettings j p))"
  by (cases j) (simp_all add: applySettings_def Let_def split: option.splits json.splits)

theorem settings_never_cleared_witness:
  "let p = \<lparr>highContrast = True, largeText = True, screenReader = True,
             language = ''en'', emailNotifications = True, smsNotifications = True\<rparr>;
       j = json_of_settings \<lparr>highContrast = False, largeText = False, screenReader = False,
             language = ''en'', emailNotifications = False, smsNotifications = False\<rparr>
   in highContrast (applySettings j p) \<and> largeText (applySettings j p) \<and>
      screenReader (applySettings j p) \<and> emailNotifications (applySettings j p) \<and>
      smsNotifications (applySettings j p)"
  using settings_never_cleared
    [of "\<lparr>highContrast = True, largeText = True, screenReader = True,
             language = ''en'', emailNotifications = True, smsNotifications = True\<rparr>"
        "json_of_settings \<lparr>highContrast = False, largeText = False, screenReader = False,
             language = ''en'', emailNotifications = False, smsNotifications = False\<rparr>"]
  by simp

end
