(* ===== verification/Stakeholders.thy ===== *)
theory Stakeholders
  imports State
begin

text \<open>
  The stakeholder views (\<open>src/script.js\<close> lines 597--639). The matrix itself is
  static markup; \<open>displayStakeholders\<close>, run each time the section is opened,
  calls \<open>updateStakeholderMatrix\<close>, which adds one more \<open>mouseover\<close> listener to
  every \<open>.stakeholder-dot\<close> without removing the ones added before. On a
  \<open>mouseover\<close> each listener calls \<open>showStakeholderTooltip\<close> with the dot's
  \<open>data-stakeholder\<close>, which appends a tooltip element to the body and removes it
  2000 ms later. The event target is taken to be the dot itself; the tooltip's
  position and style are not modelled.
\<close>

definition updateStakeholderMatrix :: "app \<Rightarrow> app" where
  "updateStakeholderMatrix s = s\<lparr>dom := (dom s)\<lparr>dot_listeners := Suc (dot_listeners (dom s))\<rparr>\<rparr>"

definition displayStakeholders :: "app \<Rightarrow> app" where
  "displayStakeholders s = updateStakeholderMatrix s"

definition showStakeholderTooltip :: "string \<Rightarrow> app \<Rightarrow> app" where
  "showStakeholderTooltip nm s =
     (let n = next_tooltip (dom s)
      in setTimeout (RemoveTooltip n) 2000
           (s\<lparr>dom := (dom s)\<lparr>tooltips := tooltips (dom s) @ [(n, nm)], next_tooltip := Suc n\<rparr>\<rparr>))"

text \<open>A \<open>mouseover\<close> on a dot runs every listener the dot carries, in turn.\<close>

definition stakeholder_mouseover :: "string \<Rightarrow> app \<Rightarrow> app" where
  "stakeholder_mouseover nm s = (showStakeholderTooltip nm ^^ dot_listeners (dom s)) s"

text \<open>The removal callback: \<open>if (tooltip.parentNode) tooltip.parentNode.removeChild(tooltip)\<close>.\<close>

definition remove_tooltip :: "nat \<Rightarrow> app \<Rightarrow> app" where
  "remove_tooltip n s = s\<lparr>dom := (dom s)\<lparr>tooltips := filter (\<lambda>t. fst t \<noteq> n) (tooltips (dom s))\<rparr>\<rparr>"

subsection \<open>Lemmas\<close>

lemma show_tooltip_step:
  "tooltips (dom (showStakeholderTooltip nm s)) = tooltips (dom s) @ [(next_tooltip (dom s), nm)]"
  "next_tooltip (dom (showStakeholderTooltip nm s)) = Suc (next_tooltip (dom s))"
  "dot_listeners (dom (showStakeholderTooltip nm s)) = dot_listeners (dom s)"
  "set (timers (showStakeholderTooltip nm s)) =
     insert \<lparr>due = clock s + 2000, task = RemoveTooltip (next_tooltip (dom s))\<rparr> (set (timers s))"
  by (simp_all add: showStakeholderTooltip_def Let_def)

lemma show_tooltip_fields [simp]:
  "reports (showStakeholderTooltip nm s) = reports s"
  "drafts (showStakeholderTooltip nm s) = drafts s"
  "clock (showStakeholderTooltip nm s) = clock s"
  "storage (showStakeholderTooltip nm s) = storage s"
  "currentUser (showStakeholderTooltip nm s) = currentUser s"
  by (simp_all add: showStakeholderTooltip_def Let_def)

lemma show_tooltip_iter_fields [simp]:
  "reports ((showStakeholderTooltip nm ^^ k) s) = reports s"
  "drafts ((showStakeholderTooltip nm ^^ k) s) = drafts s"
  "clock ((showStakeholderTooltip nm ^^ k) s) = clock s"
  "storage ((showStakeholderTooltip nm ^^ k) s) = storage s"
  "currentUser ((showStakeholderTooltip nm ^^ k) s) = currentUser s"
  by (induction k) simp_all

lemma show_tooltip_iter:
  "tooltips (dom ((showStakeholderTooltip nm ^^ k) s)) =
     tooltips (dom s) @ map (\<lambda>j. (next_tooltip (dom s) + j, nm)) [0..<k] \<and>
   next_tooltip (dom ((showStakeholderTooltip nm ^^ k) s)) = next_tooltip (dom s) + k \<and>
   dot_listeners (dom ((showStakeholderTooltip nm ^^ k) s)) = dot_listeners (dom s) \<and>
   set (timers ((showStakeholderTooltip nm ^^ k) s)) =
     set (timers s) \<union> (\<lambda>j. \<lparr>due = clock s + 2000, task = RemoveTooltip (next_tooltip (dom s) + j)\<rparr>) ` {..<k}"
proof (induction k)
  case 0
  then show ?case by simp
next
  case (Suc k)
  then show ?case
    unfolding funpow.simps(2) comp_apply show_tooltip_step by (auto simp: lessThan_Suc)
qed

lemma remove_tooltip_fields [simp]:
  "reports (remove_tooltip n s) = reports s" "drafts (remove_tooltip n s) = drafts s"
  "timers (remove_tooltip n s) = timers s" "clock (remove_tooltip n s) = clock s"
  "storage (remove_tooltip n s) = storage s" "currentUser (remove_tooltip n s) = currentUser s"
  "tooltips (dom (remove_tooltip n s)) = filter (\<lambda>t. fst t \<noteq> n) (tooltips (dom s))"
  by (simp_all add: remove_tooltip_def)

lemma displayStakeholders_iter:
  "(displayStakeholders ^^ k) s = s\<lparr>dom := (dom s)\<lparr>dot_listeners := dot_listeners (dom s) + k\<rparr>\<rparr>"
  by (induction k) (simp_all add: displayStakeholders_def updateStakeholderMatrix_def)

end
