(* ===== verification/App.thy ===== *)
theory App
  imports Validate Route Lifecycle Store Stakeholders
begin

text \<open>
  The handlers of \<open>CivicConnectApp\<close> (\<open>src/script.js\<close>) as functions on the
  application state: \<open>updateReportStatus\<close>, \<open>submitReport\<close>,
  \<open>simulateResolution\<close> and its callbacks, \<open>saveDraft\<close>, \<open>registerUser\<close>,
  \<open>generateMockData\<close> and the start-up sequence of the constructor, the
  listeners of the settings controls and of the online/offline events.
  Each handler reads the clock once (\<open>clock s\<close>). Rendering
  (\<open>displayReports\<close>, the charts, \<open>clearReportForm\<close>) changes nothing the model
  keeps and is left out of the handlers, with one exception: \<open>updateDashboard\<close>
  calls \<open>updateRecentActivity\<close>, which sorts \<open>this.reports\<close> in place.
  The program's run is the relation \<open>app_step\<close>: a user event at a time no
  earlier than the clock, or the firing of the first pending timer.
\<close>

subsection \<open>The dashboard and navigation\<close>

text \<open>
  \<open>updateDashboard\<close> (lines 456--469) writes the three counts into the page and
  calls \<open>updateRecentActivity\<close> (lines 471--496), whose
  \<open>this.reports.sort(...)\<close> reorders the application's own array, newest first,
  before rendering the first five (the rendering is in \<open>Render\<close>). The page is
  taken to have the dashboard's elements: \<open>updateDashboard\<close> writes to them
  without checking, so without them the constructor itself would throw.
\<close>

definition updateDashboard :: "app \<Rightarrow> app" where
  "updateDashboard s = s\<lparr>reports := newest_first (reports s)\<rparr>"

text \<open>
  \<open>navigateToSection\<close> and \<open>loadSectionData\<close> (lines 94--138): the classes of the
  sections change, and of the sections' loaders two change the state: the
  dashboard's sorts the reports, the stakeholders' adds a listener to each dot.
\<close>

definition navigateToSection :: "string \<Rightarrow> app \<Rightarrow> app" where
  "navigateToSection sec s =
     (if sec = ''dashboard'' then updateDashboard s
      else if sec = ''stakeholders'' then displayStakeholders s else s)"

lemma navigateToSection_other [simp]:
  "sec \<noteq> ''dashboard'' \<Longrightarrow> sec \<noteq> ''stakeholders'' \<Longrightarrow> navigateToSection sec s = s"
  by (simp add: navigateToSection_def)

lemma updateDashboard_fields [simp]:
  "reports (updateDashboard s) = newest_first (reports s)"
  "drafts (updateDashboard s) = drafts s" "timers (updateDashboard s) = timers s"
  "clock (updateDashboard s) = clock s" "storage (updateDashboard s) = storage s"
  "currentUser (updateDashboard s) = currentUser s" "isOffline (updateDashboard s) = isOffline s"
  "page_settings (updateDashboard s) = page_settings s" "notices (updateDashboard s) = notices s"
  "dom (updateDashboard s) = dom s"
  by (simp_all add: updateDashboard_def)

subsection \<open>Status updates\<close>

definition resolved_message :: "string \<Rightarrow> string" where
  "resolved_message t = ''Your report '' @ [CHR 0x22] @ t @ [CHR 0x22] @ '' has been resolved.''"

text \<open>\<open>updateReportStatus(reportId, newStatus, description)\<close> (lines 259--278).\<close>

definition updateReportStatus :: "string \<Rightarrow> string \<Rightarrow> string \<Rightarrow> app \<Rightarrow> app" where
  "updateReportStatus rid st d s =
     (case find (\<lambda>r. report_id r = rid) (reports s) of
        None \<Rightarrow> s
      | Some r \<Rightarrow>
          (let s1 = updateDashboard (saveToLocalStorage
                      (s\<lparr>reports := update_first (\<lambda>r. report_id r = rid)
                                       (set_status st d (clock s)) (reports s)\<rparr>))
           in if st = ''resolved''
              then showNotification ''success'' ''Issue Resolved'' (resolved_message (title r)) s1
              else s1))"

subsection \<open>Submission\<close>

definition submit_message :: "string \<Rightarrow> string" where
  "submit_message rid =
     ''Your report has been submitted with ID: '' @ take 8 rid @
     ''. You can track its progress in the tracking section.''"

definition under_review_description :: string where
  "under_review_description = ''Report is being reviewed by authorities''"

text \<open>\<open>submitReport\<close> (lines 220--256).\<close>

definition submitReport :: "string \<Rightarrow> report_form \<Rightarrow> app \<Rightarrow> app" where
  "submitReport rid f s =
     (let data = collectReportData rid (clock s) (isOffline s) (currentUser s) f;
          v = validateReportData data
      in if \<not> isValid v
         then showNotification ''error'' ''Validation Error'' (js_join '', '' (errors v)) s
         else
           (let r = routeReport (clock s) (vdata v);
                s1 = saveToLocalStorage (s\<lparr>reports := reports s @ [r]\<rparr>);
                s2 = setTimeout (StatusUpdate (report_id r) ''under-review'' under_review_description)
                       2000 s1
            in navigateToSection ''track''
                 (showNotification ''success'' ''Report Submitted'' (submit_message (report_id r)) s2)))"

subsection \<open>The resolution simulation\<close>

text \<open>
  \<open>pendingReports.forEach((report, index) => setTimeout(..., (index + 1) * 10000))\<close>:
  the \<open>k\<close>-th pending report (from 0) gets a callback due \<open>(k + 1) * 10000\<close> ms later.
\<close>

fun schedule_sim :: "nat \<Rightarrow> report list \<Rightarrow> app \<Rightarrow> app" where
  "schedule_sim k [] s = s"
| "schedule_sim k (r # rs) s =
     schedule_sim (Suc k) rs (setTimeout (SimCallback (report_id r)) (int (Suc k) * 10000) s)"

definition simulateResolution :: "app \<Rightarrow> app" where
  "simulateResolution s = schedule_sim 0 (filter is_pending (reports s)) s"

text \<open>
  The callback of \<open>simulateResolution\<close> for the report with id \<open>rid\<close>: it reads the
  report's status when it fires and advances it through \<open>updateReportStatus\<close>.
\<close>

definition sim_callback :: "string \<Rightarrow> app \<Rightarrow> app" where
  "sim_callback rid s =
     (case find (\<lambda>r. report_id r = rid) (reports s) of
        None \<Rightarrow> s
      | Some r \<Rightarrow>
          (case sim_next (status r) of
             None \<Rightarrow> s
           | Some st \<Rightarrow> updateReportStatus (report_id r) st (sim_description st) s))"

subsection \<open>Drafts, registration, settings, connectivity\<close>

text \<open>\<open>saveDraft\<close> (lines 304--313).\<close>

definition saveDraft :: "string \<Rightarrow> report_form \<Rightarrow> app \<Rightarrow> app" where
  "saveDraft rid f s =
     (let d = (collectReportData rid (clock s) (isOffline s) (currentUser s) f)
                \<lparr>isDraft := True, savedAt := Some (clock s)\<rparr>;
          s1 = saveToLocalStorage (s\<lparr>drafts := drafts s @ [d]\<rparr>)
      in showNotification ''info'' ''Draft Saved'' ''Your report has been saved as a draft.'' s1)"

record reg_form =
  regName :: string
  regEmail :: string
  regPhone :: string
  regLocation :: string

text \<open>\<open>showRegistrationModal\<close> and \<open>hideRegistrationModal\<close> (lines 841--853): the modal's \<open>show\<close> class.\<close>

definition showRegistrationModal :: "app \<Rightarrow> app" where
  "showRegistrationModal s = s\<lparr>modal_shown := True\<rparr>"

definition hideRegistrationModal :: "app \<Rightarrow> app" where
  "hideRegistrationModal s = s\<lparr>modal_shown := False\<rparr>"

declare showRegistrationModal_def [simp] hideRegistrationModal_def [simp]

text \<open>\<open>registerUser\<close> (lines 855--885).\<close>

definition registerUser :: "string \<Rightarrow> reg_form \<Rightarrow> app \<Rightarrow> app" where
  "registerUser uid f s =
     (if regName f = [] \<or> regEmail f = []
      then showNotification ''error'' ''Registration Error'' ''Name and email are required.'' s
      else
        (let u = \<lparr>user_id = uid, name = regName f, email = regEmail f, phone = regPhone f,
                  user_location = regLocation f, registeredAt = clock s, isVerified = True\<rparr>;
             s1 = saveToLocalStorage (s\<lparr>currentUser := Some u\<rparr>)
         in showNotification ''success'' ''Welcome!''
              (''Welcome to CivicConnect, '' @ regName f @
               ''! You can now start reporting issues in your community.'')
              (hideRegistrationModal s1)))"

text \<open>
  The page's controls. The three accessibility boxes have \<open>change\<close> listeners that
  save (\<open>setupAccessibilitySettings\<close>, lines 718--744); the language and the
  notification boxes have none, so a change to them is saved only with the next save.
\<close>

datatype control_change =
    HighContrast bool | LargeText bool | ScreenReader bool
  | Language string | EmailNotifications bool | SmsNotifications bool

fun change_control :: "control_change \<Rightarrow> app \<Rightarrow> app" where
  "change_control (HighContrast b) s =
     saveToLocalStorage (s\<lparr>page_settings := (page_settings s)\<lparr>highContrast := b\<rparr>\<rparr>)"
| "change_control (LargeText b) s =
     saveToLocalStorage (s\<lparr>page_settings := (page_settings s)\<lparr>largeText := b\<rparr>\<rparr>)"
| "change_control (ScreenReader b) s =
     saveToLocalStorage (s\<lparr>page_settings := (page_settings s)\<lparr>screenReader := b\<rparr>\<rparr>)"
| "change_control (Language l) s = s\<lparr>page_settings := (page_settings s)\<lparr>language := l\<rparr>\<rparr>"
| "change_control (EmailNotifications b) s =
     s\<lparr>page_settings := (page_settings s)\<lparr>emailNotifications := b\<rparr>\<rparr>"
| "change_control (SmsNotifications b) s =
     s\<lparr>page_settings := (page_settings s)\<lparr>smsNotifications := b\<rparr>\<rparr>"

text \<open>\<open>updateOnlineStatus\<close> (lines 663--680); the offline sync only logs.\<close>

definition updateOnlineStatus :: "bool \<Rightarrow> app \<Rightarrow> app" where
  "updateOnlineStatus online s = s\<lparr>isOffline := \<not> online\<rparr>"

subsection \<open>Start-up\<close>

definition day_ms :: int where
  "day_ms = 24 * 60 * 60 * 1000"

definition mk_entry :: "string \<Rightarrow> timestamp \<Rightarrow> string \<Rightarrow> timeline_entry" where
  "mk_entry st t d = \<lparr>te_status = st, te_date = t, te_description = d\<rparr>"

text \<open>The two demonstration reports of \<open>generateMockData\<close> (lines 992--1060).\<close>

definition mock_reports :: "string \<Rightarrow> string \<Rightarrow> timestamp \<Rightarrow> report list" where
  "mock_reports id1 id2 now =
     [\<lparr>report_id = id1, title = ''Broken streetlight on Main Street'',
       category = ''infrastructure'', priority = ''medium'',
       location = ''Main Street & 5th Avenue'',
       description = ''The streetlight at the intersection of Main Street and 5th Avenue has been broken for over a week, creating a safety hazard for pedestrians and drivers.'',
       evidence = None, isPublic = True, isAnonymous = False,
       submittedBy = Some ''demo_user'', submittedAt = now - 2 * day_ms,
       status = ''in-progress'',
       timeline = [mk_entry ''submitted'' (now - 2 * day_ms) ''Report submitted by citizen'',
                   mk_entry ''under-review'' (now - 3 * day_ms div 2)
                     ''Report is being reviewed by authorities'',
                   mk_entry ''in-progress'' (now - day_ms)
                     ''Authorities have started working on this issue''],
       assignedTo = Some (Authority ''Municipal Public Works Department''),
       routedAt = None, isDraft = False, savedAt = None\<rparr>,
      \<lparr>report_id = id2, title = ''Illegal dumping in Central Park'',
       category = ''environment'', priority = ''high'',
       location = ''Central Park, North Section'',
       description = ''Someone has been illegally dumping construction waste in the north section of Central Park. This is damaging the environment and creating an eyesore.'',
       evidence = None, isPublic = True, isAnonymous = True,
       submittedBy = Some ''anonymous'', submittedAt = now - 5 * day_ms,
       status = ''resolved'',
       timeline = [mk_entry ''submitted'' (now - 5 * day_ms) ''Report submitted by citizen'',
                   mk_entry ''under-review'' (now - 4 * day_ms)
                     ''Report is being reviewed by authorities'',
                   mk_entry ''in-progress'' (now - 2 * day_ms)
                     ''Cleanup crew dispatched to the location'',
                   mk_entry ''resolved'' (now - day_ms)
                     ''Illegal waste removed and area cleaned up''],
       assignedTo = Some (Authority ''Environmental Protection Agency''),
       routedAt = None, isDraft = False, savedAt = None\<rparr>]"

text \<open>\<open>generateMockData\<close> (lines 990--1070).\<close>

definition generateMockData :: "string \<Rightarrow> string \<Rightarrow> app \<Rightarrow> app" where
  "generateMockData id1 id2 s =
     (let s1 = (if reports s = []
                then saveToLocalStorage (s\<lparr>reports := mock_reports id1 id2 (clock s)\<rparr>)
                else s)
      in setTimeout RunSimulation 5000 s1)"

text \<open>
  The constructor and \<open>init()\<close> (lines 5--24): \<open>checkOnlineStatus\<close>,
  \<open>loadFromLocalStorage\<close>, \<open>generateMockData\<close>, \<open>updateDashboard\<close>,
  \<open>setupOfflineCapabilities\<close> (it only logs), and
  \<open>initializeRegistration\<close> (lines 804--811), on a page whose controls show
  \<open>p0\<close> and whose storage holds \<open>st\<close>.
\<close>

definition app_init ::
  "bool \<Rightarrow> settings \<Rightarrow> stored option \<Rightarrow> string \<Rightarrow> string \<Rightarrow> timestamp \<Rightarrow> load_error + app" where
  "app_init online p0 st id1 id2 now =
     (let s0 = \<lparr>currentUser = None, isOffline = False, reports = [], drafts = [],
                page_settings = p0, storage = st, timers = [], clock = now, notices = [],
                modal_shown = False, dom = blank_dom\<rparr>
      in case loadFromLocalStorage (updateOnlineStatus online s0) of
           Inl e \<Rightarrow> Inl e
         | Inr s2 \<Rightarrow>
             (let s3 = updateDashboard (generateMockData id1 id2 s2)
              in Inr (if currentUser s3 = None then setTimeout ShowRegistration 1000 s3 else s3)))"

subsection \<open>Events and runs\<close>

fun run_task :: "task \<Rightarrow> app \<Rightarrow> app" where
  "run_task (StatusUpdate rid st d) s = updateReportStatus rid st d s"
| "run_task (SimCallback rid) s = sim_callback rid s"
| "run_task RunSimulation s = simulateResolution s"
| "run_task ShowRegistration s = showRegistrationModal s"
| "run_task (RemoveTooltip n) s = remove_tooltip n s"

text \<open>Firing the first pending timer: it leaves the queue and the clock reaches its due time.\<close>

definition fire_timer :: "timer \<Rightarrow> timer list \<Rightarrow> app \<Rightarrow> app" where
  "fire_timer tm rest s =
     run_task (task tm) (s\<lparr>timers := rest, clock := max (clock s) (due tm)\<rparr>)"

datatype event =
    Submit string report_form
  | SaveDraftEv string report_form
  | Register string reg_form
  | ChangeControl control_change
  | OnlineStatus bool
  | CloseModal
  | Navigate string
  | HoverDot string

fun handle_event :: "event \<Rightarrow> app \<Rightarrow> app" where
  "handle_event (Submit rid f) s = submitReport rid f s"
| "handle_event (SaveDraftEv rid f) s = saveDraft rid f s"
| "handle_event (Register uid f) s = registerUser uid f s"
| "handle_event (ChangeControl c) s = change_control c s"
| "handle_event (OnlineStatus b) s = updateOnlineStatus b s"
| "handle_event CloseModal s = hideRegistrationModal s"
| "handle_event (Navigate sec) s = navigateToSection sec s"
| "handle_event (HoverDot nm) s = stakeholder_mouseover nm s"

text \<open>
  Ids come from \<open>generateId()\<close>, random text followed by the time; the run
  takes the id of a new report to be fresh among the reports, and the two
  demonstration ids to differ. A reload (by the user, or by \<open>logout\<close>, which
  first clears the user and the storage, lines 983--987) starts a new instance:
  the old timers are gone.
\<close>

inductive app_step :: "app \<Rightarrow> app \<Rightarrow> bool" where
  submit: "clock s \<le> t \<Longrightarrow> rid \<notin> report_id ` set (reports s) \<Longrightarrow>
    app_step s (submitReport rid f (s\<lparr>clock := t\<rparr>))"
| event: "clock s \<le> t \<Longrightarrow> \<forall>rid f. e \<noteq> Submit rid f \<Longrightarrow>
    app_step s (handle_event e (s\<lparr>clock := t\<rparr>))"
| fire: "timers s = tm # rest \<Longrightarrow> app_step s (fire_timer tm rest s)"
| reload: "clock s \<le> t \<Longrightarrow> id1 \<noteq> id2 \<Longrightarrow> app_init online p0 (storage s) id1 id2 t = Inr s' \<Longrightarrow>
    app_step s s'"
| logout: "clock s \<le> t \<Longrightarrow> id1 \<noteq> id2 \<Longrightarrow> app_init online p0 None id1 id2 t = Inr s' \<Longrightarrow>
    app_step s s'"

text \<open>The states of a run that starts in a browser with no saved data.\<close>

inductive reachable :: "app \<Rightarrow> bool" where
  start: "id1 \<noteq> id2 \<Longrightarrow> app_init online p0 None id1 id2 t = Inr s \<Longrightarrow> reachable s"
| step: "reachable s \<Longrightarrow> app_step s s' \<Longrightarrow> reachable s'"

end
