(* ===== verification/Invariants.thy ===== *)
theory Invariants
  imports App
begin

text \<open>
  The invariant of the running application and its preservation by every step
  of \<open>app_step\<close>. It has three parts:
  \<^item> \<open>reports_inv\<close>: every report satisfies \<open>wf_report\<close> and report ids are
    distinct;
  \<^item> \<open>timers_inv\<close>: the timer queue is ordered by due time; a pending
    \<open>under-review\<close> update of \<open>submitReport\<close> targets a report still in state
    \<open>submitted\<close>, is due within 2000 ms of the clock and before every
    \<open>simulateResolution\<close> callback for the same report; a callback names a
    report of the array;
  \<^item> \<open>stored_ok\<close>: the stored snapshot reads back as the current drafts and user
    and as the current reports or the reports they were sorted from by
    \<open>updateDashboard\<close>, up to what \<open>JSON.stringify\<close> drops.
\<close>

subsection \<open>Report-level facts\<close>

lemma wf_report_cong:
  "timeline r' = timeline r \<Longrightarrow> status r' = status r \<Longrightarrow> wf_report r' = wf_report r"
  by (auto simp: wf_report_def lifecycle_entries_def split: option.splits)

lemma lifecycle_entries_routeReport [simp]:
  "lifecycle_entries (routeReport t r) = lifecycle_entries r"
  by (simp add: lifecycle_entries_def)

lemma wf_report_routeReport: "wf_report r \<Longrightarrow> wf_report (routeReport t r)"
  by (auto simp: wf_report_def hd_append split: option.splits)

lemma wf_report_collect: "wf_report (collectReportData rid t off cu f)"
  by (simp add: wf_report_def lifecycle_entries_def phase_of_def)

lemma wf_report_submitted:
  "wf_report (routeReport t (vdata (validateReportData (collectReportData rid t off cu f))))"
proof -
  have "wf_report (vdata (validateReportData (collectReportData rid t off cu f))) =
        wf_report (collectReportData rid t off cu f)"
    by (rule wf_report_cong) simp_all
  then have "wf_report (vdata (validateReportData (collectReportData rid t off cu f)))"
    using wf_report_collect by simp
  then show ?thesis by (rule wf_report_routeReport)
qed

lemma stored_view_fields [simp]:
  "timeline (stored_view r) = timeline r" "status (stored_view r) = status r"
  "report_id (stored_view r) = report_id r"
  by (simp_all add: stored_view_def)

lemma kept_assignee_cases:
  "kept_assignee a =
     (case a of Authority s \<Rightarrow> Some a
      | ProtoMember m \<Rightarrow> if m = ''__proto__'' then Some a else None)"
  by (cases a) (simp_all add: kept_assignee_def)

lemma kept_assignee_idem [simp]:
  "Option.bind (kept_assignee a) kept_assignee = kept_assignee a"
  by (cases a) (simp_all add: kept_assignee_cases)

lemma stored_view_idem [simp]: "stored_view (stored_view r) = stored_view r"
  by (simp add: stored_view_def)

lemma wf_report_stored_view [simp]: "wf_report (stored_view r) = wf_report r"
  by (rule wf_report_cong) simp_all

lemma stored_view_submittedAt [simp]: "submittedAt (stored_view r) = submittedAt r"
  by (simp add: stored_view_def)

lemma newest_first_stored_view:
  "newest_first (map stored_view rs) = map stored_view (newest_first rs)"
  by (simp add: newest_first_def sort_key_map comp_def)

subsection \<open>The invariant\<close>

definition reports_inv :: "report list \<Rightarrow> bool" where
  "reports_inv rs \<longleftrightarrow> (\<forall>r\<in>set rs. wf_report r) \<and> distinct (map report_id rs)"

fun su_ids :: "timer list \<Rightarrow> string list" where
  "su_ids [] = []"
| "su_ids (tm # ts) =
     (case task tm of StatusUpdate rid _ _ \<Rightarrow> rid # su_ids ts | _ \<Rightarrow> su_ids ts)"

definition timer_ok :: "report list \<Rightarrow> timestamp \<Rightarrow> timer list \<Rightarrow> timer \<Rightarrow> bool" where
  "timer_ok rs c ts tm =
     (case task tm of
        StatusUpdate rid st d \<Rightarrow>
          st = ''under-review'' \<and> d = under_review_description \<and> due tm \<le> c + 2000 \<and>
          (\<exists>r\<in>set rs. report_id r = rid \<and> status r = ''submitted'') \<and>
          (\<forall>tm'\<in>set ts. task tm' = SimCallback rid \<longrightarrow> due tm < due tm')
      | SimCallback rid \<Rightarrow> rid \<in> report_id ` set rs
      | _ \<Rightarrow> True)"

definition timers_inv :: "report list \<Rightarrow> timestamp \<Rightarrow> timer list \<Rightarrow> bool" where
  "timers_inv rs c ts \<longleftrightarrow>
     sorted (map due ts) \<and> distinct (su_ids ts) \<and> (\<forall>tm\<in>set ts. timer_ok rs c ts tm)"

definition stored_state :: "stored option \<Rightarrow> (report list \<times> report list \<times> user option) option" where
  "stored_state st =
     (case st of
        Some (Parsed (JObj kvs)) \<Rightarrow>
          (case (read_list report_of_json (map_of kvs ''reports''),
                 read_list report_of_json (map_of kvs ''drafts''),
                 read_user (map_of kvs ''currentUser'')) of
             (Some rs, Some ds, Some cu) \<Rightarrow> Some (rs, ds, cu)
           | _ \<Rightarrow> None)
      | _ \<Rightarrow> None)"

text \<open>
  The reports in memory are the stored ones, or the stored ones sorted by
  \<open>updateDashboard\<close>, which runs after the save of \<open>updateReportStatus\<close> and on
  navigation without saving.
\<close>

definition stored_order :: "report list \<Rightarrow> report list \<Rightarrow> bool" where
  "stored_order xs rs \<longleftrightarrow> xs = rs \<or> xs = newest_first rs"

definition stored_ok :: "app \<Rightarrow> bool" where
  "stored_ok s \<longleftrightarrow>
     (\<exists>rs. stored_state (storage s) = Some (rs, map stored_view (drafts s), currentUser s) \<and>
           stored_order (map stored_view (reports s)) rs)"

definition app_inv :: "app \<Rightarrow> bool" where
  "app_inv s \<longleftrightarrow>
     reports_inv (reports s) \<and> timers_inv (reports s) (clock s) (timers s) \<and> stored_ok s"

subsection \<open>Persistence\<close>

lemma stored_order_sort: "stored_order xs rs \<Longrightarrow> stored_order (newest_first xs) rs"
  by (auto simp: stored_order_def)

lemma stored_order_mset: "stored_order xs rs \<Longrightarrow> mset xs = mset rs"
  by (auto simp: stored_order_def)

lemma stored_order_newest: "stored_order xs rs \<Longrightarrow> newest_first xs = newest_first rs"
  by (auto simp: stored_order_def)

lemma stored_ok_state:
  "stored_ok s \<Longrightarrow>
   \<exists>rs. stored_state (storage s) = Some (rs, map stored_view (drafts s), currentUser s) \<and>
        stored_order (map stored_view (reports s)) rs"
  by (simp add: stored_ok_def)

lemma stored_state_snapshot [simp]:
  "stored_state (Some (Parsed (snapshot s))) =
     Some (map stored_view (reports s), map stored_view (drafts s), currentUser s)"
  by (simp add: stored_state_def snapshot_def read_list_reports read_user_saved)

lemma stored_ok_save [simp]: "stored_ok (saveToLocalStorage s)"
  by (simp add: stored_ok_def stored_order_def)

lemma stored_ok_cong:
  "storage s' = storage s \<Longrightarrow> reports s' = reports s \<Longrightarrow> drafts s' = drafts s \<Longrightarrow>
   currentUser s' = currentUser s \<Longrightarrow> stored_ok s' = stored_ok s"
  by (simp add: stored_ok_def)

lemma stored_ok_dashboard: "stored_ok s \<Longrightarrow> stored_ok (updateDashboard s)"
  by (auto simp: stored_ok_def newest_first_stored_view [symmetric] stored_order_sort)

lemma load_stored:
  assumes "stored_state (storage s) = Some (rs, ds, cu)"
  shows "\<exists>p. loadFromLocalStorage s = Inr (s\<lparr>reports := rs, drafts := ds, currentUser := cu,
                                              page_settings := p\<rparr>)"
  using assms
  by (auto simp: stored_state_def loadFromLocalStorage_def
      split: option.splits stored.splits json.splits prod.splits
      intro: exI [where x = "page_settings s"])

lemma reports_inv_mset: "mset rs' = mset rs \<Longrightarrow> reports_inv rs' = reports_inv rs"
proof -
  assume m: "mset rs' = mset rs"
  then have "set rs' = set rs" by (metis set_mset_mset)
  moreover from m have "mset (map report_id rs') = mset (map report_id rs)" by simp
  then have "distinct (map report_id rs') = distinct (map report_id rs)"
    by (rule mset_eq_imp_distinct_iff)
  ultimately show ?thesis by (simp add: reports_inv_def)
qed

lemma reports_inv_newest [simp]: "reports_inv (newest_first rs) = reports_inv rs"
  by (rule reports_inv_mset) simp

subsection \<open>The timer queue\<close>

lemma su_ids_set: "set (su_ids ts) = {rid. \<exists>tm\<in>set ts. \<exists>st d. task tm = StatusUpdate rid st d}"
  by (induction ts) (auto split: task.splits)

lemma su_ids_insert_timer:
  "distinct (su_ids (tm # ts)) \<Longrightarrow> distinct (su_ids (insert_timer tm ts))"
proof (induction ts)
  case Nil
  then show ?case by simp
next
  case (Cons u us)
  then show ?case by (auto simp: su_ids_set split: task.splits)
qed

lemma timers_inv_set: "set rs' = set rs \<Longrightarrow> timers_inv rs' c ts = timers_inv rs c ts"
  by (simp add: timers_inv_def timer_ok_def cong: task.case_cong)

lemma timers_inv_newest [simp]: "timers_inv (newest_first rs) c ts = timers_inv rs c ts"
  by (rule timers_inv_set) simp

lemma timers_inv_clock:
  "timers_inv rs c ts \<Longrightarrow> c \<le> c' \<Longrightarrow> timers_inv rs c' ts"
  by (fastforce simp: timers_inv_def timer_ok_def split: task.splits)

lemma timers_inv_tl: "timers_inv rs c (tm # ts) \<Longrightarrow> timers_inv rs c ts"
  by (fastforce simp: timers_inv_def timer_ok_def split: task.splits task.split_asm)

lemma timers_inv_append_report: "timers_inv rs c ts \<Longrightarrow> timers_inv (rs @ [r]) c ts"
  by (fastforce simp: timers_inv_def timer_ok_def split: task.splits)

lemma timers_inv_update_report:
  assumes inv: "timers_inv rs c ts" and nosu: "rid \<notin> set (su_ids ts)"
    and id: "\<And>r. report_id (f r) = report_id r"
  shows "timers_inv (update_first (\<lambda>r. report_id r = rid) f rs) c ts"
proof -
  let ?rs = "update_first (\<lambda>r. report_id r = rid) f rs"
  have "map report_id ?rs = map report_id rs" by (rule update_first_map) (rule id)
  then have ids: "report_id ` set ?rs = report_id ` set rs" by (metis list.set_map)
  have "timer_ok ?rs c ts tm" if tm: "tm \<in> set ts" for tm
  proof (cases "task tm")
    case (StatusUpdate rid' st d)
    from inv tm have ok: "timer_ok rs c ts tm" by (simp add: timers_inv_def)
    from tm StatusUpdate have "rid' \<in> set (su_ids ts)" by (auto simp: su_ids_set)
    with nosu have ne: "rid' \<noteq> rid" by auto
    from ok StatusUpdate obtain r where r: "r \<in> set rs" "report_id r = rid'"
      "status r = ''submitted''" by (auto simp: timer_ok_def)
    with ne have "r \<in> set ?rs" by (intro update_first_keep) simp_all
    with r ok StatusUpdate show ?thesis by (auto simp: timer_ok_def)
  next
    case (SimCallback rid')
    with inv tm ids show ?thesis by (auto simp: timers_inv_def timer_ok_def)
  qed (simp_all add: timer_ok_def)
  with inv show ?thesis by (simp add: timers_inv_def)
qed

lemma timers_inv_su_ids:
  "timers_inv rs c ts \<Longrightarrow> set (su_ids ts) \<subseteq> report_id ` set rs"
  by (fastforce simp: timers_inv_def timer_ok_def su_ids_set split: task.splits)

lemma timer_ok_insert:
  assumes ok: "timer_ok rs c ts u"
    and later: "\<And>rid st d. task u = StatusUpdate rid st d \<Longrightarrow> task tm = SimCallback rid \<Longrightarrow>
                  due u < due tm"
  shows "timer_ok rs c (insert_timer tm ts) u"
  using ok later by (auto simp: timer_ok_def split: task.splits)

text \<open>The timer of \<open>submitReport\<close> for a report just appended.\<close>

lemma timers_inv_add_update:
  assumes inv: "timers_inv rs c ts" and fresh: "report_id r \<notin> report_id ` set rs"
    and st: "status r = ''submitted''"
  shows "timers_inv (rs @ [r]) c
           (insert_timer \<lparr>due = c + 2000,
              task = StatusUpdate (report_id r) ''under-review'' under_review_description\<rparr> ts)"
    (is "timers_inv ?rs c (insert_timer ?tm ts)")
proof -
  from inv have inv': "timers_inv ?rs c ts" by (rule timers_inv_append_report)
  from inv fresh have "report_id r \<notin> set (su_ids ts)" using timers_inv_su_ids by blast
  with inv have dist: "distinct (su_ids (insert_timer ?tm ts))"
    by (intro su_ids_insert_timer) (simp add: timers_inv_def)
  have new: "timer_ok ?rs c (insert_timer ?tm ts) ?tm"
  proof -
    have "\<forall>tm'\<in>set ts. task tm' \<noteq> SimCallback (report_id r)"
      using inv fresh by (fastforce simp: timers_inv_def timer_ok_def)
    then show ?thesis using st by (auto simp: timer_ok_def)
  qed
  have old: "timer_ok ?rs c (insert_timer ?tm ts) u" if "u \<in> set ts" for u
    using inv' that by (intro timer_ok_insert) (simp_all add: timers_inv_def)
  from inv have "sorted (map due (insert_timer ?tm ts))"
    by (simp add: timers_inv_def sorted_insert_timer)
  with dist new old show ?thesis by (auto simp: timers_inv_def)
qed

text \<open>A \<open>simulateResolution\<close> callback due later than every pending update.\<close>

lemma timers_inv_add_sim:
  assumes inv: "timers_inv rs c ts" and rid: "rid \<in> report_id ` set rs" and d: "c + 2000 < d"
  shows "timers_inv rs c (insert_timer \<lparr>due = d, task = SimCallback rid\<rparr> ts)"
    (is "timers_inv rs c (insert_timer ?tm ts)")
proof -
  have dist: "distinct (su_ids (insert_timer ?tm ts))"
    using inv by (intro su_ids_insert_timer) (simp add: timers_inv_def)
  have old: "timer_ok rs c (insert_timer ?tm ts) u" if u: "u \<in> set ts" for u
  proof (rule timer_ok_insert)
    show "timer_ok rs c ts u" using inv u by (simp add: timers_inv_def)
    fix rid' st d'
    assume "task u = StatusUpdate rid' st d'"
    with inv u have "due u \<le> c + 2000" by (auto simp: timers_inv_def timer_ok_def)
    with d show "due u < due ?tm" by simp
  qed
  from inv have "sorted (map due (insert_timer ?tm ts))"
    by (simp add: timers_inv_def sorted_insert_timer)
  with dist old rid show ?thesis by (auto simp: timers_inv_def timer_ok_def)
qed

subsection \<open>Handler lemmas\<close>

lemma schedule_sim_fields [simp]:
  "reports (schedule_sim k xs s) = reports s" "drafts (schedule_sim k xs s) = drafts s"
  "clock (schedule_sim k xs s) = clock s" "storage (schedule_sim k xs s) = storage s"
  "currentUser (schedule_sim k xs s) = currentUser s"
  by (induction xs arbitrary: k s) simp_all

lemma timers_inv_schedule_sim:
  "timers_inv (reports s) (clock s) (timers s) \<Longrightarrow> set xs \<subseteq> set (reports s) \<Longrightarrow>
   timers_inv (reports s) (clock s) (timers (schedule_sim k xs s))"
proof (induction xs arbitrary: k s)
  case Nil
  then show ?case by simp
next
  case (Cons r xs)
  let ?s = "setTimeout (SimCallback (report_id r)) (int (Suc k) * 10000) s"
  have "clock s + 2000 < clock s + int (Suc k) * 10000" by simp
  moreover from Cons.prems have "report_id r \<in> report_id ` set (reports s)" by simp
  ultimately have "timers_inv (reports ?s) (clock ?s) (timers ?s)"
    using Cons.prems by (simp add: setTimeout_def timers_inv_add_sim)
  moreover from Cons.prems have "set xs \<subseteq> set (reports ?s)" by simp
  ultimately have "timers_inv (reports ?s) (clock ?s) (timers (schedule_sim (Suc k) xs ?s))"
    by (rule Cons.IH)
  then show ?case by simp
qed

lemma find_id_mem:
  "distinct (map report_id rs) \<Longrightarrow> r \<in> set rs \<Longrightarrow>
   find (\<lambda>r'. report_id r' = report_id r) rs = Some r"
  by (induction rs) (auto simp: image_iff)

lemma reports_inv_update:
  assumes "reports_inv rs" and "find (\<lambda>r. report_id r = rid) rs = Some r" and "wf_report (f r)"
    and "\<And>x. report_id (f x) = report_id x"
  shows "reports_inv (update_first (\<lambda>r. report_id r = rid) f rs)"
proof -
  have "map report_id (update_first (\<lambda>r. report_id r = rid) f rs) = map report_id rs"
    by (rule update_first_map) (rule assms(4))
  moreover have "\<forall>y\<in>set (update_first (\<lambda>r. report_id r = rid) f rs). wf_report y"
    using assms(1-3) by (intro update_first_found_all) (simp_all add: reports_inv_def)
  ultimately show ?thesis using assms(1) by (simp add: reports_inv_def)
qed

lemma app_inv_dashboard: "app_inv s \<Longrightarrow> app_inv (updateDashboard s)"
  by (simp add: app_inv_def stored_ok_dashboard)

lemma stored_ok_notify [simp]: "stored_ok (showNotification ty ti msg s) = stored_ok s"
  by (rule stored_ok_cong) simp_all

lemma app_inv_notify [simp]: "app_inv (showNotification ty ti msg s) = app_inv s"
  by (simp add: app_inv_def)

lemma updateReportStatus_found:
  assumes "find (\<lambda>r. report_id r = rid) (reports s) = Some r"
  shows "reports (updateReportStatus rid st d s) =
           newest_first (update_first (\<lambda>r. report_id r = rid) (set_status st d (clock s)) (reports s))"
    and "timers (updateReportStatus rid st d s) = timers s"
    and "clock (updateReportStatus rid st d s) = clock s"
    and "stored_ok (updateReportStatus rid st d s)"
  using assms stored_ok_dashboard [OF stored_ok_save]
  by (simp_all add: updateReportStatus_def Let_def)

text \<open>A status update on the report with id \<open>rid\<close>, from a state satisfying the invariant.\<close>

lemma app_inv_update:
  assumes rinv: "reports_inv (reports s)" and tinv: "timers_inv (reports s) (clock s) (timers s)"
    and fnd: "find (\<lambda>r. report_id r = rid) (reports s) = Some r"
    and wf: "wf_report (set_status st d (clock s) r)" and nosu: "rid \<notin> set (su_ids (timers s))"
  shows "app_inv (updateReportStatus rid st d s)"
proof -
  let ?rs = "update_first (\<lambda>r. report_id r = rid) (set_status st d (clock s)) (reports s)"
  have "reports_inv ?rs" using rinv fnd wf by (rule reports_inv_update) simp
  moreover have "timers_inv ?rs (clock s) (timers s)"
    using tinv nosu by (rule timers_inv_update_report) simp
  ultimately show ?thesis
    using updateReportStatus_found [OF fnd] by (simp add: app_inv_def)
qed

lemma stored_ok_setTimeout [simp]: "stored_ok (setTimeout f d s) = stored_ok s"
  by (rule stored_ok_cong) simp_all

lemma stored_ok_frame [simp]:
  "stored_ok (s\<lparr>timers := ts\<rparr>) = stored_ok s" "stored_ok (s\<lparr>clock := c\<rparr>) = stored_ok s"
  "stored_ok (s\<lparr>page_settings := p\<rparr>) = stored_ok s" "stored_ok (s\<lparr>isOffline := b\<rparr>) = stored_ok s"
  "stored_ok (s\<lparr>modal_shown := b\<rparr>) = stored_ok s" "stored_ok (s\<lparr>notices := ns\<rparr>) = stored_ok s"
  "stored_ok (s\<lparr>dom := pd\<rparr>) = stored_ok s"
  by (simp_all add: stored_ok_def)

lemma app_inv_dom [simp]: "app_inv (s\<lparr>dom := pd\<rparr>) = app_inv s"
  by (simp add: app_inv_def)

lemma timers_inv_add_tooltip:
  assumes inv: "timers_inv rs c ts"
  shows "timers_inv rs c (insert_timer \<lparr>due = d, task = RemoveTooltip n\<rparr> ts)"
    (is "timers_inv rs c (insert_timer ?tm ts)")
proof -
  have dist: "distinct (su_ids (insert_timer ?tm ts))"
    using inv by (intro su_ids_insert_timer) (simp add: timers_inv_def)
  have old: "timer_ok rs c (insert_timer ?tm ts) u" if u: "u \<in> set ts" for u
    using inv u by (intro timer_ok_insert) (simp_all add: timers_inv_def)
  have "timer_ok rs c (insert_timer ?tm ts) ?tm" by (simp add: timer_ok_def)
  with old dist inv show ?thesis by (auto simp: timers_inv_def intro: sorted_insert_timer)
qed

lemma app_inv_tooltip: "app_inv s \<Longrightarrow> app_inv (showStakeholderTooltip nm s)"
  by (simp add: showStakeholderTooltip_def Let_def setTimeout_def app_inv_def timers_inv_add_tooltip)

lemma app_inv_mouseover: "app_inv s \<Longrightarrow> app_inv ((showStakeholderTooltip nm ^^ k) s)"
  by (induction k) (simp_all add: app_inv_tooltip del: funpow.simps(2) add: funpow.simps(2) [unfolded comp_def])

lemma app_inv_clock: "app_inv s \<Longrightarrow> clock s \<le> t \<Longrightarrow> app_inv (s\<lparr>clock := t\<rparr>)"
  by (auto simp: app_inv_def intro: timers_inv_clock)

subsection \<open>Every step keeps the invariant\<close>

lemma app_inv_submit:
  assumes inv: "app_inv s" and fresh: "rid \<notin> report_id ` set (reports s)"
  shows "app_inv (submitReport rid f s)"
proof (cases "isValid (validateReportData
                 (collectReportData rid (clock s) (isOffline s) (currentUser s) f))")
  case False
  with inv show ?thesis by (simp add: submitReport_def Let_def)
next
  case True
  let ?r = "routeReport (clock s)
              (vdata (validateReportData (collectReportData rid (clock s) (isOffline s) (currentUser s) f)))"
  have id: "report_id ?r = rid" and st: "status ?r = ''submitted''" by simp_all
  have wf: "wf_report ?r" by (rule wf_report_submitted)
  from inv fresh wf id have rinv: "reports_inv (reports s @ [?r])"
    by (auto simp: app_inv_def reports_inv_def)
  from inv have "timers_inv (reports s) (clock s) (timers s)" by (simp add: app_inv_def)
  from timers_inv_add_update [OF this, of ?r] fresh id st
  have tinv: "timers_inv (reports s @ [?r]) (clock s)
      (insert_timer \<lparr>due = clock s + 2000,
         task = StatusUpdate rid ''under-review'' under_review_description\<rparr> (timers s))"
    by simp
  from True rinv tinv show ?thesis
    by (simp add: submitReport_def Let_def app_inv_def setTimeout_def)
qed

lemma app_inv_event:
  assumes inv: "app_inv s" and nsub: "\<forall>rid f. e \<noteq> Submit rid f"
  shows "app_inv (handle_event e s)"
proof (cases e)
  case (Submit rid f)
  with nsub show ?thesis by simp
next
  case (ChangeControl c)
  with inv show ?thesis by (cases c) (simp_all add: app_inv_def)
next
  case (Navigate sec)
  with inv show ?thesis
    by (simp add: navigateToSection_def app_inv_dashboard displayStakeholders_def
        updateStakeholderMatrix_def)
next
  case (HoverDot nm)
  with inv show ?thesis by (simp add: stakeholder_mouseover_def app_inv_mouseover)
qed (use inv in \<open>simp_all add: saveDraft_def registerUser_def Let_def
       updateOnlineStatus_def app_inv_def\<close>)

lemma su_not_sim_target:
  assumes inv: "app_inv s" and tm: "timers s = tm # rest" and sim: "task tm = SimCallback rid"
  shows "rid \<notin> set (su_ids rest)"
proof
  assume "rid \<in> set (su_ids rest)"
  then obtain u st d where u: "u \<in> set rest" and tu: "task u = StatusUpdate rid st d"
    by (auto simp: su_ids_set)
  from inv tm u have "timer_ok (reports s) (clock s) (tm # rest) u"
    by (simp add: app_inv_def timers_inv_def)
  with tu sim have "due u < due tm" by (auto simp: timer_ok_def)
  moreover from inv tm u have "due tm \<le> due u" by (simp add: app_inv_def timers_inv_def)
  ultimately show False by simp
qed

lemma app_inv_fire:
  assumes inv: "app_inv s" and tm: "timers s = tm # rest"
  shows "app_inv (fire_timer tm rest s)"
proof -
  let ?c = "max (clock s) (due tm)"
  let ?s1 = "s\<lparr>timers := rest, clock := ?c\<rparr>"
  let ?rs = "reports s"
  from inv have rinv: "reports_inv ?rs" by (simp add: app_inv_def)
  then have dist: "distinct (map report_id ?rs)" by (simp add: reports_inv_def)
  from inv tm have tinv0: "timers_inv ?rs (clock s) (tm # rest)" by (simp add: app_inv_def)
  then have tinv1: "timers_inv ?rs ?c rest" by (auto intro: timers_inv_tl timers_inv_clock)
  from inv have st1: "stored_ok ?s1" by (simp add: app_inv_def)
  have inv1: "app_inv ?s1" using rinv tinv1 st1 by (simp add: app_inv_def)
  from tinv0 have ok: "timer_ok ?rs (clock s) (tm # rest) tm" by (simp add: timers_inv_def)
  show ?thesis
  proof (cases "task tm")
    case (StatusUpdate rid st d)
    with ok obtain r where r: "r \<in> set ?rs" "report_id r = rid" "status r = ''submitted''"
      and st: "st = ''under-review''" by (auto simp: timer_ok_def)
    have fnd: "find (\<lambda>r. report_id r = rid) (reports ?s1) = Some r"
      using find_id_mem [OF dist r(1)] r(2) by simp
    from tinv0 StatusUpdate have nosu: "rid \<notin> set (su_ids rest)" by (simp add: timers_inv_def)
    have "phase_of (status r) = Some PSubmitted" using r by (simp add: phase_of_def)
    moreover have "phase_of st = Some PUnderReview" using st by (simp add: phase_of_def)
    moreover from rinv r have "wf_report r" by (simp add: reports_inv_def)
    ultimately have wf: "wf_report (set_status st d (clock ?s1) r)"
      by (simp add: wf_report_set_status)
    have "app_inv (updateReportStatus rid st d ?s1)"
      using rinv tinv1 fnd wf nosu by (intro app_inv_update) simp_all
    with StatusUpdate show ?thesis by (simp add: fire_timer_def)
  next
    case (SimCallback rid)
    have nosu: "rid \<notin> set (su_ids rest)" using su_not_sim_target [OF inv tm SimCallback] .
    show ?thesis
    proof (cases "find (\<lambda>r. report_id r = rid) ?rs")
      case None
      with SimCallback inv1 show ?thesis by (simp add: fire_timer_def sim_callback_def)
    next
      case (Some r)
      then have r: "r \<in> set ?rs" "report_id r = rid" by (auto dest: find_Some_mem)
      show ?thesis
      proof (cases "sim_next (status r)")
        case None
        with Some SimCallback inv1 show ?thesis by (simp add: fire_timer_def sim_callback_def)
      next
        case (Some st)
        from rinv r have "wf_report (sim_advance ?c r)"
          by (simp add: reports_inv_def wf_report_sim_advance)
        with Some have wf: "wf_report (set_status st (sim_description st) (clock ?s1) r)"
          by (simp add: sim_advance_def)
        have "app_inv (updateReportStatus rid st (sim_description st) ?s1)"
          using rinv tinv1 \<open>find (\<lambda>r. report_id r = rid) ?rs = Some r\<close> wf nosu
          by (intro app_inv_update) simp_all
        with Some \<open>find (\<lambda>r. report_id r = rid) ?rs = Some r\<close> r SimCallback show ?thesis
          by (simp add: fire_timer_def sim_callback_def)
      qed
    qed
  next
    case RunSimulation
    have "timers_inv (reports ?s1) (clock ?s1) (timers (schedule_sim 0 (filter is_pending ?rs) ?s1))"
      using tinv1 by (intro timers_inv_schedule_sim) auto
    with RunSimulation rinv st1 show ?thesis
      by (simp add: fire_timer_def simulateResolution_def app_inv_def stored_ok_def)
  next
    case ShowRegistration
    with rinv tinv1 st1 show ?thesis by (simp add: fire_timer_def app_inv_def stored_ok_def)
  next
    case (RemoveTooltip n)
    with inv1 show ?thesis by (simp add: fire_timer_def remove_tooltip_def)
  qed
qed

subsection \<open>Start-up and reachable states\<close>

lemma reports_inv_mock: "id1 \<noteq> id2 \<Longrightarrow> reports_inv (mock_reports id1 id2 t)"
  by (simp add: reports_inv_def mock_reports_def wf_report_def lifecycle_entries_def
      phase_of_def mk_entry_def)

lemma app_inv_start:
  assumes ids: "id1 \<noteq> id2" and tm: "timers s2 = []" and rinv: "reports_inv (reports s2)"
    and st: "reports s2 = [] \<or> stored_ok s2"
  shows "app_inv (let s3 = updateDashboard (generateMockData id1 id2 s2)
                  in if currentUser s3 = None then setTimeout ShowRegistration 1000 s3 else s3)"
proof -
  let ?s3 = "generateMockData id1 id2 s2"
  have "reports_inv (reports ?s3) \<and> stored_ok ?s3"
  proof (cases "reports s2 = []")
    case True
    with ids show ?thesis by (simp add: generateMockData_def reports_inv_mock)
  next
    case False
    with rinv st show ?thesis by (simp add: generateMockData_def)
  qed
  moreover have "timers ?s3 = [\<lparr>due = clock s2 + 5000, task = RunSimulation\<rparr>]"
    using tm by (simp add: generateMockData_def setTimeout_def Let_def)
  moreover have "clock ?s3 = clock s2" by (simp add: generateMockData_def Let_def)
  ultimately have "app_inv (updateDashboard ?s3)"
    by (intro app_inv_dashboard) (simp add: app_inv_def timers_inv_def timer_ok_def)
  moreover have "timers (updateDashboard ?s3) = [\<lparr>due = clock s2 + 5000, task = RunSimulation\<rparr>]"
    using tm by (simp add: generateMockData_def setTimeout_def Let_def)
  moreover have "clock (updateDashboard ?s3) = clock s2" by (simp add: generateMockData_def Let_def)
  ultimately show ?thesis
    by (auto simp: Let_def app_inv_def timers_inv_def timer_ok_def setTimeout_def)
qed

lemma app_inv_init:
  assumes ids: "id1 \<noteq> id2" and init: "app_init online p0 st id1 id2 t = Inr s'"
    and st: "st = None \<or>
             (\<exists>rs ds cu. stored_state st = Some (rs, ds, cu) \<and> map stored_view rs = rs \<and>
                         map stored_view ds = ds \<and> reports_inv rs)"
  shows "app_inv s'"
proof -
  let ?s1 = "updateOnlineStatus online
               \<lparr>currentUser = None, isOffline = False, reports = [], drafts = [],
                page_settings = p0, storage = st, timers = [], clock = t, notices = [],
                modal_shown = False, dom = blank_dom\<rparr>"
  from st show ?thesis
  proof
    assume "st = None"
    then have "loadFromLocalStorage ?s1 = Inr ?s1"
      by (simp add: loadFromLocalStorage_def updateOnlineStatus_def)
    with init ids show ?thesis
      using app_inv_start [of id1 id2 ?s1]
      by (simp add: app_init_def updateOnlineStatus_def reports_inv_def Let_def)
  next
    assume "\<exists>rs ds cu. stored_state st = Some (rs, ds, cu) \<and> map stored_view rs = rs \<and>
                      map stored_view ds = ds \<and> reports_inv rs"
    then obtain rs ds cu where ss: "stored_state st = Some (rs, ds, cu)"
      and vr: "map stored_view rs = rs" and vd: "map stored_view ds = ds"
      and rinv: "reports_inv rs" by blast
    have "stored_state (storage ?s1) = Some (rs, ds, cu)"
      using ss by (simp add: updateOnlineStatus_def)
    then obtain p where ld: "loadFromLocalStorage ?s1 =
        Inr (?s1\<lparr>reports := rs, drafts := ds, currentUser := cu, page_settings := p\<rparr>)"
      (is "_ = Inr ?s2")
      using load_stored by blast
    have "stored_ok ?s2"
      using ss vr vd by (simp add: stored_ok_def updateOnlineStatus_def stored_order_def)
    then have "app_inv (let s3 = updateDashboard (generateMockData id1 id2 ?s2)
                  in if currentUser s3 = None then setTimeout ShowRegistration 1000 s3 else s3)"
      using ids rinv by (intro app_inv_start) (simp_all add: updateOnlineStatus_def)
    with init ld show ?thesis by (simp add: app_init_def Let_def)
  qed
qed

lemma app_inv_storage:
  assumes "app_inv s"
  shows "\<exists>rs ds cu. stored_state (storage s) = Some (rs, ds, cu) \<and> map stored_view rs = rs \<and>
           map stored_view ds = ds \<and> reports_inv rs"
proof -
  from assms have ok: "stored_ok s" and rinv: "reports_inv (reports s)" by (simp_all add: app_inv_def)
  from stored_ok_state [OF ok] obtain rs where
    ss: "stored_state (storage s) = Some (rs, map stored_view (drafts s), currentUser s)"
    and so: "stored_order (map stored_view (reports s)) rs" by blast
  from stored_order_mset [OF so] have m: "mset rs = mset (map stored_view (reports s))" by simp
  then have "set rs = stored_view ` set (reports s)" by (metis set_map set_mset_mset)
  then have "map stored_view rs = rs" by (intro map_idI) auto
  moreover have "reports_inv rs"
    using m rinv reports_inv_mset [of rs "map stored_view (reports s)"]
    by (simp add: reports_inv_def comp_def)
  ultimately show ?thesis using ss by (auto simp: comp_def)
qed

lemma app_inv_step: "app_step s s' \<Longrightarrow> app_inv s \<Longrightarrow> app_inv s'"
proof (induction rule: app_step.induct)
  case (submit s t rid f)
  then show ?case by (intro app_inv_submit app_inv_clock) simp_all
next
  case (event s t e)
  then show ?case by (intro app_inv_event app_inv_clock) simp_all
next
  case (fire s tm rest)
  from fire.prems fire.hyps show ?case by (rule app_inv_fire)
next
  case (reload s t id1 id2 online p0 s')
  then show ?case using app_inv_init app_inv_storage by blast
next
  case (logout s t id1 id2 online p0 s')
  then show ?case using app_inv_init by blast
qed

lemma reachable_app_inv: "reachable s \<Longrightarrow> app_inv s"
proof (induction rule: reachable.induct)
  case (start id1 id2 online p0 t s)
  then show ?case using app_inv_init by blast
next
  case (step s s')
  from step.hyps(2) step.IH show ?case by (rule app_inv_step)
qed

end
