(* ===== verification/Queries.thy ===== *)
theory Queries
  imports Lifecycle "HOL-Library.Multiset"
begin

text \<open>
  The read-only queries of the tracking page and the dashboard
  (\<open>src/script.js\<close>): \<open>getFilteredReports\<close> (lines 426--449), the three counts
  of \<open>updateDashboard\<close> (lines 456--461), and the display helpers
  \<open>formatStatus\<close>, \<open>formatCategory\<close>, \<open>formatPriority\<close> (lines 938--952) and
  \<open>getTimeAgo\<close> (lines 964--977). Each is a function of the reports and the
  page's inputs; a missing input element reads as the empty string, which the
  code treats as no filter.
\<close>

subsection \<open>Filtering\<close>

text \<open>\<open>report.title.toLowerCase().includes(t) || report.id.toLowerCase().includes(t)\<close>.\<close>

definition matches_search :: "string \<Rightarrow> report \<Rightarrow> bool" where
  "matches_search t r \<longleftrightarrow> js_includes (js_lower (title r)) t \<or> js_includes (js_lower (report_id r)) t"

text \<open>
  The three filters applied in turn on a copy of the array, then the stable sort
  newest first (\<open>newest_first\<close>).
\<close>

definition getFilteredReports :: "string \<Rightarrow> string \<Rightarrow> string \<Rightarrow> report list \<Rightarrow> report list" where
  "getFilteredReports search st cat rs =
     (let t = js_lower search;
          f1 = (if t \<noteq> [] then filter (matches_search t) rs else rs);
          f2 = (if st \<noteq> [] then filter (\<lambda>r. status r = st) f1 else f1);
          f3 = (if cat \<noteq> [] then filter (\<lambda>r. category r = cat) f2 else f2)
      in newest_first f3)"

text \<open>The specification of the filter: a report is shown when it passes every filter that is set.\<close>

definition shown :: "string \<Rightarrow> string \<Rightarrow> string \<Rightarrow> report \<Rightarrow> bool" where
  "shown search st cat r \<longleftrightarrow>
     (js_lower search = [] \<or> matches_search (js_lower search) r) \<and>
     (st = [] \<or> status r = st) \<and> (cat = [] \<or> category r = cat)"

subsection \<open>Dashboard\<close>

text \<open>\<open>totalReports\<close>, \<open>resolvedReports\<close> and \<open>pendingReports\<close> of \<open>updateDashboard\<close>.\<close>

definition dashboard_counts :: "report list \<Rightarrow> nat \<times> nat \<times> nat" where
  "dashboard_counts rs =
     (length rs, length (filter (\<lambda>r. status r = ''resolved'') rs), length (filter is_pending rs))"

subsection \<open>Formatting\<close>

text \<open>\<open>s.split(d)\<close>: the pieces between the separators, empty pieces included.\<close>

fun js_split :: "char \<Rightarrow> string \<Rightarrow> string list" where
  "js_split d [] = [[]]"
| "js_split d (c # cs) =
     (if c = d then [] # js_split d cs
      else (case js_split d cs of [] \<Rightarrow> [[c]] | w # ws \<Rightarrow> (c # w) # ws))"

text \<open>\<open>word.charAt(0).toUpperCase() + word.slice(1)\<close>.\<close>

definition capitalize :: "string \<Rightarrow> string" where
  "capitalize w = (case w of [] \<Rightarrow> [] | c # cs \<Rightarrow> ascii_upper c # cs)"

definition formatStatus :: "string \<Rightarrow> string" where
  "formatStatus s = js_join '' '' (map capitalize (js_split CHR ''-'' s))"

definition formatCategory :: "string \<Rightarrow> string" where
  "formatCategory s = js_join '' '' (map capitalize (js_split CHR ''-'' s))"

definition formatPriority :: "string \<Rightarrow> string" where
  "formatPriority s = capitalize s"

text \<open>
  The specification of \<open>formatStatus\<close> as one left-to-right pass: each \<open>-\<close>
  becomes a space, and the first character and every character after a \<open>-\<close>
  is upper-cased.
\<close>

fun title_case :: "bool \<Rightarrow> string \<Rightarrow> string" where
  "title_case b [] = []"
| "title_case b (c # cs) =
     (if c = CHR ''-'' then CHR '' '' # title_case True cs
      else (if b then ascii_upper c else c) # title_case False cs)"

text \<open>\<open>n.toString()\<close> for a natural number.\<close>

fun dec_string :: "nat \<Rightarrow> string" where
  "dec_string n =
     (if n < 10 then [char_of (48 + n)] else dec_string (n div 10) @ [char_of (48 + n mod 10)])"

text \<open>
  \<open>getTimeAgo\<close>: \<open>Math.floor\<close> of the difference in minutes, hours and days
  (\<open>div\<close> on \<open>int\<close> rounds down, as \<open>Math.floor\<close> does).
\<close>

definition getTimeAgo :: "timestamp \<Rightarrow> timestamp \<Rightarrow> string" where
  "getTimeAgo now d =
     (let diff = now - d; minutes = diff div 60000; hours = diff div 3600000;
          days = diff div 86400000
      in if days > 0 then dec_string (nat days) @ ''d ago''
         else if hours > 0 then dec_string (nat hours) @ ''h ago''
         else if minutes > 0 then dec_string (nat minutes) @ ''m ago''
         else ''Just now'')"

subsection \<open>Lemmas\<close>

lemma getFilteredReports_eq:
  "getFilteredReports search st cat rs = sort_key (\<lambda>r. - submittedAt r) (filter (shown search st cat) rs)"
  by (cases "js_lower search = []"; cases "st = []"; cases "cat = []")
     (simp_all add: getFilteredReports_def newest_first_def shown_def [abs_def] Let_def filter_filter
      conj_commute)

lemma js_split_ne: "js_split d s \<noteq> []"
  by (induction s) (auto split: list.splits)

lemma js_join_Cons_Cons: "js_join sep ((c # w) # ws) = c # js_join sep (w # ws)"
  by (cases ws) simp_all

lemma js_join_split: "js_join [d] (js_split d s) = s"
proof (induction s)
  case Nil
  then show ?case by simp
next
  case (Cons c cs)
  obtain w ws where sp: "js_split d cs = w # ws" using js_split_ne by (metis list.exhaust)
  show ?case
  proof (cases "c = d")
    case True
    with Cons.IH sp show ?thesis by simp
  next
    case False
    with Cons.IH sp show ?thesis by (simp add: js_join_Cons_Cons)
  qed
qed

lemma length_js_join_map:
  assumes "\<And>w. length (f w) = length w" and "length sep = length sep'"
  shows "length (js_join sep (map f ws)) = length (js_join sep' ws)"
  by (induction ws rule: induct_list012) (simp_all add: assms)

lemma length_capitalize [simp]: "length (capitalize w) = length w"
  by (cases w) (simp_all add: capitalize_def)

lemma time_ago_last: "60000 \<le> now - d \<Longrightarrow> last (getTimeAgo now d) = CHR ''o''"
  by (simp add: getTimeAgo_def Let_def pos_imp_zdiv_pos_iff)

lemma is_pending_phase:
  "phase_of (status r) = Some p \<Longrightarrow> is_pending r \<longleftrightarrow> status r \<noteq> ''resolved''"
  by (auto simp: is_pending_def pending_statuses_def phase_of_def split: if_splits)

lemma dashboard_counts_partition:
  assumes "\<forall>r\<in>set rs. phase_of (status r) \<noteq> None"
  shows "(case dashboard_counts rs of (n, nr, np) \<Rightarrow> nr + np = n)"
proof -
  have "filter is_pending rs = filter (\<lambda>r. \<not> status r = ''resolved'') rs"
    using assms is_pending_phase by (intro filter_cong) auto
  then show ?thesis by (simp add: dashboard_counts_def sum_length_filter_compl)
qed

subsection \<open>Properties of the queries\<close>

lemma filtered_same_time:
  "filter (\<lambda>r. submittedAt r = k) (getFilteredReports search st cat rs) =
   filter (\<lambda>r. submittedAt r = k \<and> shown search st cat r) rs"
proof -
  have "filter (\<lambda>r. - submittedAt r = - k) (sort_key (\<lambda>r. - submittedAt r) (filter (shown search st cat) rs)) =
        filter (\<lambda>r. - submittedAt r = - k) (filter (shown search st cat) rs)"
    by (rule sort_key_stable)
  then show ?thesis by (simp add: getFilteredReports_eq filter_filter conj_commute)
qed

text \<open>
  Claim C32. The three-pass filter of \<open>getFilteredReports\<close> refines its
  specification: it returns exactly the reports that pass every filter that is
  set (as a multiset), newest first, and the sort is stable: reports submitted
  at the same time keep their order in \<open>this.reports\<close>.
\<close>

theorem filtered_refines:
  "mset (getFilteredReports search st cat rs) = filter_mset (shown search st cat) (mset rs) \<and>
   sorted (map (\<lambda>r. - submittedAt r) (getFilteredReports search st cat rs)) \<and>
   (\<forall>k. filter (\<lambda>r. submittedAt r = k) (getFilteredReports search st cat rs) =
        filter (\<lambda>r. submittedAt r = k \<and> shown search st cat r) rs)"
  by (simp add: getFilteredReports_eq filtered_same_time [unfolded getFilteredReports_eq])

lemma format_status_length: "length (formatStatus s) = length s"
proof -
  have "length (formatStatus s) = length (js_join [CHR ''-''] (js_split CHR ''-'' s))"
    unfolding formatStatus_def by (rule length_js_join_map) simp_all
  then show ?thesis by (simp only: js_join_split)
qed

lemma title_case_split:
  "title_case b s =
     js_join '' '' (case js_split CHR ''-'' s of [] \<Rightarrow> []
                     | w # ws \<Rightarrow> (if b then capitalize w else w) # map capitalize ws)"
proof (induction s arbitrary: b)
  case Nil
  then show ?case by (simp add: capitalize_def)
next
  case (Cons c cs)
  obtain w ws where sp: "js_split CHR ''-'' cs = w # ws"
    using js_split_ne by (cases "js_split CHR ''-'' cs") auto
  show ?case
  proof (cases "c = CHR ''-''")
    case True
    then show ?thesis using Cons.IH [of True] sp by (cases ws) (simp_all add: capitalize_def)
  next
    case False
    then show ?thesis using Cons.IH [of False] sp by (simp add: capitalize_def js_join_Cons_Cons)
  qed
qed

text \<open>
  Claim C35. \<open>formatStatus\<close>, which splits at \<open>-\<close>, capitalises each word and joins
  with spaces, is equivalent to the one-pass specification \<open>title_case\<close>.
\<close>

theorem format_status_equiv: "formatStatus s = title_case True s"
proof -
  obtain w ws where "js_split CHR ''-'' s = w # ws"
    using js_split_ne by (cases "js_split CHR ''-'' s") auto
  then show ?thesis by (simp add: formatStatus_def title_case_split)
qed

text \<open>
  The four lifecycle statuses display as \<open>Submitted\<close>, \<open>Under Review\<close>,
  \<open>In Progress\<close>, \<open>Resolved\<close>; categories and priorities are capitalised the same way.
\<close>

lemma format_status_values:
  "map formatStatus [''submitted'', ''under-review'', ''in-progress'', ''resolved''] =
     [''Submitted'', ''Under Review'', ''In Progress'', ''Resolved''] \<and>
   formatCategory ''public-safety'' = ''Public Safety'' \<and> formatPriority ''high'' = ''High''"
  by code_simp

text \<open>
  Claim C37. \<open>getTimeAgo\<close> shows \<open>Just now\<close> exactly when less than a minute has passed, a future date included.
\<close>

theorem time_ago_just_now: "getTimeAgo now d = ''Just now'' \<longleftrightarrow> now - d < 60000"
proof
  assume j: "getTimeAgo now d = ''Just now''"
  show "now - d < 60000"
  proof (rule ccontr)
    assume "\<not> now - d < 60000"
    then have "last (getTimeAgo now d) = CHR ''o''" by (intro time_ago_last) simp
    with j show False by simp
  qed
next
  assume "now - d < 60000"
  then show "getTimeAgo now d = ''Just now''"
    by (simp add: getTimeAgo_def Let_def pos_imp_zdiv_pos_iff)
qed

text \<open>\<open>getTimeAgo\<close> rounds down to whole days, hours or minutes, the largest unit that is non-zero.\<close>

lemma time_ago_values:
  "getTimeAgo 100000000 0 = ''1d ago'' \<and> getTimeAgo 7200000 0 = ''2h ago'' \<and>
   getTimeAgo 150000 0 = ''2m ago'' \<and> getTimeAgo 0 5000 = ''Just now''"
  by code_simp

end
