(* ===== verification/Render.thy ===== *)
theory Render
  imports Queries Route "HOL-Library.AList"
begin

text \<open>
  The HTML the tracking page and the dashboard write into \<open>innerHTML\<close>
  (\<open>src/script.js\<close>): \<open>displayReports\<close> (lines 355--425) and the list of
  \<open>updateRecentActivity\<close> (lines 471--496). Each template literal is the
  concatenation of its constant markup and the values it interpolates; the
  white space between the tags of the templates is left out (it only adds
  white-space text nodes). \<open>formatDate\<close> depends on the browser's locale
  (\<open>toLocaleDateString\<close>) and is a parameter \<open>fmt\<close>; \<open>getTimeAgo\<close> reads the clock,
  given as \<open>now\<close>. No interpolated value is escaped: what a report's fields hold
  becomes markup. The category chart's data (\<open>createCategoryChart\<close>, lines
  559--597) are computed in a plain object, which is modelled with its
  inherited members and its key order; the drawing itself (Chart.js) and the
  resolution chart, whose data are \<open>Math.random()\<close>, are not.
\<close>

subsection \<open>The tracking page\<close>

text \<open>\<open>report.status.replace(/[^a-z]/g, '-')\<close>.\<close>

definition status_class :: "string \<Rightarrow> string" where
  "status_class st =
     map (\<lambda>c. let n = (of_char c :: nat) in if 97 \<le> n \<and> n \<le> 122 then c else CHR ''-'') st"

text \<open>\<open>${report.assignedTo || 'Pending'}\<close>.\<close>

definition assigned_text :: "assignee option \<Rightarrow> string" where
  "assigned_text a = (case a of None \<Rightarrow> ''Pending'' | Some x \<Rightarrow> assignee_str x)"

text \<open>\<open>${d.substring(0, 200)}${d.length > 200 ? '...' : ''}\<close>.\<close>

definition description_excerpt :: "string \<Rightarrow> string" where
  "description_excerpt d = take 200 d @ (if 200 < length d then ''...'' else [])"

definition timeline_item_html :: "(timestamp \<Rightarrow> string) \<Rightarrow> timeline_entry \<Rightarrow> string" where
  \<open>timeline_item_html fmt e =
     ''<div class="timeline-item"><div class="timeline-dot"></div><div class="timeline-content">'' @
     te_description e @ ''</div><div class="timeline-date">'' @ fmt (te_date e) @ ''</div></div>''\<close>

text \<open>The template of one report in \<open>displayReports\<close>.\<close>

definition report_item_html :: "(timestamp \<Rightarrow> string) \<Rightarrow> report \<Rightarrow> string" where
  \<open>report_item_html fmt r =
     ''<div class="report-item"><div class="report-header"><div><h3 class="report-title">'' @
     title r @ ''</h3><p class="report-id">ID: '' @ take 8 (report_id r) @
     ''</p></div><span class="status-badge status-'' @ status_class (status r) @ ''">'' @
     formatStatus (status r) @ ''</span></div><div class="report-details">'' @
     ''<div class="detail-item"><span class="detail-label">Category</span><span class="detail-value">'' @
     formatCategory (category r) @ ''</span></div>'' @
     ''<div class="detail-item"><span class="detail-label">Priority</span><span class="detail-value">'' @
     formatPriority (priority r) @ ''</span></div>'' @
     ''<div class="detail-item"><span class="detail-label">Location</span><span class="detail-value">'' @
     (if location r = [] then ''Not specified'' else location r) @ ''</span></div>'' @
     ''<div class="detail-item"><span class="detail-label">Submitted</span><span class="detail-value">'' @
     fmt (submittedAt r) @ ''</span></div>'' @
     ''<div class="detail-item"><span class="detail-label">Assigned To</span><span class="detail-value">'' @
     assigned_text (assignedTo r) @ ''</span></div></div><div class="report-description">'' @
     description_excerpt (description r) @
     ''</div><div class="report-timeline"><h4>Timeline</h4>'' @
     concat (map (timeline_item_html fmt) (timeline r)) @ ''</div></div>''\<close>

definition empty_reports_html :: string where
  \<open>empty_reports_html =
     ''<div class="empty-state"><i class="fas fa-inbox"></i><h3>No Reports Yet</h3>'' @
     ''<p>Submit your first report to start tracking issues in your community.</p>'' @
     ''<button class="btn btn-primary" onclick="app.navigateToSection('report')">'' @
     ''<i class="fas fa-plus"></i> Create Report</button></div>''\<close>

text \<open>
  \<open>displayReports\<close>: the empty state when there are no reports at all, else the
  filtered reports (the filters set or not), joined with \<open>''\<close>.
\<close>

definition displayReports ::
  "(timestamp \<Rightarrow> string) \<Rightarrow> string \<Rightarrow> string \<Rightarrow> string \<Rightarrow> report list \<Rightarrow> string" where
  "displayReports fmt search st cat rs =
     (if rs = [] then empty_reports_html
      else concat (map (report_item_html fmt) (getFilteredReports search st cat rs)))"

subsection \<open>The recent activity of the dashboard\<close>

definition activity_item_html :: "timestamp \<Rightarrow> report \<Rightarrow> string" where
  \<open>activity_item_html now r =
     ''<div class="activity-item"><div class="activity-icon '' @
     (if status r = ''resolved'' then ''resolved'' else ''report'') @ ''"><i class="fas '' @
     (if status r = ''resolved'' then ''fa-check'' else ''fa-file-alt'') @
     ''"></i></div><div class="activity-content"><h4>'' @ title r @ ''</h4><p>Status: '' @
     formatStatus (status r) @ ''</p></div><div class="activity-time">'' @
     getTimeAgo now (submittedAt r) @ ''</div></div>''\<close>

text \<open>
  The list \<open>updateRecentActivity\<close> writes, from the array it has just sorted in
  place (\<open>newest_first\<close>, the state effect is \<open>updateDashboard\<close> of \<open>App\<close>): the
  first five reports.
\<close>

definition recent_activity_html :: "timestamp \<Rightarrow> report list \<Rightarrow> string" where
  \<open>recent_activity_html now rs =
     (let recent = take 5 (newest_first rs)
      in if recent = [] then ''<p class="text-secondary">No recent activity</p>''
         else concat (map (activity_item_html now) recent))\<close>

subsection \<open>The category chart\<close>

text \<open>
  A value of \<open>categories[k]\<close>: a count, or the string that \<open>+ 1\<close> makes when the
  value read was an inherited function (a function plus \<open>1\<close> is the function's
  source followed by \<open>1\<close>).
\<close>

datatype count_val = CNum nat | CStr string

text \<open>
  \<open>categories[k] = (categories[k] || 0) + 1\<close> on an object with the own properties
  \<open>obj\<close> (in creation order). An own count goes up by one, an own string gets
  \<open>1\<close> appended. With no own property, an inherited member of
  \<open>Object.prototype\<close> is read: a function becomes the string of its source
  followed by \<open>1\<close>; \<open>__proto__\<close> gives the prototype object, and assigning the
  string \<open>[object Object]1\<close> to \<open>__proto__\<close> is ignored; any other key starts at
  \<open>1\<close>.
\<close>

definition count_category :: "(string \<times> count_val) list \<Rightarrow> string \<Rightarrow> (string \<times> count_val) list" where
  "count_category obj k =
     (case map_of obj k of
        Some (CNum n) \<Rightarrow> AList.update k (CNum (Suc n)) obj
      | Some (CStr v) \<Rightarrow> AList.update k (CStr (v @ ''1'')) obj
      | None \<Rightarrow>
          (if k = ''__proto__'' then obj
           else if k \<in> set object_prototype_members
           then AList.update k (CStr (assignee_str (ProtoMember k) @ ''1'')) obj
           else AList.update k (CNum 1) obj))"

text \<open>An array index: the canonical decimal form of a number below \<open>2^32 - 1\<close>.\<close>

definition key_value :: "string \<Rightarrow> nat" where
  "key_value k = foldl (\<lambda>n c. 10 * n + (of_char c - 48)) 0 k"

definition is_array_index :: "string \<Rightarrow> bool" where
  "is_array_index k \<longleftrightarrow>
     k \<noteq> [] \<and> list_all (\<lambda>c. 48 \<le> (of_char c :: nat) \<and> (of_char c :: nat) \<le> 57) k \<and>
     (k = ''0'' \<or> hd k \<noteq> CHR ''0'') \<and> key_value k < 4294967295"

text \<open>
  \<open>Object.keys\<close> and \<open>Object.values\<close>: the array-index keys in increasing order,
  then the other keys in creation order.
\<close>

definition object_entries :: "(string \<times> count_val) list \<Rightarrow> (string \<times> count_val) list" where
  "object_entries obj =
     sort_key (\<lambda>p. key_value (fst p)) (filter (\<lambda>p. is_array_index (fst p)) obj) @
     filter (\<lambda>p. \<not> is_array_index (fst p)) obj"

text \<open>The chart's labels and data.\<close>

definition createCategoryChart :: "report list \<Rightarrow> string list \<times> count_val list" where
  "createCategoryChart rs =
     (let es = object_entries (foldl count_category [] (map category rs))
      in (map (\<lambda>p. formatCategory (fst p)) es, map snd es))"

text \<open>
  The element \<open>showNotification(type, title, message)\<close> appends (lines 892--913):
  its class and its inner HTML. \<open>icons[type]\<close> is a lookup in an object literal, so a
  type outside the table reads an inherited member or \<open>undefined\<close>, printed by the
  template as \<open>assignee_str\<close> prints a routing result. Title and message are
  interpolated as they are.
\<close>

definition notification_icons :: "(string \<times> string) list" where
  "notification_icons =
     [(''success'', ''fa-check-circle''), (''error'', ''fa-exclamation-circle''),
      (''warning'', ''fa-exclamation-triangle''), (''info'', ''fa-info-circle'')]"

definition notification_icon :: "string \<Rightarrow> string" where
  "notification_icon ty =
     (case map_of notification_icons ty of
        Some c \<Rightarrow> c
      | None \<Rightarrow> if ty \<in> set object_prototype_members then assignee_str (ProtoMember ty) else ''undefined'')"

definition notification_element :: "string \<Rightarrow> string \<Rightarrow> string \<Rightarrow> string \<times> string" where
  \<open>notification_element ty ti msg =
     (''notification '' @ ty,
      ''<div class="notification-icon"><i class="fas '' @ notification_icon ty @
      ''"></i></div><div class="notification-content"><div class="notification-title">'' @ ti @
      ''</div><div class="notification-message">'' @ msg @
      ''</div></div><button class="notification-close"><i class="fas fa-times"></i></button>'')\<close>

subsection \<open>Rendering lemmas\<close>

text \<open>The title and the message reach the notification's HTML unescaped.\<close>

lemma notification_text_rendered:
  "sublist ti (snd (notification_element ty ti msg)) \<and> sublist msg (snd (notification_element ty ti msg))"
proof -
  have \<open>snd (notification_element ty ti msg) =
          (''<div class="notification-icon"><i class="fas '' @ notification_icon ty @
           ''"></i></div><div class="notification-content"><div class="notification-title">'') @ ti @
          (''</div><div class="notification-message">'' @ msg @
           ''</div></div><button class="notification-close"><i class="fas fa-times"></i></button>'')\<close>
   and \<open>snd (notification_element ty ti msg) =
          (''<div class="notification-icon"><i class="fas '' @ notification_icon ty @
           ''"></i></div><div class="notification-content"><div class="notification-title">'' @ ti @
           ''</div><div class="notification-message">'') @ msg @
           ''</div></div><button class="notification-close"><i class="fas fa-times"></i></button>''\<close>
    by (simp_all add: notification_element_def)
  then show ?thesis by (metis sublist_appendI)
qed

text \<open>Every type the program passes has its icon; any other name falls outside the table.\<close>

lemma notification_icon_types:
  "ty \<in> fst ` set notification_icons \<Longrightarrow> notification_icon ty \<noteq> ''undefined'' \<and> notification_icon ty \<in> snd ` set notification_icons"
  by (auto simp: notification_icon_def notification_icons_def)


lemma sublist_concat_map: "x \<in> set xs \<Longrightarrow> sublist (f x) (concat (map f xs))"
proof -
  assume "x \<in> set xs"
  then obtain ys zs where "xs = ys @ x # zs" by (auto simp: in_set_conv_decomp)
  then show ?thesis by (simp add: sublist_appendI)
qed

lemma title_in_item: "sublist (title r) (report_item_html fmt r)"
  unfolding report_item_html_def by (rule sublist_appendI)

text \<open>
  Every report that passes the filters is rendered with its title verbatim: the
  template interpolates it into \<open>innerHTML\<close> without escaping.
\<close>

lemma title_rendered:
  "r \<in> set (getFilteredReports search st cat rs) \<Longrightarrow> sublist (title r) (displayReports fmt search st cat rs)"
proof -
  assume r: "r \<in> set (getFilteredReports search st cat rs)"
  then have "rs \<noteq> []" by (auto simp: getFilteredReports_eq)
  moreover have "sublist (report_item_html fmt r) (concat (map (report_item_html fmt) (getFilteredReports search st cat rs)))"
    using r by (rule sublist_concat_map)
  ultimately show ?thesis
    using title_in_item [of r fmt] by (auto simp: displayReports_def intro: sublist_order.order_trans)
qed

subsection \<open>Counting categories\<close>

lemma update_map_in:
  "distinct xs \<Longrightarrow> k \<in> set xs \<Longrightarrow>
   AList.update k v (map (\<lambda>x. (x, f x)) xs) = map (\<lambda>x. (x, if x = k then v else f x)) xs"
  by (induction xs) auto

lemma update_map_notin:
  "k \<notin> set xs \<Longrightarrow> AList.update k v (map (\<lambda>x. (x, f x)) xs) = map (\<lambda>x. (x, f x)) xs @ [(k, v)]"
  by (induction xs) auto

lemma map_of_map_pairs: "map_of (map (\<lambda>x. (x, f x)) xs) k = (if k \<in> set xs then Some (f k) else None)"
  by (induction xs) auto

lemma count_categories:
  "list_all (\<lambda>k. k \<notin> set object_prototype_members) ks \<Longrightarrow>
   foldl count_category [] ks =
     map (\<lambda>k. (k, CNum (count_list ks k))) (rev (remdups (rev ks)))"
proof (induction ks rule: rev_induct)
  case Nil
  then show ?case by simp
next
  case (snoc k ks)
  then have IH: "foldl count_category [] ks = map (\<lambda>k. (k, CNum (count_list ks k))) (rev (remdups (rev ks)))"
    and nk: "k \<notin> set object_prototype_members" by simp_all
  have np: "k \<noteq> ''__proto__''" using nk by (auto simp: object_prototype_members_def)
  show ?case
  proof (cases "k \<in> set ks")
    case True
    have "count_category (map (\<lambda>k. (k, CNum (count_list ks k))) (rev (remdups (rev ks)))) k =
          map (\<lambda>x. (x, CNum (count_list (ks @ [k]) x))) (rev (remdups (rev ks)))"
      using True by (simp add: count_category_def map_of_map_pairs update_map_in)
    then show ?thesis
      using IH True by simp
  next
    case False
    have "count_category (map (\<lambda>k. (k, CNum (count_list ks k))) (rev (remdups (rev ks)))) k =
          map (\<lambda>x. (x, CNum (count_list (ks @ [k]) x))) (rev (remdups (rev ks))) @ [(k, CNum 1)]"
      using False nk np by (auto simp: count_category_def map_of_map_pairs update_map_notin)
    then show ?thesis
      using IH False by simp
  qed
qed

text \<open>
  Claim C11. When no category is the name of an \<open>Object.prototype\<close> member or an
  array index, the category chart has one bar per category, in order of first
  appearance, whose value is the number of reports of that category.
\<close>

theorem category_chart_counts:
  assumes "list_all (\<lambda>k. k \<notin> set object_prototype_members \<and> \<not> is_array_index k) (map category rs)"
  shows "createCategoryChart rs =
           (map formatCategory (rev (remdups (rev (map category rs)))),
            map (\<lambda>k. CNum (count_list (map category rs) k)) (rev (remdups (rev (map category rs)))))"
proof -
  let ?ks = "map category rs"
  have "list_all (\<lambda>k. k \<notin> set object_prototype_members) ?ks" using assms by (simp add: list_all_iff)
  then have c: "foldl count_category [] ?ks = map (\<lambda>k. (k, CNum (count_list ?ks k))) (rev (remdups (rev ?ks)))"
    by (rule count_categories)
  have "\<forall>k\<in>set ?ks. \<not> is_array_index k" using assms by (simp add: list_all_iff)
  then have "object_entries (map (\<lambda>k. (k, CNum (count_list ?ks k))) (rev (remdups (rev ?ks)))) =
             map (\<lambda>k. (k, CNum (count_list ?ks k))) (rev (remdups (rev ?ks)))"
    by (simp add: object_entries_def filter_map comp_def)
  with c show ?thesis by (simp add: createCategoryChart_def comp_def)
qed

theorem category_chart_counts_witness:
  "list_all (\<lambda>k. k \<notin> set object_prototype_members \<and> \<not> is_array_index k)
     (map category [collectReportData ''a'' 0 False None (sample_form ''t'' ''roads'' ''d''),
                    collectReportData ''b'' 0 False None (sample_form ''t'' ''parks'' ''d''),
                    collectReportData ''c'' 0 False None (sample_form ''t'' ''roads'' ''d'')]) \<and>
   snd (createCategoryChart
     [collectReportData ''a'' 0 False None (sample_form ''t'' ''roads'' ''d''),
      collectReportData ''b'' 0 False None (sample_form ''t'' ''parks'' ''d''),
      collectReportData ''c'' 0 False None (sample_form ''t'' ''roads'' ''d'')]) = [CNum 2, CNum 1]"
proof -
  have h: "list_all (\<lambda>k. k \<notin> set object_prototype_members \<and> \<not> is_array_index k)
     (map category [collectReportData ''a'' 0 False None (sample_form ''t'' ''roads'' ''d''),
                    collectReportData ''b'' 0 False None (sample_form ''t'' ''parks'' ''d''),
                    collectReportData ''c'' 0 False None (sample_form ''t'' ''roads'' ''d'')])"
    by (simp add: sample_form_def object_prototype_members_def is_array_index_def)
  show ?thesis using category_chart_counts [OF h] h by (simp add: sample_form_def)
qed

text \<open>
  The counting object is a plain object literal: a \<open>__proto__\<close> category is never
  counted, a \<open>constructor\<close> category starts from the inherited function and
  concatenates, and array-index categories come first in ascending order.
\<close>

lemma chart_prototype_keys:
  "map snd (object_entries (foldl count_category []
     [''other'', ''__proto__'', ''constructor'', ''10'', ''constructor'', ''2'', ''other''])) =
   [CNum 1, CNum 1, CNum 2, CStr ''function Object() { [native code] }11'']"
  by (simp add: count_category_def object_entries_def is_array_index_def key_value_def
      object_prototype_members_def assignee_str_def)
end
