(* ===== verification/Schema.thy ===== *)
theory Schema
  imports Store
begin

text \<open>
  The format of the \<open>localStorage\<close> entry as a type. \<open>saveToLocalStorage\<close>
  (\<open>src/script.js\<close> lines 688--697) and \<open>loadFromLocalStorage\<close> (lines 699--715) agree
  on the shape of \<open>civicConnectData\<close> only through the code: the writer builds the
  object literal \<open>{reports, drafts, currentUser, settings}\<close>, the reader takes its
  properties apart. \<open>jty\<close> is a small schema language for JSON values (records
  with required and optional fields, arrays, unions), \<open>has_ty\<close> its executable
  typing function, and \<open>snapshot_ty\<close> the schema of the entry. The two
  directions are proved: what the writer produces has the type, and every
  value of the type is read without falling into the branch the model leaves
  open (\<open>ForeignShape\<close>, a value the program never writes).
\<close>

subsection \<open>Schemas and typing\<close>

datatype jty =
    TNull | TBool | TNum | TStr | TIso
  | TArr jty
  | TRec "(string \<times> jty \<times> bool) list"
  | TOr jty jty

fun has_ty :: "json \<Rightarrow> jty \<Rightarrow> bool" where
  "has_ty j (TOr a b) = (has_ty j a \<or> has_ty j b)"
| "has_ty JNull t = (t = TNull)"
| "has_ty (JBool _) t = (t = TBool)"
| "has_ty (JNum _) t = (t = TNum)"
| "has_ty (JStr _) t = (t = TStr)"
| "has_ty (JIso _) t = (t = TIso)"
| "has_ty (JArr xs) (TArr t) = list_all (\<lambda>x. has_ty x t) xs"
| "has_ty (JObj kvs) (TRec fs) =
     (distinct (map fst kvs) \<and>
      list_all (\<lambda>(k, v). case map_of fs k of None \<Rightarrow> False | Some (t, _) \<Rightarrow> has_ty v t) kvs \<and>
      list_all (\<lambda>(k, t, req). k \<in> set (map fst kvs)) (filter (\<lambda>(k, t, req). req) fs))"
| "has_ty (JArr _) _ = False"
| "has_ty (JObj _) _ = False"

text \<open>The schemas of the objects \<open>saveToLocalStorage\<close> writes.\<close>

definition entry_ty :: jty where
  "entry_ty = TRec [(''status'', TStr, True), (''date'', TIso, True), (''description'', TStr, True)]"

definition evidence_ty :: jty where
  "evidence_ty = TRec [(''name'', TStr, True), (''size'', TNum, True), (''type'', TStr, True),
                       (''lastModified'', TNum, True)]"

definition report_ty :: jty where
  "report_ty = TRec
     [(''id'', TStr, True), (''title'', TStr, True), (''category'', TStr, True),
      (''priority'', TStr, True), (''location'', TStr, True), (''description'', TStr, True),
      (''evidence'', TArr evidence_ty, False), (''isPublic'', TBool, True),
      (''isAnonymous'', TBool, True), (''submittedBy'', TStr, False), (''submittedAt'', TIso, True),
      (''status'', TStr, True), (''timeline'', TArr entry_ty, True),
      (''assignedTo'', TOr TStr (TRec []), False), (''routedAt'', TIso, False),
      (''isDraft'', TBool, False), (''savedAt'', TIso, False)]"

definition user_ty :: jty where
  "user_ty = TRec [(''id'', TStr, True), (''name'', TStr, True), (''email'', TStr, True),
                   (''phone'', TStr, True), (''location'', TStr, True), (''registeredAt'', TIso, True),
                   (''isVerified'', TBool, True)]"

definition settings_ty :: jty where
  "settings_ty = TRec [(''highContrast'', TBool, True), (''largeText'', TBool, True),
                       (''screenReader'', TBool, True), (''language'', TStr, True),
                       (''emailNotifications'', TBool, True), (''smsNotifications'', TBool, True)]"

definition snapshot_ty :: jty where
  "snapshot_ty = TRec [(''reports'', TArr report_ty, True), (''drafts'', TArr report_ty, True),
                       (''currentUser'', TOr TNull user_ty, True), (''settings'', settings_ty, True)]"

subsection \<open>Writing is well-typed\<close>

lemma opt_field_fst: "map fst (opt_field k f v) = (if v = None then [] else [k])"
  by (cases v) (simp_all add: opt_field_def)

lemma opt_field_mem: "(k', j) \<in> set (opt_field k f v) \<Longrightarrow> k' = k \<and> (\<exists>x. v = Some x \<and> j = f x)"
  by (cases v) (auto simp: opt_field_def)

lemma has_ty_obj_intro:
  "distinct (map fst kvs) \<Longrightarrow>
   (\<And>k v. (k, v) \<in> set kvs \<Longrightarrow> \<exists>t b. map_of fs k = Some (t, b) \<and> has_ty v t) \<Longrightarrow>
   (\<And>k t. (k, t, True) \<in> set fs \<Longrightarrow> k \<in> set (map fst kvs)) \<Longrightarrow>
   has_ty (JObj kvs) (TRec fs)"
  by (fastforce simp: list_all_iff)

lemma entry_typed [simp]: "has_ty (json_of_entry e) entry_ty"
  by (simp add: json_of_entry_def entry_ty_def)

lemma evidence_typed [simp]: "has_ty (json_of_evidence f) evidence_ty"
  by (simp add: json_of_evidence_def evidence_ty_def)

lemma assignee_typed: "json_of_assignee a = Some j \<Longrightarrow> has_ty j TStr \<or> has_ty j (TRec [])"
  by (cases a) (auto split: if_splits)

lemma report_fields_distinct: "distinct (map fst (report_fields r))"
  by (simp add: report_fields_def opt_field_fst)

lemma report_fields_required:
  "report_ty = TRec fs \<Longrightarrow> (k, t, True) \<in> set fs \<Longrightarrow> k \<in> set (map fst (report_fields r))"
  by (auto simp: report_ty_def report_fields_def)

lemma report_fields_typed:
  "report_ty = TRec fs \<Longrightarrow> (k, v) \<in> set (report_fields r) \<Longrightarrow>
   \<exists>t b. map_of fs k = Some (t, b) \<and> has_ty v t"
  unfolding report_fields_def set_append Un_iff
  apply (elim disjE)
  apply (auto simp: report_ty_def list_all_iff dest!: opt_field_mem)
  apply (auto simp: bind_eq_Some_conv dest: assignee_typed)
  done

lemma report_typed [simp]: "has_ty (json_of_report r) report_ty"
proof -
  obtain fs where fs: "report_ty = TRec fs" by (simp add: report_ty_def)
  have "has_ty (JObj (report_fields r)) (TRec fs)"
  proof (rule has_ty_obj_intro [OF report_fields_distinct])
    fix k v
    assume "(k, v) \<in> set (report_fields r)"
    then show "\<exists>t b. map_of fs k = Some (t, b) \<and> has_ty v t" by (rule report_fields_typed [OF fs])
  next
    fix k t
    assume "(k, t, True) \<in> set fs"
    then show "k \<in> set (map fst (report_fields r))" by (rule report_fields_required [OF fs])
  qed
  then show ?thesis by (simp add: json_of_report_def fs)
qed

lemma user_typed [simp]: "has_ty (json_of_user u) user_ty"
  by (simp add: json_of_user_def user_ty_def)

lemma settings_typed [simp]: "has_ty (json_of_settings p) settings_ty"
  by (simp add: json_of_settings_def settings_ty_def)

text \<open>
  Claim C3. Every snapshot \<open>saveToLocalStorage\<close> writes has the type of the entry:
  reports and drafts as arrays of report objects (the optional properties
  present exactly when defined), the user as an object or \<open>null\<close>, the settings
  as an object of six controls.
\<close>

theorem snapshot_well_typed: "has_ty (snapshot s) snapshot_ty"
  by (simp add: snapshot_def snapshot_ty_def list_all_iff split: option.split)

subsection \<open>A well-typed value reads back\<close>

lemma rec_field_typed:
  "has_ty (JObj kvs) (TRec fs) \<Longrightarrow> map_of kvs k = Some v \<Longrightarrow> map_of fs k = Some (t, b) \<Longrightarrow>
   has_ty v t"
proof -
  assume h: "has_ty (JObj kvs) (TRec fs)" and m: "map_of kvs k = Some v" and f: "map_of fs k = Some (t, b)"
  from m have "(k, v) \<in> set kvs" by (rule map_of_SomeD)
  with h have "case map_of fs k of None \<Rightarrow> False | Some (t, _) \<Rightarrow> has_ty v t"
    by (auto simp: list_all_iff)
  with f show ?thesis by simp
qed

lemma rec_field_req:
  "has_ty (JObj kvs) (TRec fs) \<Longrightarrow> map_of fs k = Some (t, True) \<Longrightarrow>
   \<exists>v. map_of kvs k = Some v \<and> has_ty v t"
proof -
  assume h: "has_ty (JObj kvs) (TRec fs)" and f: "map_of fs k = Some (t, True)"
  then have "k \<in> set (map fst kvs)"
    by (fastforce simp: list_all_iff dest!: map_of_SomeD)
  then obtain v where "map_of kvs k = Some v"
    by (metis image_set map_of_eq_None_iff not_Some_eq)
  with rec_field_typed [OF h _ f] show ?thesis by blast
qed

lemma get_typed:
  "has_ty (JObj kvs) (TRec fs) \<Longrightarrow> map_of fs k = Some (t, True) \<Longrightarrow>
   (\<And>v. has_ty v t \<Longrightarrow> f v \<noteq> None) \<Longrightarrow> get kvs k f \<noteq> None"
proof -
  assume h: "has_ty (JObj kvs) (TRec fs)" and k: "map_of fs k = Some (t, True)"
    and f: "\<And>v. has_ty v t \<Longrightarrow> f v \<noteq> None"
  from rec_field_req [OF h k] obtain v where "map_of kvs k = Some v" and "has_ty v t" by blast
  with f show ?thesis by (simp add: get_def)
qed

lemma get_opt_typed:
  "has_ty (JObj kvs) (TRec fs) \<Longrightarrow> map_of fs k = Some (t, b) \<Longrightarrow>
   (\<And>v. has_ty v t \<Longrightarrow> f v \<noteq> None) \<Longrightarrow> get_opt kvs k f \<noteq> None"
proof -
  assume h: "has_ty (JObj kvs) (TRec fs)" and k: "map_of fs k = Some (t, b)"
    and f: "\<And>v. has_ty v t \<Longrightarrow> f v \<noteq> None"
  show ?thesis
  proof (cases "map_of kvs k")
    case (Some v)
    with rec_field_typed [OF h Some k] f show ?thesis by (simp add: get_opt_def)
  qed (simp add: get_opt_def)
qed

lemma leaf_decodes [simp]:
  "has_ty v TStr \<Longrightarrow> \<exists>y. as_str v = Some y" "has_ty v TBool \<Longrightarrow> \<exists>y. as_bool v = Some y"
  "has_ty v TNum \<Longrightarrow> \<exists>y. as_num v = Some y" "has_ty v TIso \<Longrightarrow> \<exists>y. as_iso v = Some y"
  by (cases v; simp add: as_str_def as_bool_def as_num_def as_iso_def)+

lemma as_list_decodes:
  "(\<And>v. has_ty v t \<Longrightarrow> \<exists>y. f v = Some y) \<Longrightarrow> has_ty v (TArr t) \<Longrightarrow>
   \<exists>ys. as_list f v = Some ys"
proof (cases v)
  case (JArr xs)
  assume f: "\<And>v. has_ty v t \<Longrightarrow> \<exists>y. f v = Some y" and "has_ty v (TArr t)"
  with JArr have "list_all (\<lambda>x. has_ty x t) xs" by simp
  then have "those (map f xs) \<noteq> None" by (induction xs) (auto dest: f)
  with JArr show ?thesis by (simp add: as_list_def)
qed simp_all

lemma rec_cases: "has_ty v (TRec fs) \<Longrightarrow> \<exists>kvs. v = JObj kvs"
  by (cases v) simp_all

lemma entry_decodes: "has_ty v entry_ty \<Longrightarrow> \<exists>e. entry_of_json v = Some e"
proof -
  assume h: "has_ty v entry_ty"
  then obtain kvs where v: "v = JObj kvs" by (auto simp: entry_ty_def dest: rec_cases)
  note g = get_typed [OF h [unfolded v entry_ty_def]]
  have "get kvs ''status'' as_str \<noteq> None" "get kvs ''date'' as_iso \<noteq> None"
    "get kvs ''description'' as_str \<noteq> None"
    by (rule g; auto dest: leaf_decodes)+
  then show ?thesis by (auto simp: v bind_eq_None_conv)
qed

lemma evidence_decodes: "has_ty v evidence_ty \<Longrightarrow> \<exists>e. evidence_of_json v = Some e"
proof -
  assume h: "has_ty v evidence_ty"
  then obtain kvs where v: "v = JObj kvs" by (auto simp: evidence_ty_def dest: rec_cases)
  note g = get_typed [OF h [unfolded v evidence_ty_def]]
  have "get kvs ''name'' as_str \<noteq> None" "get kvs ''size'' as_num \<noteq> None"
    "get kvs ''type'' as_str \<noteq> None" "get kvs ''lastModified'' as_num \<noteq> None"
    by (rule g; auto dest: leaf_decodes)+
  then show ?thesis by (auto simp: v bind_eq_None_conv)
qed

lemma assignee_decodes: "has_ty v (TOr TStr (TRec [])) \<Longrightarrow> \<exists>a. assignee_of_json v = Some a"
proof (cases v)
  case (JObj kvs)
  moreover assume "has_ty v (TOr TStr (TRec []))"
  ultimately have "kvs = []" by (cases kvs) auto
  with JObj show ?thesis by simp
qed simp_all

lemma draft_flag_decodes:
  "has_ty (JObj kvs) (TRec fs) \<Longrightarrow> map_of fs ''isDraft'' = Some (TBool, b) \<Longrightarrow>
   as_draft_flag (map_of kvs ''isDraft'') \<noteq> None"
proof (cases "map_of kvs ''isDraft''")
  case (Some v)
  assume h: "has_ty (JObj kvs) (TRec fs)" and f: "map_of fs ''isDraft'' = Some (TBool, b)"
  have "has_ty v TBool" by (rule rec_field_typed [OF h Some f])
  with Some show ?thesis by (cases v) (simp_all add: as_draft_flag_def)
qed (simp add: as_draft_flag_def)

lemma report_decodes: "has_ty v report_ty \<Longrightarrow> \<exists>r. report_of_json v = Some r"
proof -
  assume h: "has_ty v report_ty"
  then obtain kvs where v: "v = JObj kvs" by (auto simp: report_ty_def dest: rec_cases)
  note h' = h [unfolded v report_ty_def]
  note g = get_typed [OF h'] and go = get_opt_typed [OF h']
  have "get kvs ''id'' as_str \<noteq> None" "get kvs ''title'' as_str \<noteq> None"
    "get kvs ''category'' as_str \<noteq> None" "get kvs ''priority'' as_str \<noteq> None"
    "get kvs ''location'' as_str \<noteq> None" "get kvs ''description'' as_str \<noteq> None"
    "get kvs ''isPublic'' as_bool \<noteq> None" "get kvs ''isAnonymous'' as_bool \<noteq> None"
    "get kvs ''submittedAt'' as_iso \<noteq> None" "get kvs ''status'' as_str \<noteq> None"
    by (rule g; auto dest: leaf_decodes)+
  moreover have "get kvs ''timeline'' (as_list entry_of_json) \<noteq> None"
    by (rule g) (auto intro: as_list_decodes entry_decodes)
  moreover have "get_opt kvs ''evidence'' (as_list evidence_of_json) \<noteq> None"
    by (rule go) (auto intro: as_list_decodes evidence_decodes)
  moreover have "get_opt kvs ''submittedBy'' as_str \<noteq> None" "get_opt kvs ''routedAt'' as_iso \<noteq> None"
    "get_opt kvs ''savedAt'' as_iso \<noteq> None"
    by (rule go; auto dest: leaf_decodes)+
  moreover have "get_opt kvs ''assignedTo'' assignee_of_json \<noteq> None"
    by (rule go) (auto intro: assignee_decodes)
  moreover have "as_draft_flag (map_of kvs ''isDraft'') \<noteq> None"
    by (rule draft_flag_decodes [where b = False, OF h']) simp
  ultimately show ?thesis by (auto simp: v bind_eq_None_conv)
qed

lemma user_decodes: "has_ty v user_ty \<Longrightarrow> \<exists>u. user_of_json v = Some u"
proof -
  assume h: "has_ty v user_ty"
  then obtain kvs where v: "v = JObj kvs" by (auto simp: user_ty_def dest: rec_cases)
  note g = get_typed [OF h [unfolded v user_ty_def]]
  have "get kvs ''id'' as_str \<noteq> None" "get kvs ''name'' as_str \<noteq> None"
    "get kvs ''email'' as_str \<noteq> None" "get kvs ''phone'' as_str \<noteq> None"
    "get kvs ''location'' as_str \<noteq> None" "get kvs ''registeredAt'' as_iso \<noteq> None"
    "get kvs ''isVerified'' as_bool \<noteq> None"
    by (rule g; auto dest: leaf_decodes)+
  then show ?thesis by (auto simp: v bind_eq_None_conv)
qed

lemma arr_truthy: "has_ty v (TArr t) \<Longrightarrow> json_truthy v"
  by (cases v) (simp_all add: json_truthy_def)

lemma read_list_typed:
  "has_ty v (TArr t) \<Longrightarrow> (\<And>x. has_ty x t \<Longrightarrow> \<exists>y. f x = Some y) \<Longrightarrow>
   \<exists>ys. read_list f (Some v) = Some ys"
proof -
  assume h: "has_ty v (TArr t)" and f: "\<And>x. has_ty x t \<Longrightarrow> \<exists>y. f x = Some y"
  have "\<exists>ys. as_list f v = Some ys" using f h by (rule as_list_decodes)
  then obtain ys where "as_list f v = Some ys" by blast
  with arr_truthy [OF h] show ?thesis by (simp add: read_list_def)
qed

lemma read_user_typed: "has_ty v (TOr TNull user_ty) \<Longrightarrow> \<exists>u. read_user (Some v) = Some u"
proof -
  assume "has_ty v (TOr TNull user_ty)"
  then have "has_ty v TNull \<or> has_ty v user_ty" by simp
  then show ?thesis
  proof
    assume "has_ty v TNull"
    then have "v = JNull" by (cases v) simp_all
    then show ?thesis by (simp add: read_user_def json_truthy_def)
  next
    assume u: "has_ty v user_ty"
    then obtain u where "user_of_json v = Some u" using user_decodes by blast
    moreover from u obtain kvs where "v = JObj kvs" unfolding user_ty_def by (rule rec_cases [THEN exE])
    ultimately show ?thesis by (simp add: read_user_def json_truthy_def)
  qed
qed

text \<open>
  \<open>loadFromLocalStorage\<close> is total on the entry's type: whatever
  well-typed value is stored (not only one the program wrote) loads without
  error.
\<close>

lemma typed_snapshot_loads:
  assumes "storage s = Some (Parsed j)" and "has_ty j snapshot_ty"
  shows "\<exists>s'. loadFromLocalStorage s = Inr s'"
proof -
  from assms(2) obtain kvs where j: "j = JObj kvs"
    unfolding snapshot_ty_def by (rule rec_cases [THEN exE])
  note h = assms(2) [unfolded j snapshot_ty_def]
  have "\<exists>v. map_of kvs ''reports'' = Some v \<and> has_ty v (TArr report_ty)"
    by (rule rec_field_req [OF h]) simp
  then obtain vr where "map_of kvs ''reports'' = Some vr" "has_ty vr (TArr report_ty)" by blast
  moreover have "\<exists>rs. read_list report_of_json (Some vr) = Some rs"
    using \<open>has_ty vr (TArr report_ty)\<close> report_decodes by (rule read_list_typed)
  then obtain rs where "read_list report_of_json (Some vr) = Some rs" by blast
  ultimately have rs: "read_list report_of_json (map_of kvs ''reports'') = Some rs" by simp
  have "\<exists>v. map_of kvs ''drafts'' = Some v \<and> has_ty v (TArr report_ty)"
    by (rule rec_field_req [OF h]) simp
  then obtain vd where "map_of kvs ''drafts'' = Some vd" "has_ty vd (TArr report_ty)" by blast
  moreover have "\<exists>ds. read_list report_of_json (Some vd) = Some ds"
    using \<open>has_ty vd (TArr report_ty)\<close> report_decodes by (rule read_list_typed)
  then obtain ds where "read_list report_of_json (Some vd) = Some ds" by blast
  ultimately have ds: "read_list report_of_json (map_of kvs ''drafts'') = Some ds" by simp
  have "\<exists>v. map_of kvs ''currentUser'' = Some v \<and> has_ty v (TOr TNull user_ty)"
    by (rule rec_field_req [OF h]) simp
  then obtain vu where "map_of kvs ''currentUser'' = Some vu" "has_ty vu (TOr TNull user_ty)" by blast
  moreover obtain cu where "read_user (Some vu) = Some cu"
    using read_user_typed [OF \<open>has_ty vu (TOr TNull user_ty)\<close>] by blast
  ultimately have cu: "read_user (map_of kvs ''currentUser'') = Some cu" by simp
  show ?thesis using assms(1) rs ds cu by (simp add: loadFromLocalStorage_def j)
qed

end
