(* ===== verification/Geo.thy ===== *)
theory Geo
  imports App Queries
begin

text \<open>
  Location services (\<open>src/script.js\<close> lines 315--333). \<open>getCurrentLocation\<close>
  has three outcomes: no \<open>navigator.geolocation\<close>, the error callback, and the
  success callback, which writes \<open>Lat: ${latitude.toFixed(6)}, Lng:
  ${longitude.toFixed(6)}\<close> into the form's location field. The browser's answer
  is the datatype \<open>geo_outcome\<close>; a coordinate is an exact integer count of
  \<open>10\<^sup>-\<^sup>9\<close> degrees, and \<open>to_fixed6\<close> follows ECMAScript's \<open>toFixed\<close>: the
  sign is taken first, the magnitude is rounded half up to whole micro-degrees
  and printed with at least one integer digit and six decimals. The callback is
  taken to run before the next user event. \<open>parse_location\<close> reads the text
  back; the lemmas show that the location stored by a later submission is the
  printed text, untouched by the sanitiser, and that it parses back to the
  coordinates rounded to six decimals.
\<close>

definition digits_value :: "string \<Rightarrow> nat" where
  "digits_value ds = foldl (\<lambda>n c. 10 * n + (of_char c - 48)) 0 ds"

definition to_fixed6 :: "int \<Rightarrow> string" where
  "to_fixed6 c =
     (let n = (nat \<bar>c\<bar> + 500) div 1000;
          m = dec_string n;
          m' = (if length m \<le> 6 then replicate (7 - length m) CHR ''0'' @ m else m);
          k = length m' - 6
      in (if c < 0 then ''-'' else []) @ take k m' @ ''.'' @ drop k m')"

definition round6 :: "int \<Rightarrow> int" where
  "round6 c = (if c < 0 then - int ((nat \<bar>c\<bar> + 500) div 1000) else int ((nat c + 500) div 1000))"

definition parse_fixed6 :: "string \<Rightarrow> int" where
  "parse_fixed6 t =
     (if t \<noteq> [] \<and> hd t = CHR ''-'' then - int (digits_value (removeAll CHR ''.'' (tl t)))
      else int (digits_value (removeAll CHR ''.'' t)))"

definition location_text :: "int \<Rightarrow> int \<Rightarrow> string" where
  "location_text la lo = ''Lat: '' @ to_fixed6 la @ '', Lng: '' @ to_fixed6 lo"

definition parse_location :: "string \<Rightarrow> (int \<times> int) option" where
  "parse_location t =
     (if take 5 t = ''Lat: '' then
        (let r = drop 5 t; a = takeWhile (\<lambda>c. c \<noteq> CHR '','') r; rest = dropWhile (\<lambda>c. c \<noteq> CHR '','') r
         in if take 7 rest = '', Lng: '' then Some (parse_fixed6 a, parse_fixed6 (drop 7 rest)) else None)
      else None)"

datatype geo_outcome = GeoUnsupported | GeoError | GeoPosition int int

definition getCurrentLocation :: "geo_outcome \<Rightarrow> report_form \<Rightarrow> app \<Rightarrow> report_form \<times> app" where
  "getCurrentLocation g f s =
     (case g of
        GeoUnsupported \<Rightarrow>
          (f, showNotification ''error'' ''Not Supported'' ''Geolocation is not supported by this browser.'' s)
      | GeoError \<Rightarrow>
          (f, showNotification ''error'' ''Location Error'' ''Unable to get your current location.'' s)
      | GeoPosition la lo \<Rightarrow>
          (f\<lparr>form_location := location_text la lo\<rparr>,
           showNotification ''success'' ''Location Found'' ''Current location has been added to the report.'' s))"

text \<open>A page just loaded, with nothing stored.\<close>

definition geo_start :: app where
  "geo_start =
     \<lparr>currentUser = None, isOffline = False, reports = [], drafts = [],
      page_settings = \<lparr>highContrast = False, largeText = False, screenReader = False,
        language = [], emailNotifications = False, smsNotifications = False\<rparr>,
      storage = None, timers = [], clock = 0, notices = [], modal_shown = False, dom = blank_dom\<rparr>"

definition geo_form :: report_form where
  "geo_form = sample_form ''Pothole on Oak St'' ''infrastructure''
                ''A large pothole has formed near the school crossing.''"

declare dec_string.simps [simp del]

lemma digits_value_snoc: "digits_value (xs @ [c]) = 10 * digits_value xs + (of_char c - 48)"
  by (simp add: digits_value_def)

lemma digits_value_zeros: "digits_value (replicate k CHR ''0'' @ xs) = digits_value xs"
proof -
  have "foldl (\<lambda>n c. 10 * n + (of_char c - 48)) (0::nat) (replicate k CHR ''0'') = 0"
    by (induction k) simp_all
  then show ?thesis by (simp add: digits_value_def)
qed

lemma dec_string_value: "digits_value (dec_string n) = n"
proof (induction n rule: dec_string.induct)
  case (1 n)
  show ?case
  proof (cases "n < 10")
    case True
    then show ?thesis by (simp add: digits_value_def dec_string.simps [of n])
  next
    case False
    then have "digits_value (dec_string n) = 10 * (n div 10) + n mod 10"
      using 1 by (simp add: digits_value_snoc dec_string.simps [of n])
    then show ?thesis by simp
  qed
qed

lemma dec_string_chars: "x \<in> set (dec_string n) \<Longrightarrow> 48 \<le> (of_char x :: nat) \<and> (of_char x :: nat) \<le> 57"
proof (induction n rule: dec_string.induct)
  case (1 n)
  have d: "(of_char (char_of (48 + d)) :: nat) = 48 + d" if "d < 10" for d :: nat
    using that by (simp add: of_char_of)
  show ?case
  proof (cases "n < 10")
    case True
    then show ?thesis using 1 d [of n] by (simp add: dec_string.simps [of n])
  next
    case False
    with "1.prems" have "x \<in> set (dec_string (n div 10)) \<or> x = char_of (48 + n mod 10)"
      by (auto simp add: dec_string.simps [of n])
    then show ?thesis
    proof
      assume "x \<in> set (dec_string (n div 10))"
      then show ?thesis using "1.IH" [OF False] by blast
    next
      assume "x = char_of (48 + n mod 10)"
      then show ?thesis using d [of "n mod 10"] by simp
    qed
  qed
qed

lemma dec_string_ne: "dec_string n \<noteq> []"
  by (subst dec_string.simps) (simp)

text \<open>The digits \<open>m'\<close> of \<open>toFixed\<close>: the decimal digits of \<open>n\<close>, padded to at least seven.\<close>

lemma padded_digits:
  fixes n :: nat
  defines "m' \<equiv> (if length (dec_string n) \<le> 6 then replicate (7 - length (dec_string n)) CHR ''0'' @ dec_string n
                 else dec_string n)"
  shows "7 \<le> length m'" "digits_value m' = n"
    "\<And>x. x \<in> set m' \<Longrightarrow> 48 \<le> (of_char x :: nat) \<and> (of_char x :: nat) \<le> 57"
proof -
  show "7 \<le> length m'" by (simp add: m'_def)
  show "digits_value m' = n" by (simp add: m'_def digits_value_zeros dec_string_value)
  fix x
  assume "x \<in> set m'"
  then have "x = CHR ''0'' \<or> x \<in> set (dec_string n)" by (auto simp: m'_def split: if_splits)
  then show "48 \<le> (of_char x :: nat) \<and> (of_char x :: nat) \<le> 57"
    using dec_string_chars [of x n] by auto
qed

lemma to_fixed6_unfold:
  "\<exists>m'. 7 \<le> length m' \<and> digits_value m' = (nat \<bar>c\<bar> + 500) div 1000 \<and>
     (\<forall>x\<in>set m'. 48 \<le> (of_char x :: nat) \<and> (of_char x :: nat) \<le> 57) \<and>
     to_fixed6 c = (if c < 0 then ''-'' else []) @ take (length m' - 6) m' @ ''.'' @ drop (length m' - 6) m'"
proof -
  define n where "n = (nat \<bar>c\<bar> + 500) div 1000"
  define m' where "m' = (if length (dec_string n) \<le> 6
                          then replicate (7 - length (dec_string n)) CHR ''0'' @ dec_string n
                          else dec_string n)"
  have "to_fixed6 c = (if c < 0 then ''-'' else []) @ take (length m' - 6) m' @ ''.'' @ drop (length m' - 6) m'"
    unfolding to_fixed6_def Let_def n_def [symmetric] m'_def ..
  with padded_digits [where n = n, folded m'_def] n_def show ?thesis by blast
qed

lemma removeAll_digits: "\<forall>x\<in>set m. 48 \<le> (of_char x :: nat) \<Longrightarrow> removeAll CHR ''.'' m = m"
  by (induction m) auto

lemma fixed6_roundtrip: "parse_fixed6 (to_fixed6 c) = round6 c"
proof -
  obtain m' where l: "7 \<le> length m'" and v: "digits_value m' = (nat \<bar>c\<bar> + 500) div 1000"
    and d: "\<forall>x\<in>set m'. 48 \<le> (of_char x :: nat) \<and> (of_char x :: nat) \<le> 57"
    and t: "to_fixed6 c = (if c < 0 then ''-'' else []) @ take (length m' - 6) m' @ ''.'' @ drop (length m' - 6) m'"
    using to_fixed6_unfold by blast
  define k where "k = length m' - 6"
  define body where "body = take k m' @ ''.'' @ drop k m'"
  have d1: "\<forall>x\<in>set (take k m'). 48 \<le> (of_char x :: nat)" using d by (auto dest: in_set_takeD)
  have d2: "\<forall>x\<in>set (drop k m'). 48 \<le> (of_char x :: nat)" using d by (auto dest: in_set_dropD)
  have r: "removeAll CHR ''.'' body = m'"
    by (simp add: body_def removeAll_digits [OF d1] removeAll_digits [OF d2])
  obtain x xs where m: "m' = x # xs" using l by (cases m') auto
  have "48 \<le> (of_char x :: nat)" using d m by simp
  then have x: "x \<noteq> CHR ''-''" by auto
  have k: "0 < k" using l by (simp add: k_def)
  have h: "body \<noteq> [] \<and> hd body = x" using k m by (simp add: body_def)
  have t': "to_fixed6 c = (if c < 0 then ''-'' else []) @ body" using t by (simp add: body_def k_def)
  show ?thesis
  proof (cases "c < 0")
    case True
    then show ?thesis using t' r v by (simp add: parse_fixed6_def round6_def)
  next
    case False
    then show ?thesis using t' r v h x by (simp add: parse_fixed6_def round6_def)
  qed
qed

lemma to_fixed6_chars:
  "x \<in> set (to_fixed6 c) \<Longrightarrow> x = CHR ''-'' \<or> x = CHR ''.'' \<or> 48 \<le> (of_char x :: nat) \<and> (of_char x :: nat) \<le> 57"
proof -
  assume x: "x \<in> set (to_fixed6 c)"
  obtain m' where d: "\<forall>x\<in>set m'. 48 \<le> (of_char x :: nat) \<and> (of_char x :: nat) \<le> 57"
    and t: "to_fixed6 c = (if c < 0 then ''-'' else []) @ take (length m' - 6) m' @ ''.'' @ drop (length m' - 6) m'"
    using to_fixed6_unfold by blast
  from x t d show ?thesis by (auto split: if_splits dest: in_set_takeD in_set_dropD)
qed

lemma to_fixed6_last:
  "to_fixed6 c \<noteq> [] \<and> 48 \<le> (of_char (last (to_fixed6 c)) :: nat) \<and> (of_char (last (to_fixed6 c)) :: nat) \<le> 57"
proof -
  obtain m' where l: "7 \<le> length m'" and d: "\<forall>x\<in>set m'. 48 \<le> (of_char x :: nat) \<and> (of_char x :: nat) \<le> 57"
    and t: "to_fixed6 c = (if c < 0 then ''-'' else []) @ take (length m' - 6) m' @ ''.'' @ drop (length m' - 6) m'"
    using to_fixed6_unfold by blast
  have ne: "drop (length m' - 6) m' \<noteq> []" using l by simp
  then have "last (to_fixed6 c) = last (drop (length m' - 6) m')" using t by simp
  moreover have "last (drop (length m' - 6) m') \<in> set m'" using ne by (meson in_set_dropD last_in_set)
  ultimately show ?thesis using d t by simp
qed

lemma digit_not_space: "48 \<le> (of_char x :: nat) \<Longrightarrow> (of_char x :: nat) \<le> 57 \<Longrightarrow> \<not> js_whitespace x"
  by (auto simp: js_whitespace_def)

lemma location_text_sanitized: "sanitizeInput (location_text la lo) = location_text la lo"
proof -
  have lt: "CHR ''<'' \<notin> set (location_text la lo)"
    using to_fixed6_chars [of "CHR ''<''" la] to_fixed6_chars [of "CHR ''<''" lo]
    by (auto simp: location_text_def)
  have "last (location_text la lo) = last (to_fixed6 lo)"
    using to_fixed6_last [of lo] by (simp add: location_text_def)
  then have "\<not> js_whitespace (last (location_text la lo))"
    using to_fixed6_last [of lo] digit_not_space by simp
  then have "js_trim (location_text la lo) = location_text la lo"
    by (intro js_trim_id) (simp_all add: location_text_def js_whitespace_def)
  moreover have "location_text la lo \<noteq> []" by (simp add: location_text_def)
  ultimately show ?thesis using lt by (simp add: sanitizeInput_def strip_scripts_no_lt)
qed

lemma parse_location_text: "parse_location (location_text la lo) = Some (round6 la, round6 lo)"
proof -
  have nc: "\<forall>x\<in>set (to_fixed6 la). x \<noteq> CHR '',''" using to_fixed6_chars [of _ la] by fastforce
  then have "takeWhile (\<lambda>c. c \<noteq> CHR '','') (to_fixed6 la @ '', Lng: '' @ to_fixed6 lo) = to_fixed6 la"
    and "dropWhile (\<lambda>c. c \<noteq> CHR '','') (to_fixed6 la @ '', Lng: '' @ to_fixed6 lo) = '', Lng: '' @ to_fixed6 lo"
    by (simp_all add: takeWhile_append2 dropWhile_append2)
  then show ?thesis by (simp add: parse_location_def location_text_def Let_def fixed6_roundtrip)
qed

text \<open>
  Claim C21. When the browser has no geolocation or reports an error, the form is
  left as it was, reports and timers are unchanged, and exactly one error
  notification is shown.
\<close>

theorem getCurrentLocation_failure:
  "g \<in> {GeoUnsupported, GeoError} \<Longrightarrow>
   fst (getCurrentLocation g f s) = f \<and> reports (snd (getCurrentLocation g f s)) = reports s \<and>
   timers (snd (getCurrentLocation g f s)) = timers s \<and>
   map ntype (notices (snd (getCurrentLocation g f s))) = map ntype (notices s) @ [''error'']"
  by (auto simp: getCurrentLocation_def showNotification_def)

theorem getCurrentLocation_failure_witness:
  "GeoError \<in> {GeoUnsupported, GeoError} \<and>
   fst (getCurrentLocation GeoError geo_form geo_start) = geo_form \<and>
   reports (snd (getCurrentLocation GeoError geo_form geo_start)) = [] \<and>
   timers (snd (getCurrentLocation GeoError geo_form geo_start)) = [] \<and>
   map ntype (notices (snd (getCurrentLocation GeoError geo_form geo_start))) = [''error'']"
proof -
  have g: "GeoError \<in> {GeoUnsupported, GeoError}" by simp
  show ?thesis using getCurrentLocation_failure [OF g, of geo_form geo_start] g
    by (simp add: geo_start_def)
qed

lemma to_fixed6_lat: "to_fixed6 37774929000 = ''37.774929''"
proof -
  have n: "(nat \<bar>37774929000::int\<bar> + 500) div 1000 = 37774929" by simp
  have d: "dec_string 37774929 = ''37774929''" by (simp add: dec_string.simps char_of_def bit_0)
  show ?thesis unfolding to_fixed6_def Let_def n d by simp
qed

lemma to_fixed6_lng: "to_fixed6 (-122419416000) = ''-122.419416''"
proof -
  have n: "(nat \<bar>-122419416000::int\<bar> + 500) div 1000 = 122419416" by simp
  have d: "dec_string 122419416 = ''122419416''" by (simp add: dec_string.simps char_of_def bit_0)
  show ?thesis unfolding to_fixed6_def Let_def n d by simp
qed

text \<open>
  \<open>toFixed\<close> takes the sign before rounding: a coordinate within half a
  micro-degree below zero prints as \<open>-0.000000\<close>.
\<close>

lemma to_fixed6_negative_zero: "to_fixed6 (-400) = ''-0.000000''"
proof -
  have n: "(nat \<bar>-400::int\<bar> + 500) div 1000 = 0" by simp
  have d: "dec_string 0 = ''0''" by (simp add: dec_string.simps char_of_def bit_0)
  show ?thesis unfolding to_fixed6_def Let_def n d by (simp add: numeral_eq_Suc)
qed

text \<open>
  Claim C9. A location found by \<open>getCurrentLocation\<close> and then submitted with
  the report is stored exactly as printed, and the stored text reads back as the
  two coordinates rounded to six decimals.
\<close>

theorem located_report_roundtrip:
  assumes "getCurrentLocation (GeoPosition la lo) f s = (f', s')"
    and "isValid (validateReportData (collectReportData rid (clock s') (isOffline s') (currentUser s') f'))"
  shows "location (last (reports (submitReport rid f' s'))) = location_text la lo \<and>
         parse_location (location (last (reports (submitReport rid f' s')))) = Some (round6 la, round6 lo)"
proof -
  from assms(1) have f': "form_location f' = location_text la lo" by (auto simp: getCurrentLocation_def)
  have "location (last (reports (submitReport rid f' s'))) = sanitizeInput (form_location f')"
    using assms(2) by (simp add: submitReport_def Let_def collectReportData_def routeReport_def)
  with f' show ?thesis by (simp add: location_text_sanitized parse_location_text)
qed

theorem located_report_roundtrip_witness:
  "getCurrentLocation (GeoPosition 37774929000 (-122419416000)) geo_form geo_start =
     (geo_form\<lparr>form_location := location_text 37774929000 (-122419416000)\<rparr>,
      showNotification ''success'' ''Location Found'' ''Current location has been added to the report.''
        geo_start) \<and>
   isValid (validateReportData (collectReportData ''r1'' 0 False None
     (geo_form\<lparr>form_location := location_text 37774929000 (-122419416000)\<rparr>))) \<and>
   location (last (reports (submitReport ''r1''
     (geo_form\<lparr>form_location := location_text 37774929000 (-122419416000)\<rparr>)
     (showNotification ''success'' ''Location Found'' ''Current location has been added to the report.''
        geo_start)))) = ''Lat: 37.774929, Lng: -122.419416'' \<and>
   parse_location ''Lat: 37.774929, Lng: -122.419416'' = Some (37774929, -122419416)"
proof -
  have g: "getCurrentLocation (GeoPosition 37774929000 (-122419416000)) geo_form geo_start =
     (geo_form\<lparr>form_location := location_text 37774929000 (-122419416000)\<rparr>,
      showNotification ''success'' ''Location Found'' ''Current location has been added to the report.''
        geo_start)" by (simp add: getCurrentLocation_def)
  have v: "isValid (validateReportData (collectReportData ''r1'' 0 False None
     (geo_form\<lparr>form_location := location_text 37774929000 (-122419416000)\<rparr>)))"
    by (simp add: geo_form_def sample_form_def validation_errors_def js_trim_def js_whitespace_def)
  have t: "location_text 37774929000 (-122419416000) = ''Lat: 37.774929, Lng: -122.419416''"
    by (simp add: location_text_def to_fixed6_lat to_fixed6_lng)
  have r1: "round6 37774929000 = 37774929" by (simp add: round6_def)
  have r2: "round6 (-122419416000) = -122419416" by (simp add: round6_def)
  have v': "isValid (validateReportData (collectReportData ''r1''
     (clock (showNotification ''success'' ''Location Found''
        ''Current location has been added to the report.'' geo_start))
     (isOffline (showNotification ''success'' ''Location Found''
        ''Current location has been added to the report.'' geo_start))
     (currentUser (showNotification ''success'' ''Location Found''
        ''Current location has been added to the report.'' geo_start))
     (geo_form\<lparr>form_location := location_text 37774929000 (-122419416000)\<rparr>)))"
    using v by (simp add: geo_start_def)
  have c: "location (last (reports (submitReport ''r1''
     (geo_form\<lparr>form_location := location_text 37774929000 (-122419416000)\<rparr>)
     (showNotification ''success'' ''Location Found'' ''Current location has been added to the report.''
        geo_start)))) = location_text 37774929000 (-122419416000) \<and>
     parse_location (location (last (reports (submitReport ''r1''
     (geo_form\<lparr>form_location := location_text 37774929000 (-122419416000)\<rparr>)
     (showNotification ''success'' ''Location Found'' ''Current location has been added to the report.''
        geo_start))))) = Some (round6 37774929000, round6 (-122419416000))"
    by (rule located_report_roundtrip [OF g v'])
  show ?thesis
    using g v c unfolding t r1 r2 by metis
qed

declare dec_string.simps [simp]

end
