(* ===== verification/ServiceWorker.thy ===== *)
theory ServiceWorker
  imports Prelude "HOL-Library.AList"
begin

text \<open>
  Offline support (\<open>src/script.js\<close> lines 641--655 and 1074--1117). The page
  registers a worker twice: \<open>setupOfflineCapabilities\<close> registers \<open>sw.js\<close>, and
  the top-level \<open>load\<close> listener registers the inline worker \<open>swCode\<close> through a
  \<open>blob:\<close> URL. The inline worker's \<open>install\<close> handler opens the cache
  \<open>civicconnect-v1\<close> and adds the four start-up URLs with \<open>cache.addAll\<close>; its
  \<open>fetch\<close> handler answers from \<open>caches.match\<close> and falls back to the network.

  The Cache API is modelled after its specification: the cache storage is an
  association list of named caches in creation order (\<open>AList.update\<close> keeps a
  name's position), a cache an association list from URL to response;
  \<open>addAll\<close> fetches every URL and stores all responses, or rejects and stores
  none when a fetch fails or a status is outside 200--299; \<open>caches.match\<close> asks
  the caches in order. The network is a function from URL to response, \<open>None\<close>
  for a failed fetch (offline). A rejected \<open>waitUntil\<close> makes the worker
  redundant; there is no \<open>activate\<close> handler, so an installed worker is taken to
  be active. \<open>register\<close> accepts only an \<open>http\<close> or \<open>https\<close> script URL whose
  script the browser can fetch.
\<close>

record http_response =
  resp_status :: nat
  resp_body :: string

type_synonym network = "string \<Rightarrow> http_response option"
type_synonym cache = "(string \<times> http_response) list"
type_synonym cache_storage = "(string \<times> cache) list"

datatype sw_phase = SwParsed | SwActivated | SwRedundant

record worker =
  sw_phase :: sw_phase
  caches :: cache_storage

definition CACHE_NAME :: string where
  "CACHE_NAME = ''civicconnect-v1''"

definition urlsToCache :: "string list" where
  "urlsToCache = [''/'', ''/index.html'', ''/styles.css'', ''/script.js'']"

definition resp_ok :: "http_response \<Rightarrow> bool" where
  "resp_ok r \<longleftrightarrow> 200 \<le> resp_status r \<and> resp_status r \<le> 299"

text \<open>\<open>caches.open(name)\<close>: the named cache, created empty at the end if missing.\<close>

definition caches_open :: "string \<Rightarrow> cache_storage \<Rightarrow> cache_storage \<times> cache" where
  "caches_open n cs =
     (case map_of cs n of Some c \<Rightarrow> (cs, c) | None \<Rightarrow> (cs @ [(n, [])], []))"

text \<open>The fetches of \<open>cache.addAll(urls)\<close>: all responses, or \<open>None\<close> on the first failure.\<close>

fun fetch_all :: "network \<Rightarrow> string list \<Rightarrow> (string \<times> http_response) list option" where
  "fetch_all net [] = Some []"
| "fetch_all net (u # us) =
     (case net u of
        None \<Rightarrow> None
      | Some r \<Rightarrow> (if resp_ok r then map_option (\<lambda>rs. (u, r) # rs) (fetch_all net us) else None))"

definition cache_addAll :: "network \<Rightarrow> string list \<Rightarrow> cache \<Rightarrow> cache option" where
  "cache_addAll net urls c =
     map_option (foldl (\<lambda>c' ur. AList.update (fst ur) (snd ur) c') c) (fetch_all net urls)"

text \<open>\<open>caches.match(request)\<close>: the first cache, in creation order, holding the URL.\<close>

fun caches_match :: "cache_storage \<Rightarrow> string \<Rightarrow> http_response option" where
  "caches_match [] u = None"
| "caches_match ((n, c) # cs) u = (case map_of c u of Some r \<Rightarrow> Some r | None \<Rightarrow> caches_match cs u)"

text \<open>
  The \<open>install\<close> listener:
  \<open>event.waitUntil(caches.open(CACHE_NAME).then(cache => cache.addAll(urlsToCache)))\<close>.
\<close>

definition sw_install :: "network \<Rightarrow> worker \<Rightarrow> worker" where
  "sw_install net w =
     (let (cs, c) = caches_open CACHE_NAME (caches w)
      in case cache_addAll net urlsToCache c of
           None \<Rightarrow> w\<lparr>sw_phase := SwRedundant, caches := cs\<rparr>
         | Some c' \<Rightarrow> w\<lparr>sw_phase := SwActivated, caches := AList.update CACHE_NAME c' cs\<rparr>)"

text \<open>
  The \<open>fetch\<close> listener: \<open>caches.match(event.request).then(response => response ||
  fetch(event.request))\<close>; \<open>None\<close> is the rejected promise the page sees.
\<close>

definition sw_fetch :: "network \<Rightarrow> worker \<Rightarrow> string \<Rightarrow> http_response option" where
  "sw_fetch net w u = (case caches_match (caches w) u of Some r \<Rightarrow> Some r | None \<Rightarrow> net u)"

text \<open>A request of the page: through the worker once it is active, else to the network.\<close>

definition page_fetch :: "network \<Rightarrow> worker \<Rightarrow> string \<Rightarrow> http_response option" where
  "page_fetch net w u = (if sw_phase w = SwActivated then sw_fetch net w u else net u)"

definition url_scheme :: "string \<Rightarrow> string" where
  "url_scheme u = takeWhile (\<lambda>c. c \<noteq> CHR '':'') u"

text \<open>
  \<open>navigator.serviceWorker.register(url)\<close> on the list of registered script
  URLs; \<open>script_ok\<close> says whether the browser can fetch a script at the URL. The
  promise's callbacks only log.
\<close>

definition sw_register :: "(string \<Rightarrow> bool) \<Rightarrow> string \<Rightarrow> string list \<Rightarrow> string list" where
  "sw_register script_ok url regs =
     (if url_scheme url \<in> {''http'', ''https''} \<and> script_ok url \<and> url \<notin> set regs
      then regs @ [url] else regs)"

text \<open>
  \<open>setupOfflineCapabilities\<close>, with \<open>sw.js\<close> resolved against the page's URL
  (\<open>sw_url\<close>); the call of \<open>syncOfflineData\<close> that follows only logs.
\<close>

definition setupOfflineCapabilities :: "bool \<Rightarrow> (string \<Rightarrow> bool) \<Rightarrow> string \<Rightarrow> string list \<Rightarrow> string list" where
  "setupOfflineCapabilities has_sw script_ok sw_url regs =
     (if has_sw then sw_register script_ok sw_url regs else regs)"

text \<open>The top-level \<open>load\<close> listener, with \<open>blob_url\<close> the value of \<open>URL.createObjectURL(blob)\<close>.\<close>

definition register_inline_worker :: "bool \<Rightarrow> (string \<Rightarrow> bool) \<Rightarrow> string \<Rightarrow> string list \<Rightarrow> string list" where
  "register_inline_worker has_sw script_ok blob_url regs =
     (if has_sw then sw_register script_ok blob_url regs else regs)"

subsection \<open>Lemmas\<close>

lemma fetch_all_ok:
  "fetch_all net us \<noteq> None \<longleftrightarrow> (\<forall>u\<in>set us. \<exists>r. net u = Some r \<and> resp_ok r)"
  by (induction us) (auto split: option.splits)

lemma fetch_all_Some:
  "fetch_all net us = Some rs \<Longrightarrow> map fst rs = us \<and> (\<forall>(u, r)\<in>set rs. net u = Some r \<and> resp_ok r)"
  by (induction us arbitrary: rs) (auto split: option.splits if_splits)

lemma map_of_foldl_update:
  "map_of (foldl (\<lambda>c' ur. AList.update (fst ur) (snd ur) c') c rs) = map_of c ++ map_of (rev rs)"
  by (induction rs arbitrary: c) (simp_all add: update_conv')

lemma caches_match_update:
  "map_of c u = Some r \<Longrightarrow> \<exists>r'. caches_match (AList.update n c cs) u = Some r'"
  by (induction cs) (auto split: option.splits)

lemma sw_install_phase:
  "sw_phase (sw_install net w) = (if fetch_all net urlsToCache = None then SwRedundant else SwActivated)"
  by (auto simp: sw_install_def caches_open_def cache_addAll_def split: option.splits prod.splits)

lemma sw_install_activated_iff:
  "sw_phase (sw_install net w) = SwActivated \<longleftrightarrow> (\<forall>u\<in>set urlsToCache. \<exists>r. net u = Some r \<and> resp_ok r)"
  using fetch_all_ok [of net urlsToCache] by (auto simp: sw_install_phase)

lemma fetch_all_lookup:
  assumes f: "fetch_all net us = Some rs" and u: "u \<in> set us"
  shows "map_of (rev rs) u = net u \<and> (\<exists>r. net u = Some r \<and> resp_ok r)"
proof -
  from fetch_all_Some [OF f] have k: "map fst rs = us" and e: "\<forall>(u, r)\<in>set rs. net u = Some r \<and> resp_ok r"
    by blast+
  from u k have "u \<in> fst ` set (rev rs)" by auto
  then obtain r where m: "map_of (rev rs) u = Some r" by (meson weak_map_of_SomeI map_of_eq_None_iff not_Some_eq)
  then have "(u, r) \<in> set rs" using map_of_SomeD by fastforce
  with e m show ?thesis by auto
qed

text \<open>After a successful install the named cache holds each start-up URL with its install-time response.\<close>

lemma sw_install_cached:
  assumes a: "sw_phase (sw_install net w) = SwActivated" and u: "u \<in> set urlsToCache"
  obtains cs c rs where "caches_open CACHE_NAME (caches w) = (cs, c)"
    and "caches (sw_install net w) = AList.update CACHE_NAME (foldl (\<lambda>c' ur. AList.update (fst ur) (snd ur) c') c rs) cs"
    and "fetch_all net urlsToCache = Some rs"
    and "map_of (rev rs) u = net u" and "\<exists>r. net u = Some r \<and> resp_ok r"
proof -
  obtain rs where f: "fetch_all net urlsToCache = Some rs"
    using a by (auto simp: sw_install_phase split: if_splits)
  obtain cs c where o: "caches_open CACHE_NAME (caches w) = (cs, c)" by fastforce
  have "caches (sw_install net w) = AList.update CACHE_NAME (foldl (\<lambda>c' ur. AList.update (fst ur) (snd ur) c') c rs) cs"
    using f o by (simp add: sw_install_def cache_addAll_def)
  then show ?thesis using fetch_all_lookup [OF f u] by (intro that [OF o _ f]) auto
qed

lemma sw_install_serves:
  assumes a: "sw_phase (sw_install net w) = SwActivated" and u: "u \<in> set urlsToCache"
  shows "\<exists>r. page_fetch net' (sw_install net w) u = Some r"
proof -
  obtain cs c rs where "caches_open CACHE_NAME (caches w) = (cs, c)"
    and c: "caches (sw_install net w) = AList.update CACHE_NAME (foldl (\<lambda>c' ur. AList.update (fst ur) (snd ur) c') c rs) cs"
    and "fetch_all net urlsToCache = Some rs"
    and l: "map_of (rev rs) u = net u" and r: "\<exists>r. net u = Some r \<and> resp_ok r"
    by (rule sw_install_cached [OF a u])
  from l r have "\<exists>r. map_of (foldl (\<lambda>c' ur. AList.update (fst ur) (snd ur) c') c rs) u = Some r"
    by (auto simp: map_of_foldl_update)
  then obtain r where "map_of (foldl (\<lambda>c' ur. AList.update (fst ur) (snd ur) c') c rs) u = Some r" ..
  from caches_match_update [OF this] obtain r' where "caches_match (caches (sw_install net w)) u = Some r'"
    unfolding c by blast
  with a show ?thesis by (simp add: page_fetch_def sw_fetch_def)
qed

text \<open>A failed install leaves the worker redundant: the page goes to the network.\<close>

lemma sw_install_failed:
  "\<not> (\<forall>u\<in>set urlsToCache. \<exists>r. net u = Some r \<and> resp_ok r) \<Longrightarrow>
   sw_phase (sw_install net w) = SwRedundant \<and> page_fetch net' (sw_install net w) = net'"
  using fetch_all_ok [of net urlsToCache] by (auto simp: sw_install_phase page_fetch_def)

lemma sw_install_keeps_first:
  "caches w = (n, c0) # rest \<Longrightarrow> n \<noteq> CACHE_NAME \<Longrightarrow> \<exists>rest'. caches (sw_install net w) = (n, c0) # rest'"
  by (auto simp: sw_install_def caches_open_def split: option.splits prod.splits)

text \<open>Without an \<open>activate\<close> handler an older cache is never deleted, and it is asked first.\<close>

lemma stale_cache_first:
  assumes "caches w = (n, c0) # rest" "n \<noteq> CACHE_NAME" "map_of c0 u = Some r0"
  shows "sw_fetch net' (sw_install net w) u = Some r0"
proof -
  obtain rest' where "caches (sw_install net w) = (n, c0) # rest'"
    using sw_install_keeps_first [OF assms(1,2)] by blast
  with assms(3) show ?thesis by (simp add: sw_fetch_def)
qed

lemma inline_worker_never_registered:
  "register_inline_worker has_sw script_ok (''blob:'' @ rest) regs = regs"
  by (simp add: register_inline_worker_def sw_register_def url_scheme_def)

text \<open>
  On an origin with no caches yet, once an installed worker runs these listeners,
  every start-up URL is answered from the cache with the response fetched at
  install time, whatever the network does later. The inline worker of the page
  never gets that far: its \<open>blob:\<close> URL is refused by \<open>register\<close>
  (\<open>inline_worker_never_registered\<close>).
\<close>

lemma sw_install_offline:
  assumes fresh: "caches w = []" and a: "sw_phase (sw_install net w) = SwActivated"
    and u: "u \<in> set urlsToCache"
  shows "page_fetch net' (sw_install net w) u = net u \<and> (\<exists>r. net u = Some r \<and> resp_ok r)"
proof -
  obtain cs c rs where o: "caches_open CACHE_NAME (caches w) = (cs, c)"
    and c: "caches (sw_install net w) = AList.update CACHE_NAME (foldl (\<lambda>c' ur. AList.update (fst ur) (snd ur) c') c rs) cs"
    and "fetch_all net urlsToCache = Some rs"
    and l: "map_of (rev rs) u = net u" and r: "\<exists>r. net u = Some r \<and> resp_ok r"
    by (rule sw_install_cached [OF a u])
  from o fresh have "cs = [(CACHE_NAME, [])]" "c = []" by (simp_all add: caches_open_def)
  with c l r a show ?thesis
    by (auto simp: page_fetch_def sw_fetch_def map_of_foldl_update)
qed

end
