(* ===== verification/Ids.thy ===== *)
theory Ids
  imports Prelude
begin

text \<open>
  \<open>generateId()\<close> (\<open>src/script.js\<close> lines 933--935):
  \<open>Math.random().toString(36).substr(2, 9) + Date.now().toString(36)\<close>. The
  random number's base-36 text is an input (\<open>rnd\<close>, of the form \<open>0.\<close> followed by
  digits); \<open>Date.now().toString(36)\<close> is \<open>base36\<close> of the time in milliseconds. The
  lemmas read the time back from the id (\<open>value36\<close>) and show that ids made at
  different times with a full nine-character random part differ, which is the
  freshness the run of \<open>App\<close> assumes of a new report's id.
\<close>

definition digit36 :: "nat \<Rightarrow> char" where
  "digit36 d = (if d < 10 then char_of (48 + d) else char_of (87 + d))"

fun base36 :: "nat \<Rightarrow> string" where
  "base36 n = (if n < 36 then [digit36 n] else base36 (n div 36) @ [digit36 (n mod 36)])"

definition generateId :: "string \<Rightarrow> int \<Rightarrow> string" where
  "generateId rnd now = take 9 (drop 2 rnd) @ base36 (nat now)"

definition digit36_value :: "char \<Rightarrow> nat" where
  "digit36_value c = (if of_char c \<le> (57::nat) then of_char c - 48 else of_char c - 87)"

definition value36 :: "string \<Rightarrow> nat" where
  "value36 ds = foldl (\<lambda>n c. 36 * n + digit36_value c) 0 ds"

declare base36.simps [simp del]

lemma digit36_value_digit36: "d < 36 \<Longrightarrow> digit36_value (digit36 d) = d"
  by (auto simp: digit36_def digit36_value_def of_char_of)

lemma value36_snoc: "value36 (xs @ [c]) = 36 * value36 xs + digit36_value c"
  by (simp add: value36_def)

theorem value36_base36: "value36 (base36 n) = n"
proof (induction n rule: base36.induct)
  case (1 n)
  show ?case
  proof (cases "n < 36")
    case True
    then show ?thesis by (simp add: value36_def digit36_value_digit36 base36.simps [of n])
  next
    case False
    then have "value36 (base36 n) = 36 * (n div 36) + n mod 36"
      using 1 by (simp add: value36_snoc digit36_value_digit36 base36.simps [of n])
    then show ?thesis by simp
  qed
qed

lemma base36_inj: "base36 a = base36 b \<Longrightarrow> a = b"
  by (metis value36_base36)

text \<open>The time is read back from an id whose random part has its nine characters.\<close>

lemma generateId_time:
  "length (take 9 (drop 2 rnd)) = 9 \<Longrightarrow> value36 (drop 9 (generateId rnd now)) = nat now"
  by (simp add: generateId_def value36_base36)

text \<open>
  Claim C26. Ids generated at two different times differ whenever both random
  parts have their nine characters: the time suffix tells them apart.
\<close>

theorem generateId_distinct:
  assumes "length (take 9 (drop 2 r1)) = 9" "length (take 9 (drop 2 r2)) = 9"
    and "0 \<le> t1" "0 \<le> t2" "t1 \<noteq> t2"
  shows "generateId r1 t1 \<noteq> generateId r2 t2"
proof
  assume "generateId r1 t1 = generateId r2 t2"
  then have "nat t1 = nat t2" using generateId_time [OF assms(1)] generateId_time [OF assms(2)] by metis
  with assms(3-5) show False by simp
qed

theorem generateId_distinct_witness:
  "length (take 9 (drop 2 ''0.4fzyo82mvyr'')) = 9 \<and> length (take 9 (drop 2 ''0.4fzyo82mvyr'')) = 9 \<and>
   (0::int) \<le> 1700000000000 \<and> (0::int) \<le> 1700000000001 \<and> (1700000000000::int) \<noteq> 1700000000001 \<and>
   generateId ''0.4fzyo82mvyr'' 1700000000000 \<noteq> generateId ''0.4fzyo82mvyr'' 1700000000001"
proof -
  have l: "length (take 9 (drop 2 ''0.4fzyo82mvyr'')) = 9" by simp
  show ?thesis using generateId_distinct [OF l l, of 1700000000000 1700000000001] l by simp
qed

end
