(* ===== verification/Spec2Isabelle.thy ===== *)
theory Spec2Isabelle
  imports Invariants Queries Render Schema Geo ServiceWorker Ids
begin

text \<open>
  \<^bold>\<open>A verification development of CivicConnect\<close> (\<open>src/script.js\<close>, the class
  \<open>CivicConnectApp\<close>). The program is a single-page civic issue tracker: a citizen
  fills a form, the report is validated and sanitised (\<open>validateReportData\<close>,
  \<open>sanitizeInput\<close>), routed to an authority by category (\<open>routeReport\<close>), stored
  in \<open>this.reports\<close> and persisted to \<open>localStorage\<close>
  (\<open>saveToLocalStorage\<close>); \<open>setTimeout\<close> callbacks then move reports along the
  lifecycle \<open>submitted\<close>, \<open>under-review\<close>, \<open>in-progress\<close>, \<open>resolved\<close>
  (\<open>updateReportStatus\<close>, \<open>simulateResolution\<close>). At start-up the constructor
  reads the stored snapshot (\<open>loadFromLocalStorage\<close>), adds two demonstration
  reports to an empty store (\<open>generateMockData\<close>) and schedules the simulation.

  \<^bold>\<open>Theories.\<close>
  \<^item> \<open>Prelude\<close>: the JavaScript built-ins the handlers use, on strings as
    character lists: \<open>trim\<close> (\<open>js_trim\<close>), \<open>toLowerCase\<close> on ASCII
    (\<open>js_lower\<close>), the class \<open>\w\<close> (\<open>is_word_char\<close>), \<open>includes\<close>,
    \<open>indexOf\<close> with its \<open>-1\<close> (\<open>index_of\<close>), \<open>find\<close> followed by a mutation
    of the found object (\<open>update_first\<close>) and \<open>join\<close>; the time type
    \<open>timestamp\<close> (milliseconds, \<open>int\<close>).
  \<^item> \<open>Report\<close>: the report, timeline entry, evidence and user objects as records
    (optional properties as \<open>option\<close>), the form as a record, \<open>collectReportData\<close>
    (lines 143--163) and \<open>getEvidenceFiles\<close> (lines 336--352).
  \<^item> \<open>Sanitize\<close>: \<open>sanitizeInput\<close> (lines 189--192), the regular expression
    \<open>/<script\b[^<]*(?:(?!<\/script>)<[^<]*)*<\/script>/gi\<close> replaced by \<open>''\<close>, as a
    left-to-right scan (\<open>strip_scripts\<close>, terminating by the length of the rest).
  \<^item> \<open>Validate\<close>: \<open>validateReportData\<close> (lines 166--187).
  \<^item> \<open>Route\<close>: \<open>routeReport\<close> (lines 195--217) with the routing table as a JavaScript
    object, whose lookup also finds the members of \<open>Object.prototype\<close>.
  \<^item> \<open>Lifecycle\<close>: the per-report effect of \<open>updateReportStatus\<close> and of the
    \<open>simulateResolution\<close> callback, the abstract lifecycle \<open>phase\<close> with its
    successor, and the report invariant \<open>wf_report\<close>.
  \<^item> \<open>State\<close>: the application state \<open>app\<close> (lines 4--14) with the page's
    settings controls, the \<open>localStorage\<close> entry (\<open>stored\<close>, JSON values
    \<open>json\<close>), the timer queue of \<open>setTimeout\<close> (ordered by due time, FIFO among
    equal times), the clock, the notifications and the part of the page the
    stakeholder views change (\<open>page_dom\<close>).
  \<^item> \<open>Store\<close>: \<open>saveToLocalStorage\<close>, \<open>getSettings\<close>, \<open>loadFromLocalStorage\<close>,
    \<open>applySettings\<close> (lines 688--790) with \<open>JSON.stringify\<close> as the
    \<open>json_of_\<close> encoders and the reading back as decoders; \<open>stored_view\<close> is what
    survives a round trip (a function-valued \<open>assignedTo\<close> is dropped).
  \<^item> \<open>Schema\<close>: the entry's format as a type (\<open>jty\<close>, the executable typing
    \<open>has_ty\<close>, the schema \<open>snapshot_ty\<close>): the writer's output is well-typed and
    the reader is total on the type.
  \<^item> \<open>Stakeholders\<close>: \<open>displayStakeholders\<close>, \<open>updateStakeholderMatrix\<close> and
    \<open>showStakeholderTooltip\<close> (lines 597--639): listeners on the dots, tooltip
    elements and their 2000 ms removal timers.
  \<^item> \<open>Geo\<close>: \<open>getCurrentLocation\<close> (lines 315--333) with the browser's answer
    as \<open>geo_outcome\<close>, \<open>toFixed(6)\<close> as \<open>to_fixed6\<close> and the reader
    \<open>parse_location\<close> of the text it writes into the form.
  \<^item> \<open>ServiceWorker\<close>: \<open>setupOfflineCapabilities\<close> (lines 641--655) and the
    top-level \<open>load\<close> listener (lines 1074--1117) on the list of registered
    scripts, and the inline worker's \<open>install\<close> and \<open>fetch\<close> listeners
    (\<open>sw_install\<close>, \<open>sw_fetch\<close>) over the Cache API as ordered association
    lists (\<open>caches_open\<close>, \<open>cache_addAll\<close>, \<open>caches_match\<close>).
  \<^item> \<open>App\<close>: the handlers \<open>submitReport\<close>, \<open>updateReportStatus\<close>,
    \<open>simulateResolution\<close> with its callbacks (each finds its report by id when it
    fires), \<open>saveDraft\<close>, \<open>registerUser\<close>, the settings listeners,
    \<open>updateOnlineStatus\<close>, \<open>generateMockData\<close>, \<open>navigateToSection\<close> (whose
    stakeholders section adds a listener to each dot), the dot \<open>mouseover\<close> and the
    start-up \<open>app_init\<close>; \<open>updateDashboard\<close> (lines 456--477) sorts
    \<open>this.reports\<close> in place, newest first, through \<open>updateRecentActivity\<close>
    (\<open>newest_first\<close>, a stable sort as \<open>Array.prototype.sort\<close> is), and it is
    called by status updates, start-up and the dashboard section; the run is the relation \<open>app_step\<close> (a user event at a
    time no earlier than the clock, the firing of the first due timer, a reload or
    a logout) and \<open>reachable\<close> its closure from a browser with no saved data.
  \<^item> \<open>Invariants\<close>: \<open>app_inv\<close> (well-formed reports with distinct ids, a timer
    queue whose pending \<open>under-review\<close> updates target reports still
    \<open>submitted\<close> and fire before their simulation callback, a stored snapshot
    that reads back as the state) and its preservation by every step
    (\<open>reachable_app_inv\<close>, by rule induction).
  \<^item> \<open>Queries\<close>: \<open>getFilteredReports\<close> (lines 426--449) with its specification
    \<open>shown\<close>, the counts of \<open>updateDashboard\<close> (lines 456--461), and the display
    helpers \<open>formatStatus\<close>, \<open>formatCategory\<close>, \<open>formatPriority\<close> and
    \<open>getTimeAgo\<close> (lines 938--977), with the one-pass specification \<open>title_case\<close>.
  \<^item> \<open>Render\<close>: the HTML strings \<open>displayReports\<close> (lines 355--424) and
    \<open>updateRecentActivity\<close> (lines 471--496) write to \<open>innerHTML\<close>, with
    \<open>formatDate\<close> as a parameter, and the data of \<open>createCategoryChart\<close>
    (lines 559--571) counted in a plain object with its inherited members and
    the key order of \<open>Object.keys\<close>; the element of \<open>showNotification\<close>
    (\<open>notification_element\<close>, lines 892--913) with its \<open>icons[type]\<close> lookup.
  \<^item> \<open>Ids\<close>: \<open>generateId\<close> (lines 933--935) with the random part as an input
    and \<open>Date.now().toString(36)\<close> as \<open>base36\<close>, read back by \<open>value36\<close>: ids
    made at different times with a full random part differ
    (\<open>Ids.generateId_distinct\<close>), the freshness the run assumes.
  \<^item> this theory: the properties that span components, stated on
    \<open>reachable\<close> states and on concrete runs from \<open>demo_start\<close>, the state after
    start-up at time 0 with the demonstration ids \<open>a\<close> and \<open>b\<close>.

  \<^bold>\<open>Properties.\<close> Submission of the specification's scenario (C1); the lifecycle
  only moves forward and the status is the last lifecycle entry of the timeline
  and timelines start with \<open>submitted\<close> in every reachable state (C2); the stored snapshot always reads back as the state (C4), a
  reload restores it (C5), every snapshot written has the entry's schema type
  (C3) (and the model's reader accepts every value of that type,
  \<open>Schema.typed_snapshot_loads\<close>); the simulation schedules one callback per pending
  report (C7) and its callback refines the abstract successor (C10, C30); the
  timer queue drains without user events (C38, termination by the weight
  \<open>timer_weight\<close>) and then no stakeholder tooltip is left (C13); the category
  chart counts each category (C11); routing implements the specification's table
  (C8); a found location is stored as printed and reads back as the rounded
  coordinates (C9), and without a position the form is left alone with one error
  notification (C21); validation (C12, C14), sanitisation (C15--C17), the
  settings round trip (C24, C25) and the error paths (C20, C22, C28); a report
  routed to an inherited member comes back unassigned after a reload (C19);
  \<open>generateId\<close> separates ids made at different times (C26); in every reachable
  state a pending status update fires before the report's simulation callback
  (C27); the simulation timer is set once per page load (C31); drafts (C29); the
  report filter refines its specification and sorts stably (C32), the dashboard
  counts partition the reports in every reachable state (C34), \<open>formatStatus\<close>
  is equivalent to a one-pass specification (C35) and \<open>getTimeAgo\<close> says
  \<open>Just now\<close> exactly under a minute (C37); start-up without usable saved data
  (C39) and the staggering of the simulation callbacks (C40). Report ids stay
  distinct in every reachable state (\<open>reachable_distinct_ids\<close>), but only as a
  consequence of the freshness the run assumes.

  \<^bold>\<open>What the model shows of the code.\<close> After a submission the status is
  \<open>submitted\<close> while the last timeline entry is \<open>routed\<close> (C6); the categories
  \<open>constructor\<close> and \<open>toString\<close> route to inherited functions, which
  \<open>JSON.stringify\<close> then drops (\<open>Route.route_proto_member\<close>, C19); validation runs on the unsanitised
  text, so a title made of a script element is accepted and stored empty (C14);
  the single-pass sanitiser can leave a complete script element behind, for
  every script body without \<open><\<close> (C16);
  \<open>applySettings\<close> never turns a control off (C25); the anonymous box does not
  change \<open>submittedBy\<close> (C23); a status outside the lifecycle advances to
  \<open>under-review\<close> (C10); \<open>simulateResolution\<close> is scheduled once per page load,
  so each pending report advances at most one phase per load (C31); \<open>updateDashboard\<close>
  reorders the report array without saving, so the stored order may lag (C4,
  C5); titles are written to \<open>innerHTML\<close> unescaped, so markup that the
  sanitiser keeps reaches the page (C36), and the notification of a resolved
  report quotes its title the same way (C18); and the chart's plain object drops a
  \<open>__proto__\<close> category and turns \<open>constructor\<close> into a string
  (\<open>Render.chart_prototype_keys\<close>); the stakeholder dots gather one more
  \<open>mouseover\<close> listener per visit of the section, so a hover shows as many
  tooltips as visits (C33); \<open>toFixed\<close> prints a coordinate just below zero as
  \<open>-0.000000\<close> (\<open>Geo.to_fixed6_negative_zero\<close>); the inline service worker is
  registered from a \<open>blob:\<close> URL, which \<open>register\<close> refuses
  (\<open>ServiceWorker.inline_worker_never_registered\<close>), so its listeners, modelled
  in \<open>ServiceWorker\<close>, never run in the browser; were they to run, one failed start-up URL
  discards the worker (\<open>ServiceWorker.sw_install_failed\<close>), and with no
  \<open>activate\<close> handler an older cache keeps answering first
  (\<open>ServiceWorker.stale_cache_first\<close>).

  \<^bold>\<open>Bounds and fuel.\<close> There is no fuel: every loop of the program is a
  structural recursion (\<open>map\<close>, \<open>filter\<close>, \<open>forEach\<close>) or the sanitiser's scan,
  which terminates by a measure. Runs use \<open>fire_next\<close>, which fires the
  first due timer; \<open>timer_weight s\<close> firings empty the queue (C38): one per timer plus, for the
  timer of \<open>simulateResolution\<close>, one per report it may schedule a callback for.

  \<^bold>\<open>Assumptions of the model.\<close> \<open>generateId()\<close> is random: a submitted
  report's id is taken fresh and the two demonstration ids distinct (\<open>Ids\<close>
  shows this for ids made at different times with a full random part). A time is
  the millisecond value of its ISO string. Strings are lists of the 256
  characters of \<open>char\<close>: \<open>trim\<close> removes the white space among them (U+00A0
  included); characters beyond U+00FF, such as U+FEFF or U+2028, are outside the
  model. Key order of JSON objects is not kept.
  The page has the dashboard's elements (\<open>updateDashboard\<close> writes to them
  without a null check, so without them it throws before the sort). HTML is
  modelled without the white space between tags of the templates. The target
  of a dot's \<open>mouseover\<close> is the dot itself. A coordinate is an exact integer
  count of \<open>10\<^sup>-\<^sup>9\<close> degrees (the double the browser reports is not modelled),
  and the geolocation callback runs before the next user event. The browser's
  \<open>register\<close> accepts an \<open>http\<close> or \<open>https\<close> script it can fetch, \<open>addAll\<close>
  stores all responses or none, and an installed worker without an
  \<open>activate\<close> handler is active (Service Worker and Fetch specifications).

  \<^bold>\<open>Not modelled.\<close> The class toggles of navigation and settings, the
  Chart.js drawing and \<open>createResolutionChart\<close> (its data are \<open>Math.random()\<close>),
  the 5-second removal timer and the close button of a notification element (they
  only remove the element; the timer would add a task to every handler's queue
  and change no other state),
  the console logging of the service-worker promises, the tooltips' position and style, the fields \<open>analytics\<close> and
  \<open>stakeholders\<close> (written once, never read), \<open>formatDate\<close> (it depends on the browser's locale; a parameter of
  the rendering).
\<close>

section \<open>Scenarios and runs\<close>

definition pothole_form :: report_form where
  "pothole_form =
     \<lparr>issueTitle = ''Pothole on Oak St'', issueCategory = ''infrastructure'',
      form_priority = ''medium'', form_location = [],
      form_description = ''A large pothole has formed near the school crossing.'',
      form_files = [], publicReport = True, anonymousReport = False\<rparr>"

definition blank_page :: settings where
  "blank_page = \<lparr>highContrast = False, largeText = False, screenReader = False, language = [],
                 emailNotifications = False, smsNotifications = False\<rparr>"

definition demo_start :: app where
  "demo_start = projr (app_init True blank_page None ''a'' ''b'' 0)"

definition fire_next :: "app \<Rightarrow> app" where
  "fire_next s = (case timers s of [] \<Rightarrow> s | tm # rest \<Rightarrow> fire_timer tm rest s)"

text \<open>The number of pending \<open>simulateResolution\<close> timers.\<close>

definition sim_runs :: "app \<Rightarrow> nat" where
  "sim_runs s = count_list (map task (timers s)) RunSimulation"

text \<open>
  The weight of the timer queue: one per timer, and for the timer of
  \<open>simulateResolution\<close> one more per report, since it may schedule a callback for
  each. Firing a timer never adds a report, so every firing makes it smaller.
\<close>

definition tm_weight :: "nat \<Rightarrow> timer \<Rightarrow> nat" where
  "tm_weight n tm = 1 + (if task tm = RunSimulation then n else 0)"

definition timer_weight :: "app \<Rightarrow> nat" where
  "timer_weight s = sum_list (map (tm_weight (length (reports s))) (timers s))"

text \<open>Every tooltip on the page has a pending removal timer.\<close>

definition tooltips_ok :: "app \<Rightarrow> bool" where
  "tooltips_ok s \<longleftrightarrow> (\<forall>t\<in>set (tooltips (dom s)). RemoveTooltip (fst t) \<in> task ` set (timers s))"

text \<open>The demonstration state after opening the stakeholders section once and hovering a dot.\<close>

definition hover_demo :: app where
  "hover_demo = handle_event (HoverDot ''Citizens'') (handle_event (Navigate ''stakeholders'') demo_start)"

definition img_form :: report_form where
  "img_form = pothole_form\<lparr>issueTitle := ''<img src=x onerror=alert(1)>''\<rparr>"

definition proto_form :: report_form where
  "proto_form = pothole_form\<lparr>issueCategory := ''constructor''\<rparr>"


lemma pothole_valid:
  "isValid (validateReportData (collectReportData rid t off cu pothole_form))"
  by (simp add: pothole_form_def validation_errors_def js_trim_def js_whitespace_def)

lemma demo_start_init: "app_init True blank_page None ''a'' ''b'' 0 = Inr demo_start"
  by (simp add: demo_start_def app_init_def loadFromLocalStorage_def updateOnlineStatus_def
      generateMockData_def Let_def)

lemma reachable_demo_start: "reachable demo_start"
  by (rule reachable.start [OF _ demo_start_init]) simp

lemma newest_first_mock [simp]: "newest_first (mock_reports id1 id2 t) = mock_reports id1 id2 t"
  by (simp add: newest_first_def mock_reports_def day_ms_def)

lemma demo_start_fields:
  "reports demo_start = mock_reports ''a'' ''b'' 0" "clock demo_start = 0"
  "isOffline demo_start = False" "currentUser demo_start = None"
  by (simp_all add: demo_start_def app_init_def loadFromLocalStorage_def updateOnlineStatus_def
      generateMockData_def setTimeout_def Let_def)

lemma demo_start_timers:
  "timers demo_start = [\<lparr>due = 1000, task = ShowRegistration\<rparr>, \<lparr>due = 5000, task = RunSimulation\<rparr>]"
  by (simp add: demo_start_def app_init_def loadFromLocalStorage_def updateOnlineStatus_def
      generateMockData_def setTimeout_def Let_def)

lemma reachable_fire_next: "reachable s \<Longrightarrow> reachable (fire_next s)"
  by (cases "timers s") (auto simp: fire_next_def intro: reachable.step app_step.fire)

lemma reachable_fire_iter: "reachable s \<Longrightarrow> reachable ((fire_next ^^ n) s)"
  by (induction n) (simp_all add: reachable_fire_next)

lemma reachable_reports_inv: "reachable s \<Longrightarrow> reports_inv (reports s)"
  using reachable_app_inv by (simp add: app_inv_def)

lemma count_insert_timer:
  "count_list (map task (insert_timer t ts)) x = count_list (map task ts) x + (if task t = x then 1 else 0)"
  by (induction ts) auto

lemma count_schedule_sim:
  "count_list (map task (timers (schedule_sim k xs s))) x =
     count_list (map task (timers s)) x + count_list (map (\<lambda>r. SimCallback (report_id r)) xs) x"
  by (induction xs arbitrary: k s) (auto simp: setTimeout_def count_insert_timer)

lemma count_list_distinct: "distinct xs \<Longrightarrow> count_list xs x = (if x \<in> set xs then 1 else 0)"
  by (induction xs) auto

lemma reachable_submit:
  "reachable s \<Longrightarrow> rid \<notin> report_id ` set (reports s) \<Longrightarrow> reachable (submitReport rid f s)"
  using app_step.submit [of s "clock s" rid f] by (simp add: reachable.step)

lemma reachable_submit_demo: "reachable (submitReport ''r1'' pothole_form demo_start)"
  by (rule reachable_submit [OF reachable_demo_start]) (simp add: demo_start_fields mock_reports_def)

lemma init_no_data:
  assumes "st \<in> {None, Some Unparsable, Some (Parsed JNull)}"
  shows "loadFromLocalStorage (updateOnlineStatus online
            \<lparr>currentUser = None, isOffline = False, reports = [], drafts = [],
             page_settings = p0, storage = st, timers = [], clock = t, notices = [],
             modal_shown = False, dom = blank_dom\<rparr>) =
         Inr (updateOnlineStatus online
            \<lparr>currentUser = None, isOffline = False, reports = [], drafts = [],
             page_settings = p0, storage = st, timers = [], clock = t, notices = [],
             modal_shown = False, dom = blank_dom\<rparr>)"
  using assms by (auto simp: loadFromLocalStorage_def updateOnlineStatus_def)

lemma insert_timer_last:
  "\<forall>u\<in>set ts. due u \<le> due t \<Longrightarrow> insert_timer t ts = ts @ [t]"
  by (induction ts) auto

lemma schedule_sim_staggered:
  "\<forall>u\<in>set (timers s). due u \<le> clock s + int (Suc k) * 10000 \<Longrightarrow>
   timers (schedule_sim k xs s) =
     timers s @ map (\<lambda>(j, r). \<lparr>due = clock s + int (Suc j) * 10000, task = SimCallback (report_id r)\<rparr>)
                  (enumerate k xs)"
proof (induction xs arbitrary: k s)
  case Nil
  then show ?case by simp
next
  case (Cons r xs)
  let ?t = "\<lparr>due = clock s + int (Suc k) * 10000, task = SimCallback (report_id r)\<rparr>"
  let ?s1 = "setTimeout (SimCallback (report_id r)) (int (Suc k) * 10000) s"
  have t1: "timers ?s1 = timers s @ [?t]"
    using Cons.prems by (simp add: setTimeout_def insert_timer_last)
  have "\<forall>u\<in>set (timers ?s1). due u \<le> clock ?s1 + int (Suc (Suc k)) * 10000"
    using Cons.prems t1 by auto
  then have "timers (schedule_sim (Suc k) xs ?s1) =
      timers ?s1 @ map (\<lambda>(j, r). \<lparr>due = clock ?s1 + int (Suc j) * 10000, task = SimCallback (report_id r)\<rparr>)
        (enumerate (Suc k) xs)"
    by (rule Cons.IH)
  with t1 show ?case by simp
qed

lemma weight_insert_timer [simp]:
  "sum_list (map f (insert_timer t ts)) = f t + sum_list (map (f :: timer \<Rightarrow> nat) ts)"
  by (induction ts) (auto simp: add.left_commute)

lemma schedule_sim_weight:
  "sum_list (map (tm_weight n) (timers (schedule_sim k xs s))) =
   sum_list (map (tm_weight n) (timers s)) + length xs"
  by (induction xs arbitrary: k s) (simp_all add: setTimeout_def tm_weight_def)

lemma updateReportStatus_frame:
  "length (reports (updateReportStatus rid st d s)) = length (reports s) \<and>
   timers (updateReportStatus rid st d s) = timers s"
  by (simp add: updateReportStatus_def Let_def saveToLocalStorage_def showNotification_def
      split: option.splits)

lemma run_task_frame:
  "length (reports (run_task t s)) = length (reports s) \<and>
   (t \<noteq> RunSimulation \<longrightarrow> timers (run_task t s) = timers s)"
  by (cases t) (simp_all add: updateReportStatus_frame sim_callback_def simulateResolution_def
      split: option.splits)

lemma fire_timer_weight:
  "timer_weight (fire_timer tm rest s) < tm_weight (length (reports s)) tm +
     sum_list (map (tm_weight (length (reports s))) rest)"
proof (cases "task tm = RunSimulation")
  case True
  let ?s = "s\<lparr>timers := rest, clock := max (clock s) (due tm)\<rparr>"
  have "length (filter is_pending (reports s)) \<le> length (reports s)" by (rule length_filter_le)
  then show ?thesis using True
    by (simp add: fire_timer_def timer_weight_def simulateResolution_def schedule_sim_weight tm_weight_def
        less_Suc_eq_le)
next
  case False
  then show ?thesis using run_task_frame [of "task tm"]
    by (simp add: fire_timer_def timer_weight_def tm_weight_def)
qed

lemma fire_next_weight: "timers s \<noteq> [] \<Longrightarrow> timer_weight (fire_next s) < timer_weight s"
  using fire_timer_weight by (auto simp: fire_next_def timer_weight_def neq_Nil_conv)

lemma fire_next_idle: "timers s = [] \<Longrightarrow> (fire_next ^^ n) s = s"
  by (induction n) (simp_all add: fire_next_def)

lemma fire_drain_le: "timer_weight s \<le> n \<Longrightarrow> timers ((fire_next ^^ n) s) = []"
proof (induction n arbitrary: s)
  case 0
  then show ?case by (simp add: timer_weight_def tm_weight_def)
next
  case (Suc n)
  show ?case
  proof (cases "timers s = []")
    case True
    then show ?thesis by (simp only: fire_next_idle)
  next
    case False
    then have "timer_weight (fire_next s) \<le> n" using fire_next_weight [of s] Suc.prems by simp
    then show ?thesis unfolding funpow_Suc_right comp_apply by (rule Suc.IH)
  qed
qed

lemma tooltips_ok_mono:
  "tooltips_ok s \<Longrightarrow> tooltips (dom s') = tooltips (dom s) \<Longrightarrow> set (timers s) \<subseteq> set (timers s') \<Longrightarrow>
   tooltips_ok s'"
  by (fastforce simp: tooltips_ok_def)

lemma submit_tooltip_frame:
  "tooltips (dom (submitReport rid f s)) = tooltips (dom s) \<and>
   set (timers s) \<subseteq> set (timers (submitReport rid f s))"
  by (auto simp: submitReport_def Let_def)

lemma tooltips_ok_frame:
  "tooltips_ok s \<Longrightarrow> tooltips (dom s') = tooltips (dom s) \<Longrightarrow> set (timers s') = set (timers s) \<Longrightarrow>
   tooltips_ok s'"
  by (simp add: tooltips_ok_def)

lemma tooltips_ok_mouseover:
  assumes ok: "tooltips_ok s"
  shows "tooltips_ok (stakeholder_mouseover nm s)"
proof -
  let ?k = "dot_listeners (dom s)"
  let ?s' = "(showStakeholderTooltip nm ^^ ?k) s"
  note it = show_tooltip_iter [where nm = nm and k = ?k and s = s]
  have "RemoveTooltip (fst t) \<in> task ` set (timers ?s')" if t: "t \<in> set (tooltips (dom ?s'))" for t
  proof -
    from t it consider "t \<in> set (tooltips (dom s))"
      | j where "j < ?k" "t = (next_tooltip (dom s) + j, nm)" by auto
    then show ?thesis
    proof cases
      case 1
      with ok have "RemoveTooltip (fst t) \<in> task ` set (timers s)" by (simp add: tooltips_ok_def)
      with it show ?thesis by blast
    next
      case 2
      then have "\<lparr>due = clock s + 2000, task = RemoveTooltip (fst t)\<rparr> \<in> set (timers ?s')"
        using it by auto
      then show ?thesis by (rule rev_image_eqI) simp
    qed
  qed
  then show ?thesis by (simp add: tooltips_ok_def stakeholder_mouseover_def)
qed

lemma tooltips_ok_event:
  assumes ok: "tooltips_ok s"
  shows "tooltips_ok (handle_event e s)"
proof (cases e)
  case (Submit rid f)
  show ?thesis unfolding Submit using submit_tooltip_frame tooltips_ok_mono [OF ok] by simp
next
  case (SaveDraftEv rid f)
  show ?thesis unfolding SaveDraftEv
    by (rule tooltips_ok_frame [OF ok]) (simp_all add: saveDraft_def Let_def)
next
  case (Register uid f)
  show ?thesis unfolding Register
    by (rule tooltips_ok_frame [OF ok]) (simp_all add: registerUser_def Let_def)
next
  case (ChangeControl c)
  show ?thesis unfolding ChangeControl
    by (rule tooltips_ok_frame [OF ok]) (cases c; simp)+
next
  case (OnlineStatus b)
  show ?thesis unfolding OnlineStatus
    by (rule tooltips_ok_frame [OF ok]) (simp_all add: updateOnlineStatus_def)
next
  case CloseModal
  show ?thesis unfolding CloseModal by (rule tooltips_ok_frame [OF ok]) simp_all
next
  case (Navigate sec)
  show ?thesis unfolding Navigate
    by (rule tooltips_ok_frame [OF ok])
       (simp_all add: navigateToSection_def displayStakeholders_def updateStakeholderMatrix_def)
next
  case (HoverDot nm)
  show ?thesis unfolding HoverDot using ok by (simp add: tooltips_ok_mouseover)
qed

lemma schedule_sim_dom: "dom (schedule_sim k xs s) = dom s"
  by (induction xs arbitrary: k s) (simp_all add: setTimeout_def)

lemma schedule_sim_timers_mono: "set (timers s) \<subseteq> set (timers (schedule_sim k xs s))"
proof (induction xs arbitrary: k s)
  case (Cons r xs)
  let ?s1 = "setTimeout (SimCallback (report_id r)) (int (Suc k) * 10000) s"
  have "set (timers s) \<subseteq> set (timers ?s1)" by auto
  with Cons.IH [of ?s1 "Suc k"] show ?case by simp
qed simp

lemma updateReportStatus_dom: "dom (updateReportStatus rid st d s) = dom s"
  by (simp add: updateReportStatus_def Let_def split: option.split)

lemma run_task_tooltip_frame:
  "\<not> (\<exists>n. t = RemoveTooltip n) \<Longrightarrow>
   tooltips (dom (run_task t s)) = tooltips (dom s) \<and> set (timers s) \<subseteq> set (timers (run_task t s))"
  by (cases t) (simp_all add: updateReportStatus_dom updateReportStatus_frame sim_callback_def
      simulateResolution_def schedule_sim_dom schedule_sim_timers_mono split: option.split)

lemma tooltips_ok_fire:
  assumes ok: "tooltips_ok s" and tm: "timers s = tm # rest"
  shows "tooltips_ok (fire_timer tm rest s)"
proof (cases "\<exists>n. task tm = RemoveTooltip n")
  case True
  then obtain n where n: "task tm = RemoveTooltip n" by blast
  have "RemoveTooltip (fst t) \<in> task ` set rest" if "t \<in> set (tooltips (dom s))" "fst t \<noteq> n" for t
    using ok tm that n by (auto simp: tooltips_ok_def)
  with n show ?thesis by (auto simp: tooltips_ok_def fire_timer_def)
next
  case False
  let ?s1 = "s\<lparr>timers := rest, clock := max (clock s) (due tm)\<rparr>"
  have "RemoveTooltip (fst t) \<in> task ` set rest" if t: "t \<in> set (tooltips (dom s))" for t
  proof -
    from ok t tm have "RemoveTooltip (fst t) \<in> task ` set (tm # rest)" by (simp add: tooltips_ok_def)
    with False show ?thesis by (auto simp: image_iff) (metis)
  qed
  then have "tooltips_ok ?s1" by (simp add: tooltips_ok_def)
  moreover have "tooltips (dom (run_task (task tm) ?s1)) = tooltips (dom ?s1) \<and>
                 set (timers ?s1) \<subseteq> set (timers (run_task (task tm) ?s1))"
    using False by (intro run_task_tooltip_frame) simp
  ultimately show ?thesis unfolding fire_timer_def by (blast intro: tooltips_ok_mono)
qed

lemma load_dom: "loadFromLocalStorage s = Inr s' \<Longrightarrow> dom s' = dom s"
  by (auto simp: loadFromLocalStorage_def split: option.splits stored.splits json.splits prod.splits)

lemma generateMockData_dom: "dom (generateMockData id1 id2 s) = dom s"
  by (simp add: generateMockData_def Let_def)

lemma init_dom: "app_init online p0 st id1 id2 t = Inr s \<Longrightarrow> dom s = blank_dom"
  by (auto simp: app_init_def Let_def updateOnlineStatus_def generateMockData_dom
      dest!: load_dom split: sum.splits if_splits)

lemma tooltips_ok_init: "app_init online p0 st id1 id2 t = Inr s \<Longrightarrow> tooltips_ok s"
  by (simp add: tooltips_ok_def init_dom blank_dom_def)

lemma reachable_tooltips_ok: "reachable s \<Longrightarrow> tooltips_ok s"
proof (induction rule: reachable.induct)
  case (start id1 id2 online p0 t s)
  from start(2) show ?case by (rule tooltips_ok_init)
next
  case (step s s')
  from step.hyps(2) step.IH show ?case
  proof (cases rule: app_step.cases)
    case (submit t rid f)
    have "tooltips_ok (s\<lparr>clock := t\<rparr>)" using step.IH by (simp add: tooltips_ok_def)
    then show ?thesis using submit submit_tooltip_frame tooltips_ok_mono by metis
  next
    case (event t e)
    have "tooltips_ok (s\<lparr>clock := t\<rparr>)" using step.IH by (simp add: tooltips_ok_def)
    then show ?thesis using event by (simp add: tooltips_ok_event)
  next
    case (fire tm rest)
    then show ?thesis using step.IH by (simp add: tooltips_ok_fire)
  qed (auto intro: tooltips_ok_init)
qed

lemma navigate_stakeholders: "handle_event (Navigate ''stakeholders'') = displayStakeholders"
  by (rule ext) (simp add: navigateToSection_def)

lemma load_timers: "loadFromLocalStorage s = Inr s' \<Longrightarrow> timers s' = timers s"
  by (auto simp: loadFromLocalStorage_def split: option.splits stored.splits json.splits prod.splits)

lemma sim_runs_tooltips: "sim_runs ((showStakeholderTooltip nm ^^ k) s) = sim_runs s"
  by (induction k) (simp_all add: showStakeholderTooltip_def Let_def sim_runs_def setTimeout_def
      count_insert_timer)

lemma sim_runs_control: "sim_runs (change_control c s) = sim_runs s"
  by (cases c) (simp_all add: sim_runs_def saveToLocalStorage_def)

lemma sim_runs_event: "sim_runs (handle_event e s) = sim_runs s"
proof (cases e)
  case (HoverDot nm)
  then show ?thesis by (simp add: stakeholder_mouseover_def sim_runs_tooltips)
next
  case (ChangeControl c)
  then show ?thesis by (simp add: sim_runs_control)
qed (simp_all add: sim_runs_def submitReport_def saveDraft_def registerUser_def Let_def
      updateOnlineStatus_def navigateToSection_def displayStakeholders_def
      updateStakeholderMatrix_def setTimeout_def showNotification_def saveToLocalStorage_def
      count_insert_timer)

lemma sim_runs_run_task: "sim_runs (run_task t s) = sim_runs s"
  by (cases t) (auto simp: sim_runs_def updateReportStatus_frame sim_callback_def
      simulateResolution_def count_schedule_sim count_list_0_iff split: option.splits)

lemma sim_runs_init: "app_init online p0 st id1 id2 t = Inr s \<Longrightarrow> sim_runs s = 1"
  by (auto simp: app_init_def Let_def updateOnlineStatus_def generateMockData_def sim_runs_def
      setTimeout_def saveToLocalStorage_def count_insert_timer
      dest!: load_timers split: sum.splits if_splits)

text \<open>Reloading a reachable state with reports: the helper behind C5 and C19.\<close>

lemma reload_state:
  assumes "reachable s" and "reports s \<noteq> []"
  shows "\<exists>s'. app_init online p0 (storage s) id1 id2 t = Inr s' \<and>
              reports s' = newest_first (map stored_view (reports s)) \<and>
              drafts s' = map stored_view (drafts s) \<and> currentUser s' = currentUser s"
proof -
  let ?s1 = "updateOnlineStatus online
               \<lparr>currentUser = None, isOffline = False, reports = [], drafts = [],
                page_settings = p0, storage = storage s, timers = [], clock = t, notices = [],
                modal_shown = False, dom = blank_dom\<rparr>"
  have "stored_ok s" using reachable_app_inv [OF assms(1)] by (simp add: app_inv_def)
  then obtain rs where ss: "stored_state (storage s) = Some (rs, map stored_view (drafts s), currentUser s)"
    and so: "stored_order (map stored_view (reports s)) rs" by (blast dest: stored_ok_state)
  have "rs \<noteq> []" using stored_order_mset [OF so] assms(2) by auto
  moreover have "stored_state (storage ?s1) = Some (rs, map stored_view (drafts s), currentUser s)"
    using ss by (simp add: updateOnlineStatus_def)
  then obtain p where "loadFromLocalStorage ?s1 =
      Inr (?s1\<lparr>reports := rs, drafts := map stored_view (drafts s),
               currentUser := currentUser s, page_settings := p\<rparr>)"
    using load_stored by blast
  ultimately show ?thesis using stored_order_newest [OF so]
    by (simp add: app_init_def generateMockData_def Let_def updateOnlineStatus_def setTimeout_def)
qed

section \<open>Properties\<close>

text \<open>
  Claim C1. The specification's scenario: submitting the pothole report appends one report, routed to the Municipal Public Works Department, with status \<open>submitted\<close> and the timeline \<open>submitted\<close>, \<open>routed\<close>.
\<close>

theorem submit_pothole:
  "let s' = submitReport rid pothole_form s; r = last (reports s') in
     reports s' = reports s @ [r] \<and>
     assignedTo r = Some (Authority ''Municipal Public Works Department'') \<and>
     status r = ''submitted'' \<and> map te_status (timeline r) = [''submitted'', ''routed'']"
  using pothole_valid [of rid "clock s" "isOffline s" "currentUser s"]
  by (simp add: submitReport_def Let_def pothole_form_def route_authority_def lookup_rule_def
      routingRules_def)

text \<open>
  Claim C2. In every reachable state, each report's timeline starts with
  \<open>submitted\<close>, its lifecycle entries are lifecycle statuses of strictly increasing
  rank and its status is the last of them: the lifecycle never regresses.
\<close>

theorem reachable_status_monotone:
  assumes "reachable s" and "r \<in> set (reports s)"
  shows "timeline r \<noteq> [] \<and> te_status (hd (timeline r)) = ''submitted'' \<and>
         (\<exists>ps. those (map phase_of (lifecycle_entries r)) = Some ps \<and>
              sorted_wrt (<) (map phase_rank ps) \<and> status r = phase_name (last ps))"
  using reachable_app_inv [OF assms(1)] assms(2)
  by (auto simp: app_inv_def reports_inv_def wf_report_def split: option.splits)

theorem reachable_status_monotone_witness:
  "reachable demo_start \<and> hd (reports demo_start) \<in> set (reports demo_start) \<and>
   timeline (hd (reports demo_start)) \<noteq> [] \<and>
   te_status (hd (timeline (hd (reports demo_start)))) = ''submitted'' \<and>
   (\<exists>ps. those (map phase_of (lifecycle_entries (hd (reports demo_start)))) = Some ps \<and>
        sorted_wrt (<) (map phase_rank ps) \<and> status (hd (reports demo_start)) = phase_name (last ps))"
proof -
  have m: "hd (reports demo_start) \<in> set (reports demo_start)"
    by (simp add: demo_start_fields mock_reports_def)
  show ?thesis using reachable_status_monotone [OF reachable_demo_start m] reachable_demo_start m
    by blast
qed

text \<open>
  Claim C4. In every reachable state the stored snapshot reads back as the state's drafts
  and user, and as its reports or the reports they were last sorted from by
  \<open>updateDashboard\<close> (which sorts without saving), up to what
  \<open>JSON.stringify\<close> drops: every handler that changes the data saves.
\<close>

theorem reachable_persisted:
  "reachable s \<Longrightarrow>
   \<exists>rs. stored_state (storage s) = Some (rs, map stored_view (drafts s), currentUser s) \<and>
        (map stored_view (reports s) = rs \<or> map stored_view (reports s) = newest_first rs)"
  using reachable_app_inv by (auto simp: app_inv_def stored_ok_def stored_order_def)

theorem reachable_persisted_witness:
  "reachable demo_start \<and>
   (\<exists>rs. stored_state (storage demo_start) =
          Some (rs, map stored_view (drafts demo_start), currentUser demo_start) \<and>
        (map stored_view (reports demo_start) = rs \<or> map stored_view (reports demo_start) = newest_first rs))"
  using reachable_persisted [OF reachable_demo_start] reachable_demo_start by blast

text \<open>
  Claim C5. Reloading the page from a reachable state with reports starts without error and
  restores the saved drafts and current user, and the reports, newest first.
\<close>

theorem reload_restores:
  assumes "reachable s" and "reports s \<noteq> []"
  shows "\<exists>s'. app_init online p0 (storage s) id1 id2 t = Inr s' \<and>
              reports s' = newest_first (map stored_view (reports s)) \<and>
              drafts s' = map stored_view (drafts s) \<and> currentUser s' = currentUser s"
  by (rule reload_state [OF assms])

theorem reload_restores_witness:
  "reachable demo_start \<and> reports demo_start \<noteq> [] \<and>
   (\<exists>s'. app_init True blank_page (storage demo_start) ''c'' ''d'' 9 = Inr s' \<and>
         reports s' = newest_first (map stored_view (reports demo_start)) \<and>
         drafts s' = map stored_view (drafts demo_start) \<and> currentUser s' = currentUser demo_start)"
proof -
  have ne: "reports demo_start \<noteq> []" by (simp add: demo_start_fields mock_reports_def)
  show ?thesis
    using reload_restores [OF reachable_demo_start ne, of True blank_page "''c''" "''d''" 9]
      reachable_demo_start ne by blast
qed

text \<open>
  Claim C6. A successful submission leaves the status \<open>submitted\<close> while the last timeline entry is \<open>routed\<close>: the status is not the status of the last timeline entry.
\<close>

theorem submit_status_not_last_entry:
  assumes "isValid (validateReportData (collectReportData rid (clock s) (isOffline s) (currentUser s) f))"
  shows "let r = last (reports (submitReport rid f s)) in
           status r = ''submitted'' \<and> te_status (last (timeline r)) = ''routed''"
  using assms by (simp add: submitReport_def Let_def)

theorem submit_status_not_last_entry_witness:
  "isValid (validateReportData (collectReportData ''r1'' 0 False None pothole_form)) \<and>
   (let r = last (reports (submitReport ''r1'' pothole_form demo_start)) in
      status r = ''submitted'' \<and> te_status (last (timeline r)) = ''routed'')"
proof -
  have v: "isValid (validateReportData (collectReportData ''r1'' 0 False None pothole_form))"
    by (rule pothole_valid)
  show ?thesis
    using v submit_status_not_last_entry [of "''r1''" demo_start pothole_form] demo_start_fields
    by simp
qed

text \<open>
  Claim C7. With distinct ids, \<open>simulateResolution\<close> schedules exactly one callback for
  each pending report and none for the others.
\<close>

theorem simulate_one_callback_each:
  assumes "distinct (map report_id (reports s))"
  shows "count_list (map task (timers (simulateResolution s))) (SimCallback rid) =
           count_list (map task (timers s)) (SimCallback rid) +
           (if \<exists>r\<in>set (reports s). report_id r = rid \<and> is_pending r then 1 else 0)"
proof -
  let ?ps = "filter is_pending (reports s)"
  have inj: "inj SimCallback" by (auto intro: injI)
  have d: "distinct (map report_id ?ps)" using assms by (simp add: distinct_map_filter)
  have "count_list (map (\<lambda>r. SimCallback (report_id r)) ?ps) (SimCallback rid) =
        count_list (map SimCallback (map report_id ?ps)) (SimCallback rid)"
    by (simp only: map_map comp_def)
  also have "\<dots> = count_list (map report_id ?ps) rid" by (rule count_list_map_conv [OF inj])
  also have "\<dots> = (if \<exists>r\<in>set (reports s). report_id r = rid \<and> is_pending r then 1 else 0)"
    using count_list_distinct [OF d] by auto
  finally show ?thesis by (simp add: simulateResolution_def count_schedule_sim)
qed

theorem simulate_one_callback_each_witness:
  "distinct (map report_id (reports demo_start)) \<and>
   count_list (map task (timers (simulateResolution demo_start))) (SimCallback ''a'') =
     count_list (map task (timers demo_start)) (SimCallback ''a'') +
     (if \<exists>r\<in>set (reports demo_start). report_id r = ''a'' \<and> is_pending r then 1 else 0)"
proof -
  have d: "distinct (map report_id (reports demo_start))"
    by (simp add: demo_start_fields mock_reports_def)
  show ?thesis using d simulate_one_callback_each [OF d, of "''a''"] by simp
qed

text \<open>
  \<open>updateReportStatus\<close> on an id that no report has changes nothing.
\<close>

theorem update_missing_noop:
  "rid \<notin> report_id ` set (reports s) \<Longrightarrow> updateReportStatus rid st d s = s"
proof -
  assume "rid \<notin> report_id ` set (reports s)"
  then have "find (\<lambda>r. report_id r = rid) (reports s) = None" by (auto simp: find_None_iff)
  then show ?thesis by (simp add: updateReportStatus_def)
qed

text \<open>
  Claim C22. A submission that fails validation changes no report, no timer and nothing stored, and shows one error notification listing the failed checks.
\<close>

theorem submit_invalid_rejected:
  assumes "\<not> isValid (validateReportData (collectReportData rid (clock s) (isOffline s) (currentUser s) f))"
  shows "let s' = submitReport rid f s in
           reports s' = reports s \<and> storage s' = storage s \<and> timers s' = timers s \<and>
           notices s' = notices s @ [\<lparr>ntype = ''error'', ntitle = ''Validation Error'',
             nmessage = js_join '', ''
               (validation_errors (collectReportData rid (clock s) (isOffline s) (currentUser s) f))\<rparr>]"
  using assms by (simp add: submitReport_def validateReportData_def showNotification_def Let_def)

theorem submit_invalid_rejected_witness:
  "\<not> isValid (validateReportData (collectReportData ''r1'' 0 False None (sample_form ''Hole'' ''other'' ''short''))) \<and>
   (let s' = submitReport ''r1'' (sample_form ''Hole'' ''other'' ''short'') demo_start in
      reports s' = reports demo_start \<and> storage s' = storage demo_start \<and> timers s' = timers demo_start \<and>
      notices s' = notices demo_start @ [\<lparr>ntype = ''error'', ntitle = ''Validation Error'',
        nmessage = js_join '', ''
          (validation_errors (collectReportData ''r1'' 0 False None (sample_form ''Hole'' ''other'' ''short'')))\<rparr>])"
proof -
  have v: "\<not> isValid (validateReportData (collectReportData ''r1'' 0 False None (sample_form ''Hole'' ''other'' ''short'')))"
    by (simp add: sample_form_def validation_errors_def js_trim_def js_whitespace_def)
  show ?thesis
    using v submit_invalid_rejected [of "''r1''" demo_start "sample_form ''Hole'' ''other'' ''short''"]
      demo_start_fields by simp
qed

text \<open>
  Report ids stay distinct in every reachable state; the run takes each new
  report's id to be fresh, so this is a consequence of that assumption.
\<close>

lemma reachable_distinct_ids: "reachable s \<Longrightarrow> distinct (map report_id (reports s))"
  using reachable_reports_inv by (simp add: reports_inv_def)

text \<open>
  Claim C27. Timer order: in every reachable state a pending status update of a
  report sets \<open>under-review\<close>, is due within 2000 ms of the clock, targets a
  report that is still \<open>submitted\<close>, and fires before every pending simulation
  callback of the same report.
\<close>

theorem status_update_before_callback:
  assumes "reachable s" and "tm \<in> set (timers s)" and "task tm = StatusUpdate rid st d"
  shows "st = ''under-review'' \<and> due tm \<le> clock s + 2000 \<and>
         (\<exists>r\<in>set (reports s). report_id r = rid \<and> status r = ''submitted'') \<and>
         (\<forall>tm'\<in>set (timers s). task tm' = SimCallback rid \<longrightarrow> due tm < due tm')"
proof -
  have "timers_inv (reports s) (clock s) (timers s)"
    using reachable_app_inv [OF assms(1)] by (simp add: app_inv_def)
  then have "timer_ok (reports s) (clock s) (timers s) tm" using assms(2) by (simp add: timers_inv_def)
  then show ?thesis using assms(3) by (simp add: timer_ok_def)
qed

theorem status_update_before_callback_witness:
  "reachable (submitReport ''r1'' pothole_form demo_start) \<and>
   \<lparr>due = 2000, task = StatusUpdate ''r1'' ''under-review'' under_review_description\<rparr>
     \<in> set (timers (submitReport ''r1'' pothole_form demo_start)) \<and>
   (\<exists>r\<in>set (reports (submitReport ''r1'' pothole_form demo_start)).
      report_id r = ''r1'' \<and> status r = ''submitted'')"
proof -
  have m: "\<lparr>due = 2000, task = StatusUpdate ''r1'' ''under-review'' under_review_description\<rparr>
     \<in> set (timers (submitReport ''r1'' pothole_form demo_start))"
    using pothole_valid [of "''r1''" 0 False None]
    by (simp add: submitReport_def Let_def setTimeout_def demo_start_timers demo_start_fields
        showNotification_def navigateToSection_def)
  show ?thesis
    using status_update_before_callback [OF reachable_submit_demo m] reachable_submit_demo m by simp
qed

text \<open>
  Claim C28. Registration sets and saves the user exactly when both name and email are given; otherwise the user and the stored snapshot are unchanged.
\<close>

theorem register_requires_name_email:
  "currentUser (registerUser uid f s) =
     (if regName f = [] \<or> regEmail f = [] then currentUser s
      else Some \<lparr>user_id = uid, name = regName f, email = regEmail f, phone = regPhone f,
                 user_location = regLocation f, registeredAt = clock s, isVerified = True\<rparr>) \<and>
   storage (registerUser uid f s) =
     (if regName f = [] \<or> regEmail f = [] then storage s
      else Some (Parsed (snapshot (s\<lparr>currentUser := currentUser (registerUser uid f s)\<rparr>))))"
  by (simp add: registerUser_def Let_def showNotification_def saveToLocalStorage_def)

text \<open>
  Claim C29. Saving a draft appends a draft flagged \<open>isDraft\<close>, with \<open>savedAt\<close> and no assignment, leaves the reports and timers alone and saves.
\<close>

theorem save_draft_not_submitted:
  "let s' = saveDraft rid f s; d = last (drafts s') in
     reports s' = reports s \<and> butlast (drafts s') = drafts s \<and> isDraft d \<and>
     savedAt d = Some (clock s) \<and> assignedTo d = None \<and> timers s' = timers s \<and>
     stored_state (storage s') =
       Some (map stored_view (reports s), map stored_view (drafts s'), currentUser s)"
  by (simp add: saveDraft_def Let_def showNotification_def)

text \<open>
  Claim C30. The \<open>simulateResolution\<close> callback for a report with a lifecycle status
  replaces exactly that report by its abstract successor, with the matching
  description, leaving the others as they are (as a multiset: the dashboard then
  re-sorts the array); on a \<open>resolved\<close> report it changes nothing at all.
\<close>

theorem sim_callback_refines:
  assumes "distinct (map report_id (reports s))" and "r \<in> set (reports s)"
    and "phase_of (status r) = Some p"
  shows "case phase_succ p of
           None \<Rightarrow> sim_callback (report_id r) s = s
         | Some q \<Rightarrow> mset (reports (sim_callback (report_id r) s)) =
             mset (reports s) - {#r#} +
             {#set_status (phase_name q) (sim_description (phase_name q)) (clock s) r#}"
proof -
  have fnd: "find (\<lambda>x. report_id x = report_id r) (reports s) = Some r"
    using find_id_mem [OF assms(1,2)] .
  have "sim_next (status r) = map_option phase_name (phase_succ p)"
    using assms(3) phase_of_Some sim_next_phase_name by metis
  with fnd show ?thesis
    by (cases "phase_succ p")
       (simp_all add: sim_callback_def updateReportStatus_found(1) mset_update_first)
qed

theorem sim_callback_refines_witness:
  "distinct (map report_id (reports demo_start)) \<and> hd (reports demo_start) \<in> set (reports demo_start) \<and>
   phase_of (status (hd (reports demo_start))) = Some PInProgress \<and>
   mset (reports (sim_callback ''a'' demo_start)) =
     mset (reports demo_start) - {#hd (reports demo_start)#} +
     {#set_status ''resolved'' (sim_description ''resolved'') 0 (hd (reports demo_start))#}"
proof -
  have h: "distinct (map report_id (reports demo_start))" "hd (reports demo_start) \<in> set (reports demo_start)"
    "phase_of (status (hd (reports demo_start))) = Some PInProgress"
    by (simp_all add: demo_start_fields mock_reports_def phase_of_def)
  have i: "report_id (hd (reports demo_start)) = ''a''" by (simp add: demo_start_fields mock_reports_def)
  show ?thesis using h sim_callback_refines [OF h] i by (simp add: demo_start_fields)
qed


text \<open>
  Claim C31. The simulation runs once per page load: start-up (and every reload)
  schedules exactly one \<open>simulateResolution\<close> timer, no user event adds or
  removes one, and firing a timer never schedules another, the simulation timer
  itself leaving the queue when it fires. So each pending report gets at most
  one simulation callback per load.
\<close>

theorem simulation_once_per_load:
  "(app_init online p0 st id1 id2 t = Inr s0 \<longrightarrow> sim_runs s0 = 1) \<and>
   sim_runs (handle_event e s) = sim_runs s \<and>
   (timers s = tm # rest \<longrightarrow>
      sim_runs (fire_timer tm rest s) = sim_runs s - (if task tm = RunSimulation then 1 else 0))"
proof (intro conjI impI)
  show "app_init online p0 st id1 id2 t = Inr s0 \<Longrightarrow> sim_runs s0 = 1" by (rule sim_runs_init)
  show "sim_runs (handle_event e s) = sim_runs s" by (rule sim_runs_event)
  assume "timers s = tm # rest"
  then show "sim_runs (fire_timer tm rest s) = sim_runs s - (if task tm = RunSimulation then 1 else 0)"
    using sim_runs_run_task [of "task tm" "s\<lparr>timers := rest, clock := max (clock s) (due tm)\<rparr>"]
    by (simp add: fire_timer_def sim_runs_def)
qed

theorem simulation_once_per_load_witness:
  "app_init True blank_page None ''a'' ''b'' 0 = Inr demo_start \<and> sim_runs demo_start = 1 \<and>
   sim_runs (handle_event (Navigate ''dashboard'') demo_start) = 1 \<and>
   timers demo_start = [\<lparr>due = 1000, task = ShowRegistration\<rparr>, \<lparr>due = 5000, task = RunSimulation\<rparr>] \<and>
   sim_runs (fire_timer \<lparr>due = 1000, task = ShowRegistration\<rparr> [\<lparr>due = 5000, task = RunSimulation\<rparr>] demo_start) = 1"
proof -
  have i: "app_init True blank_page None ''a'' ''b'' 0 = Inr demo_start" by (rule demo_start_init)
  have r: "sim_runs demo_start = 1" by (simp add: sim_runs_def demo_start_timers)
  show ?thesis
    using simulation_once_per_load [of True blank_page None "''a''" "''b''" 0 demo_start
        "Navigate ''dashboard''" demo_start "\<lparr>due = 1000, task = ShowRegistration\<rparr>"
        "[\<lparr>due = 5000, task = RunSimulation\<rparr>]"] i r demo_start_timers
    by simp
qed

text \<open>
  Claim C34. In every reachable state the dashboard's resolved and pending counts
  add up to the total: every report has one of the four lifecycle statuses.
\<close>

theorem dashboard_partition:
  "reachable s \<Longrightarrow> (case dashboard_counts (reports s) of (n, nr, np) \<Rightarrow> nr + np = n)"
proof -
  assume "reachable s"
  then have "\<forall>r\<in>set (reports s). phase_of (status r) \<noteq> None"
    using reachable_reports_inv wf_report_phase by (fastforce simp: reports_inv_def)
  then show ?thesis by (rule dashboard_counts_partition)
qed

theorem dashboard_partition_witness:
  "reachable demo_start \<and> dashboard_counts (reports demo_start) = (2, 1, 1) \<and>
   (case dashboard_counts (reports demo_start) of (n, nr, np) \<Rightarrow> nr + np = n)"
proof -
  have c: "dashboard_counts (reports demo_start) = (2, 1, 1)"
    by (simp add: demo_start_fields mock_reports_def dashboard_counts_def is_pending_def
        pending_statuses_def)
  show ?thesis using dashboard_partition [OF reachable_demo_start] reachable_demo_start c by simp
qed

text \<open>
  Claim C39. Start-up without usable saved data (no entry, text that is not JSON,
  or \<open>null\<close>) succeeds with the two demonstration reports, no drafts and no
  user, saves them over the unusable entry, and schedules the registration modal
  at 1000 ms and the simulation at 5000 ms.
\<close>

theorem init_without_saved_data:
  assumes "st \<in> {None, Some Unparsable, Some (Parsed JNull)}"
  shows "\<exists>s. app_init online p0 st id1 id2 t = Inr s \<and>
             reports s = mock_reports id1 id2 t \<and> drafts s = [] \<and> currentUser s = None \<and>
             isOffline s = (\<not> online) \<and>
             timers s = [\<lparr>due = t + 1000, task = ShowRegistration\<rparr>, \<lparr>due = t + 5000, task = RunSimulation\<rparr>] \<and>
             stored_state (storage s) = Some (map stored_view (mock_reports id1 id2 t), [], None)"
  using init_no_data [OF assms, of online p0 t]
  by (simp add: app_init_def generateMockData_def setTimeout_def Let_def updateOnlineStatus_def)

theorem init_without_saved_data_witness:
  "Some Unparsable \<in> {None, Some Unparsable, Some (Parsed JNull)} \<and>
   (\<exists>s. app_init True blank_page (Some Unparsable) ''a'' ''b'' 0 = Inr s \<and>
        reports s = mock_reports ''a'' ''b'' 0 \<and> drafts s = [] \<and> currentUser s = None \<and>
        isOffline s = (\<not> True) \<and>
        timers s = [\<lparr>due = 0 + 1000, task = ShowRegistration\<rparr>, \<lparr>due = 0 + 5000, task = RunSimulation\<rparr>] \<and>
        stored_state (storage s) = Some (map stored_view (mock_reports ''a'' ''b'' 0), [], None))"
  using init_without_saved_data [of "Some Unparsable" True blank_page "''a''" "''b''" 0] by simp

text \<open>
  Claim C40. When no timer is due later than 10000 ms from now, \<open>simulateResolution\<close>
  appends one callback per pending report, the k-th (from 0) due \<open>(k + 1) * 10000\<close> ms
  from now, in the order of \<open>this.reports\<close>.
\<close>

theorem simulate_staggered:
  "\<forall>u\<in>set (timers s). due u \<le> clock s + 10000 \<Longrightarrow>
   timers (simulateResolution s) =
     timers s @ map (\<lambda>(k, r). \<lparr>due = clock s + int (Suc k) * 10000, task = SimCallback (report_id r)\<rparr>)
                  (enumerate 0 (filter is_pending (reports s)))"
  unfolding simulateResolution_def by (rule schedule_sim_staggered) simp

theorem simulate_staggered_witness:
  "timers (simulateResolution demo_start) =
     [\<lparr>due = 1000, task = ShowRegistration\<rparr>, \<lparr>due = 5000, task = RunSimulation\<rparr>,
      \<lparr>due = 10000, task = SimCallback ''a''\<rparr>]"
proof -
  have h: "\<forall>u\<in>set (timers demo_start). due u \<le> clock demo_start + 10000"
    by (simp add: demo_start_timers demo_start_fields)
  have p: "filter is_pending (reports demo_start) = [hd (reports demo_start)]"
    by (simp add: demo_start_fields mock_reports_def is_pending_def pending_statuses_def)
  show ?thesis using simulate_staggered [OF h] p
    by (simp add: demo_start_timers demo_start_fields mock_reports_def)
qed

text \<open>
  Claim C18. Resolving a report shows a notification whose message quotes the
  report's title, interpolated into the notification's \<open>innerHTML\<close> as it is:
  markup that the sanitiser keeps in a title reaches the page again.
\<close>

theorem resolved_notice_renders_title:
  assumes "find (\<lambda>r. report_id r = rid) (reports s) = Some r"
  shows "sublist (title r) (snd (notification_element (ntype (last (notices (updateReportStatus rid ''resolved'' d s))))
           (ntitle (last (notices (updateReportStatus rid ''resolved'' d s))))
           (nmessage (last (notices (updateReportStatus rid ''resolved'' d s))))))"
proof -
  have m: "nmessage (last (notices (updateReportStatus rid ''resolved'' d s))) = resolved_message (title r)"
    using assms by (simp add: updateReportStatus_def Let_def showNotification_def)
  have "resolved_message (title r) = (''Your report '' @ [CHR 0x22]) @ title r @ ([CHR 0x22] @ '' has been resolved.'')"
    by (simp add: resolved_message_def)
  then have t: "sublist (title r) (resolved_message (title r))" by (metis sublist_appendI)
  show ?thesis
    unfolding m by (rule sublist_order.order_trans [OF t conjunct2 [OF notification_text_rendered]])
qed

theorem resolved_notice_renders_title_witness:
  "find (\<lambda>r. report_id r = ''a'') (reports demo_start) = Some (hd (reports demo_start)) \<and>
   sublist (title (hd (reports demo_start)))
     (snd (notification_element (ntype (last (notices (updateReportStatus ''a'' ''resolved'' ''x'' demo_start))))
        (ntitle (last (notices (updateReportStatus ''a'' ''resolved'' ''x'' demo_start))))
        (nmessage (last (notices (updateReportStatus ''a'' ''resolved'' ''x'' demo_start))))))"
proof -
  have f: "find (\<lambda>r. report_id r = ''a'') (reports demo_start) = Some (hd (reports demo_start))"
    by (simp add: demo_start_fields mock_reports_def)
  show ?thesis using resolved_notice_renders_title [OF f, of "''x''"] f by simp
qed

text \<open>
  Claim C19. A report filed under the name of an inherited function of
  \<open>Object.prototype\<close> (such as \<open>constructor\<close>) is routed to that function,
  which \<open>JSON.stringify\<close> leaves out when the state is saved: after a reload the
  report is there, unassigned.
\<close>

theorem proto_category_unassigned_after_reload:
  assumes r: "reachable s"
    and v: "isValid (validateReportData (collectReportData rid (clock s) (isOffline s) (currentUser s) f))"
    and c: "issueCategory f \<in> set object_prototype_members" "issueCategory f \<noteq> ''__proto__''"
    and fresh: "rid \<notin> report_id ` set (reports s)"
  shows "\<exists>s'. app_init online p0 (storage (submitReport rid f s)) id1 id2 t = Inr s' \<and>
              (\<exists>x\<in>set (reports s'). report_id x = rid \<and> category x = issueCategory f \<and> assignedTo x = None)"
proof -
  let ?d = "collectReportData rid (clock s) (isOffline s) (currentUser s) f"
  let ?r = "routeReport (clock s) (vdata (validateReportData ?d))"
  have rs: "reports (submitReport rid f s) = reports s @ [?r]"
    using v by (simp add: submitReport_def Let_def)
  have r1: "reachable (submitReport rid f s)" by (rule reachable_submit [OF r fresh])
  have ne: "reports (submitReport rid f s) \<noteq> []" using rs by simp
  obtain s' where i: "app_init online p0 (storage (submitReport rid f s)) id1 id2 t = Inr s'"
    and rs': "reports s' = newest_first (map stored_view (reports (submitReport rid f s)))"
    using reload_state [OF r1 ne, of online p0 id1 id2 t]
    by blast
  have a: "assignedTo ?r = Some (ProtoMember (issueCategory f))"
    using route_proto [OF c(1)] by simp
  have "stored_view ?r \<in> set (reports s')" using rs rs' by simp
  moreover have "report_id (stored_view ?r) = rid \<and> category (stored_view ?r) = issueCategory f \<and>
                 assignedTo (stored_view ?r) = None"
    using a c(2) by (simp add: stored_view_def kept_assignee_def)
  ultimately show ?thesis using i by blast
qed

theorem proto_category_unassigned_after_reload_witness:
  "reachable demo_start \<and>
   isValid (validateReportData (collectReportData ''r1'' 0 False None proto_form)) \<and>
   issueCategory proto_form \<in> set object_prototype_members \<and> issueCategory proto_form \<noteq> ''__proto__'' \<and>
   ''r1'' \<notin> report_id ` set (reports demo_start) \<and>
   (\<exists>s'. app_init True blank_page (storage (submitReport ''r1'' proto_form demo_start)) ''c'' ''d'' 9 = Inr s' \<and>
      (\<exists>x\<in>set (reports s'). report_id x = ''r1'' \<and> category x = ''constructor'' \<and> assignedTo x = None))"
proof -
  have v: "isValid (validateReportData (collectReportData ''r1'' 0 False None proto_form))"
    by (simp add: proto_form_def pothole_form_def validation_errors_def js_trim_def js_whitespace_def)
  have v': "isValid (validateReportData (collectReportData ''r1'' (clock demo_start) (isOffline demo_start)
              (currentUser demo_start) proto_form))"
    using v by (simp add: demo_start_fields)
  have c: "issueCategory proto_form \<in> set object_prototype_members" "issueCategory proto_form \<noteq> ''__proto__''"
    by (simp_all add: proto_form_def object_prototype_members_def)
  have n: "''r1'' \<notin> report_id ` set (reports demo_start)" by (simp add: demo_start_fields mock_reports_def)
  have k: "issueCategory proto_form = ''constructor''" by (simp add: proto_form_def)
  show ?thesis
    using proto_category_unassigned_after_reload [OF reachable_demo_start v' c n, of True blank_page "''c''" "''d''" 9]
      reachable_demo_start v c n unfolding k by blast
qed

text \<open>
  Claim C36. A successful submission is shown on the tracking page, with the
  search box and both filters empty, with its sanitised title verbatim: \<open>displayReports\<close> interpolates it into \<open>innerHTML\<close>
  unescaped, so markup that \<open>sanitizeInput\<close> keeps (anything but a script
  element) reaches the page as markup.
\<close>

theorem submitted_title_rendered_raw:
  assumes "isValid (validateReportData (collectReportData rid (clock s) (isOffline s) (currentUser s) f))"
  shows "sublist (sanitizeInput (issueTitle f)) (displayReports fmt [] [] [] (reports (submitReport rid f s)))"
proof -
  let ?r = "last (reports (submitReport rid f s))"
  have r: "?r \<in> set (reports (submitReport rid f s))" and t: "title ?r = sanitizeInput (issueTitle f)"
    using assms by (simp_all add: submitReport_def Let_def)
  then have "?r \<in> set (getFilteredReports [] [] [] (reports (submitReport rid f s)))"
    by (simp add: getFilteredReports_eq shown_def js_lower_def)
  then show ?thesis using title_rendered t by metis
qed

theorem submitted_title_rendered_raw_witness:
  "isValid (validateReportData (collectReportData ''r1'' 0 False None img_form)) \<and>
   sanitizeInput ''<img src=x onerror=alert(1)>'' = ''<img src=x onerror=alert(1)>'' \<and>
   sublist ''<img src=x onerror=alert(1)>''
     (displayReports (\<lambda>t. []) [] [] [] (reports (submitReport ''r1'' img_form demo_start)))"
proof -
  have v: "isValid (validateReportData (collectReportData ''r1'' 0 False None img_form))"
    by (simp add: img_form_def pothole_form_def validation_errors_def js_trim_def js_whitespace_def)
  have san: "sanitizeInput ''<img src=x onerror=alert(1)>'' = ''<img src=x onerror=alert(1)>''"
    by code_simp
  show ?thesis
    using submitted_title_rendered_raw [of "''r1''" demo_start img_form "\<lambda>t. []"] v san demo_start_fields
    by (simp add: img_form_def)
qed
text \<open>
  Claim C38. Without further user events the timer queue drains: firing the
  first due timer \<open>timer_weight s\<close> times leaves no timer pending.
\<close>

theorem timers_drain: "timers ((fire_next ^^ timer_weight s) s) = []"
  by (rule fire_drain_le) simp

text \<open>
  Claim C13. Stakeholder tooltips do not stay on the page: in every reachable
  state, once the timer queue has drained (\<open>timer_weight s\<close> firings, C38) no
  tooltip is left, because each tooltip element has a pending removal timer.
\<close>

theorem tooltips_cleared: "reachable s \<Longrightarrow> tooltips (dom ((fire_next ^^ timer_weight s) s)) = []"
proof -
  assume r: "reachable s"
  have "tooltips_ok ((fire_next ^^ timer_weight s) s)"
    by (rule reachable_tooltips_ok [OF reachable_fire_iter [OF r]])
  moreover have "timers ((fire_next ^^ timer_weight s) s) = []" by (rule fire_drain_le) simp
  ultimately have "\<forall>t\<in>set (tooltips (dom ((fire_next ^^ timer_weight s) s))). False"
    by (auto simp: tooltips_ok_def)
  then show ?thesis by (cases "tooltips (dom ((fire_next ^^ timer_weight s) s))") auto
qed

theorem tooltips_cleared_witness:
  "reachable hover_demo \<and> tooltips (dom hover_demo) = [(0, ''Citizens'')] \<and>
   tooltips (dom ((fire_next ^^ timer_weight hover_demo) hover_demo)) = []"
proof -
  have c: "demo_start\<lparr>clock := 0\<rparr> = demo_start" by (simp add: demo_start_fields(2) [symmetric])
  have "app_step demo_start (handle_event (Navigate ''stakeholders'') demo_start)"
    using app_step.event [of demo_start 0 "Navigate ''stakeholders''"] c by (simp add: demo_start_fields)
  then have r1: "reachable (handle_event (Navigate ''stakeholders'') demo_start)"
    by (rule reachable.step [OF reachable_demo_start])
  have c1: "(handle_event (Navigate ''stakeholders'') demo_start)\<lparr>clock := 0\<rparr> =
            handle_event (Navigate ''stakeholders'') demo_start"
    by (simp add: navigateToSection_def displayStakeholders_def updateStakeholderMatrix_def
        demo_start_fields(2) [symmetric])
  have "app_step (handle_event (Navigate ''stakeholders'') demo_start)
          (handle_event (HoverDot ''Citizens'')
            ((handle_event (Navigate ''stakeholders'') demo_start)\<lparr>clock := 0\<rparr>))"
    by (rule app_step.event)
       (simp_all add: navigateToSection_def displayStakeholders_def updateStakeholderMatrix_def
        demo_start_fields)
  then have "app_step (handle_event (Navigate ''stakeholders'') demo_start) hover_demo"
    unfolding c1 hover_demo_def .
  then have r: "reachable hover_demo" by (rule reachable.step [OF r1])
  have d: "dom demo_start = blank_dom" by (rule init_dom [OF demo_start_init])
  have "tooltips (dom hover_demo) = [(0, ''Citizens'')]"
    using show_tooltip_iter [where nm = "''Citizens''" and k = 1 and s = "displayStakeholders demo_start"] d
    by (simp add: hover_demo_def navigateToSection_def stakeholder_mouseover_def displayStakeholders_def
        updateStakeholderMatrix_def blank_dom_def)
  with r tooltips_cleared [OF r] show ?thesis by simp
qed

text \<open>
  Claim C33. The listeners of the stakeholder dots accumulate: after the
  stakeholders section has been opened \<open>k\<close> more times, one \<open>mouseover\<close> on a dot
  appends one tooltip per listener the dot has gathered, not one.
\<close>

theorem stakeholder_tooltips_accumulate:
  "tooltips (dom (handle_event (HoverDot nm) ((handle_event (Navigate ''stakeholders'') ^^ k) s))) =
     tooltips (dom s) @ map (\<lambda>j. (next_tooltip (dom s) + j, nm)) [0..<dot_listeners (dom s) + k]"
  using show_tooltip_iter [where nm = nm and k = "dot_listeners (dom s) + k" and s = "(displayStakeholders ^^ k) s"]
  by (simp add: navigate_stakeholders displayStakeholders_iter stakeholder_mouseover_def)

end
